theory Spec2Isabelle
  imports Complex_Main "HOL-Library.Sublist" "HOL-Library.Log_Nat"
begin

section \<open>Values that cross the tool boundary\<close>

text \<open>
  Tool arguments and tool responses are JSON. Numbers are the integers the server
  handles (identifiers, seconds, millisecond time values); \<open>JNaN\<close> is the NaN that
  arithmetic on an unparseable date produces (no parsed argument is NaN). An absent
  property (\<^verbatim>\<open>undefined\<close>) is \<open>None\<close> of a \<open>json option\<close>.
\<close>

datatype json =
    JNull
  | JNaN
  | JBool bool
  | JNum int
  | JStr string
  | JArr "json list"
  | JObj "(string \<times> json) list"

text \<open>
  A thrown value, as the \<^verbatim>\<open>catch (error: any)\<close> of the request handler meets it.
  JavaScript throws any value: \<^verbatim>\<open>undefined\<close> and \<^verbatim>\<open>null\<close>, of which no property can
  be read, and every other value, of which the handler reads the \<^verbatim>\<open>message\<close> and the
  \<^verbatim>\<open>stack\<close>, each possibly undefined.

  The stack of an error object is a value it was given (\<open>StackValue\<close>), or the trace
  that the engine captured when the error was constructed (\<open>Captured\<close>, with the name of
  the error class and the message): a text that begins with the class and the message
  and goes on with frames that the engine, the file layout and the place of the
  \<^verbatim>\<open>new\<close> decide. The runtime gives that text (\<open>stackTrace\<close> below).
\<close>

datatype stack = NoStack | StackValue json | Captured string string

datatype thrown = ThrownUndefined | ThrownNull | ThrownObject "json option" stack

text \<open>\<^verbatim>\<open>new Error(msg)\<close>, and the errors the engine itself throws.\<close>

definition Error :: "string \<Rightarrow> thrown" where
  "Error msg = ThrownObject (Some (JStr msg)) (Captured ''Error'' msg)"

definition RangeError :: "string \<Rightarrow> thrown" where
  "RangeError msg = ThrownObject (Some (JStr msg)) (Captured ''RangeError'' msg)"

definition TypeError :: "string \<Rightarrow> thrown" where
  "TypeError msg = ThrownObject (Some (JStr msg)) (Captured ''TypeError'' msg)"

section \<open>Reference entities and time entries\<close>

record workspace =
  ws_id :: int
  ws_name :: string
  ws_premium :: bool
  ws_default_currency :: string

record project =
  pr_id :: int
  pr_name :: string
  pr_workspace_id :: int
  pr_client_id :: "int option"
  pr_active :: bool
  pr_billable :: bool
  pr_color :: string
  pr_is_private :: bool

record client =
  cl_id :: int
  cl_name :: string
  cl_workspace_id :: int
  cl_archived :: bool
  cl_notes :: "string option"

record time_entry =
  te_id :: int
  te_workspace_id :: int
  te_project_id :: "int option"
  te_task_id :: "int option"
  te_description :: string
  te_start :: string
  te_stop :: "string option"
  te_duration :: int
  te_tags :: "string list"
  te_billable :: bool

text \<open>HydratedTimeEntry: a TimeEntry plus the resolved names.\<close>

record hydrated_time_entry = time_entry +
  workspace_name :: string
  project_name :: "string option"
  client_name :: "string option"

section \<open>Entity Store\<close>

text \<open>
  Modelled from the spec: the Entity Store of \<^verbatim>\<open>cache-manager.ts\<close>, which is not among
  the sources. Section 4.1 of the specification gives its contract: a bounded map from
  (kind, id) to a value with its \<^verbatim>\<open>storedAt\<close>, per-entry expiry after \<^verbatim>\<open>ttl\<close>, and
  eviction of the least recently used entry across all kinds. The list holds the
  entries in order of use, the least recently used first.
\<close>

datatype kind = Workspace | Project | Client

type_synonym key = "kind \<times> int"

record entity =
  ent_name :: string
  ent_client_id :: "int option"

record cache_entry =
  cached :: entity
  storedAt :: int

record cache_config =
  ttl :: int
  maxSize :: int
  batchSize :: int

type_synonym entity_store = "(key \<times> cache_entry) list"

text \<open>Modelled from the spec: \<^verbatim>\<open>invalidate(kind, id)\<close> removes the entry immediately.\<close>

definition invalidate :: "key \<Rightarrow> entity_store \<Rightarrow> entity_store" where
  "invalidate k es = filter (\<lambda>p. fst p \<noteq> k) es"

text \<open>Modelled from the spec: \<^verbatim>\<open>invalidateAll()\<close>.\<close>

definition invalidateAll :: "entity_store \<Rightarrow> entity_store" where
  "invalidateAll es = []"

text \<open>
  Modelled from the spec: \<^verbatim>\<open>get(kind, id)\<close> returns the cached value only if present
  and not expired (\<^verbatim>\<open>now - storedAt < ttl\<close>); a successful get marks the entry as most
  recently used; an expired entry that is touched is no longer counted.
\<close>

definition get :: "cache_config \<Rightarrow> int \<Rightarrow> key \<Rightarrow> entity_store \<Rightarrow> entity option \<times> entity_store" where
  "get cfg now k es =
     (case map_of es k of
        None \<Rightarrow> (None, es)
      | Some e \<Rightarrow>
          if now - storedAt e < ttl cfg
          then (Some (cached e), invalidate k es @ [(k, e)])
          else (None, invalidate k es))"

text \<open>
  Modelled from the spec: \<^verbatim>\<open>put(kind, id, value)\<close> inserts or refreshes
  \<^verbatim>\<open>storedAt\<close>; if the store size would exceed \<^verbatim>\<open>maxSize\<close>, it evicts the least
  recently used entry across all kinds before inserting; the entry put is the most
  recently used. The second component is the key evicted, if any.
\<close>

definition evictLRU :: "entity_store \<Rightarrow> entity_store \<times> key option" where
  "evictLRU es = (case es of [] \<Rightarrow> ([], None) | p # rest \<Rightarrow> (rest, Some (fst p)))"

definition put :: "cache_config \<Rightarrow> int \<Rightarrow> key \<Rightarrow> entity \<Rightarrow> entity_store \<Rightarrow> entity_store \<times> key option" where
  "put cfg now k v es =
     (let es1 = invalidate k es;
          r = (if maxSize cfg < int (length es1) + 1 then evictLRU es1 else (es1, None))
      in (fst r @ [(k, \<lparr>cached = v, storedAt = now\<rparr>)], snd r))"

text \<open>Modelled from the spec: \<^verbatim>\<open>size()\<close>, the entries held, expired ones included.\<close>

definition store_size :: "entity_store \<Rightarrow> nat" where
  "store_size es = length es"





section \<open>The upstream accessor and the helpers the server imports\<close>

text \<open>
  The TogglAPI class (\<^verbatim>\<open>toggl-api.ts\<close>) is an external collaborator that is not among
  the sources: each of its methods is a parameter. A method answers with its result or
  throws (\<open>Inl\<close>). The argument lists are the ones \<^verbatim>\<open>index.ts\<close> passes; optional
  arguments are passed on as they came. \<open>getWorkspaces\<close>, \<open>getProjects\<close> and
  \<open>getClients\<close> are the listing calls the specification names listWorkspaces,
  listProjects and listClients; \<open>getWorkspace\<close>, \<open>getProject\<close> and \<open>getClient\<close> are its
  single-entity fetches, \<open>Inr None\<close> being the not-found signal.
\<close>

record me =
  me_id :: int
  me_email :: "string option"
  me_fullname :: string

type_synonym date = "int option"

record toggl_api =
  getMe :: "thrown + me"
  getWorkspaces :: "thrown + workspace list"
  getProjects :: "json \<Rightarrow> thrown + project list"
  getClients :: "json \<Rightarrow> thrown + client list"
  getWorkspace :: "int \<Rightarrow> thrown + workspace option"
  getProject :: "int \<Rightarrow> thrown + project option"
  getClient :: "int \<Rightarrow> thrown + client option"
  getTimeEntriesForDateRange :: "date \<Rightarrow> date \<Rightarrow> thrown + time_entry list"
  getTimeEntriesForToday :: "thrown + time_entry list"
  getTimeEntriesForWeek :: "json \<Rightarrow> thrown + time_entry list"
  getCurrentTimeEntry :: "thrown + time_entry option"
  startTimer :: "json \<Rightarrow> json option \<Rightarrow> json option \<Rightarrow> json option \<Rightarrow> json option \<Rightarrow> thrown + time_entry"
  createTimeEntry :: "json \<Rightarrow> (string \<times> json) list \<Rightarrow> thrown + time_entry"
  stopTimer :: "int \<Rightarrow> int \<Rightarrow> thrown + time_entry"
  updateTimeEntry :: "json \<Rightarrow> json \<Rightarrow> (string \<times> json) list \<Rightarrow> thrown + time_entry"
  deleteTimeEntry :: "json \<Rightarrow> json \<Rightarrow> thrown + unit"
  createClient :: "json \<Rightarrow> (string \<times> json) list \<Rightarrow> thrown + client"
  createProject :: "json \<Rightarrow> (string \<times> json) list \<Rightarrow> thrown + project"
  updateProject :: "json \<Rightarrow> json \<Rightarrow> (string \<times> json) list \<Rightarrow> thrown + project"

text \<open>
  The helpers of \<^verbatim>\<open>utils.ts\<close>, not among the sources either: parameters that may throw.
  A project or workspace summary is read by the server only through its
  \<^verbatim>\<open>total_seconds\<close>.
\<close>

record summary =
  total_seconds :: int
  summary_json :: json

record utils =
  getDateRange :: "json option \<Rightarrow> thrown + (date \<times> date)"
  generateDailyReport :: "string \<Rightarrow> hydrated_time_entry list \<Rightarrow> thrown + json"
  generateWeeklyReport :: "date \<Rightarrow> date \<Rightarrow> hydrated_time_entry list \<Rightarrow> thrown + json"
  formatReportForDisplay :: "json \<Rightarrow> thrown + string"
  secondsToHours :: "int \<Rightarrow> thrown + json"
  groupEntriesByProject :: "hydrated_time_entry list \<Rightarrow> thrown + (string \<times> hydrated_time_entry list) list"
  groupEntriesByWorkspace :: "hydrated_time_entry list \<Rightarrow> thrown + (string \<times> hydrated_time_entry list) list"
  generateProjectSummary :: "string \<Rightarrow> hydrated_time_entry list \<Rightarrow> thrown + summary"
  generateWorkspaceSummary :: "string \<Rightarrow> int \<Rightarrow> hydrated_time_entry list \<Rightarrow> thrown + summary"

text \<open>
  What the JavaScript runtime computes and the model does not spell out: parsing a date
  string, the conversions of a value that is neither a number nor a string, the text of
  a time value, the local calendar fields of a time value, the text of an array or
  an object inside a template literal, and the text of the stack trace captured for an
  error of a given class and message.
\<close>

record runtime =
  parseDate :: "string \<Rightarrow> date"
  dateOfValue :: "json \<Rightarrow> date"
  numberOfValue :: "json \<Rightarrow> int option"
  isoString :: "int \<Rightarrow> string"
  getDay :: "int \<Rightarrow> int"
  getDate :: "int \<Rightarrow> int"
  setDate :: "int \<Rightarrow> int \<Rightarrow> date"
  toStr :: "json \<Rightarrow> string"
  stackTrace :: "string \<Rightarrow> string \<Rightarrow> string"

text \<open>
  The process: the collaborators, the configuration read from the environment at start
  (\<open>defaultWorkspaceId\<close> is \<open>None\<close> when the variable is unset, the number \<^verbatim>\<open>parseInt\<close>
  read otherwise, \<open>JNaN\<close> when it read none), and the clock as a request reads it.
\<close>

record env =
  api :: toggl_api
  utils :: utils
  runtime :: runtime
  cacheConfig :: cache_config
  defaultWorkspaceId :: "json option"
  now :: int

section \<open>Server state and effects\<close>

text \<open>
  The state of the process: the cache manager's store and counters, the
  \<^verbatim>\<open>cacheWarmed\<close> flag of \<^verbatim>\<open>index.ts\<close>, and two logs that make effects visible:
  the upstream calls made, in order, and what \<^verbatim>\<open>console.error\<close> was given.
\<close>

record cache_manager =
  entries :: entity_store
  hits :: nat
  misses :: nat
  evictions :: nat

datatype api_call = Call string "json list"

record server_state =
  cache :: cache_manager
  cacheWarmed :: bool
  calls :: "api_call list"
  errlog :: "thrown list"

text \<open>A computation that may throw and that changes the state also when it throws.\<close>

type_synonym 'a action = "server_state \<Rightarrow> (thrown + 'a) \<times> server_state"

definition succeed :: "'a \<Rightarrow> 'a action" where
  "succeed x st = (Inr x, st)"

definition throw :: "thrown \<Rightarrow> 'a action" where
  "throw e st = (Inl e, st)"

definition andThen :: "'a action \<Rightarrow> ('a \<Rightarrow> 'b action) \<Rightarrow> 'b action" where
  "andThen m f st = (case m st of (Inl e, st') \<Rightarrow> (Inl e, st') | (Inr x, st') \<Rightarrow> f x st')"

text \<open>A call of a helper that may throw and touches no state.\<close>

definition attempt :: "thrown + 'a \<Rightarrow> 'a action" where
  "attempt r st = (r, st)"

text \<open>A step that cannot throw.\<close>

definition perform :: "(server_state \<Rightarrow> 'a \<times> server_state) \<Rightarrow> 'a action" where
  "perform f st = (case f st of (x, st') \<Rightarrow> (Inr x, st'))"

text \<open>An awaited call of the upstream accessor: logged, then its answer.\<close>

definition upstream :: "string \<Rightarrow> json list \<Rightarrow> thrown + 'a \<Rightarrow> 'a action" where
  "upstream m as r st = (r, st\<lparr>calls := calls st @ [Call m as]\<rparr>)"

section \<open>Cache Manager\<close>

text \<open>
  Modelled from the spec: the CacheManager class of \<^verbatim>\<open>cache-manager.ts\<close>, which is not
  among the sources; \<^verbatim>\<open>index.ts\<close> only calls it. Section 4.2 of the specification
  gives the contract of each operation below, section 4.3 that of the hydration.
\<close>

definition workspaceEntity :: "workspace \<Rightarrow> entity" where
  "workspaceEntity w = \<lparr>ent_name = ws_name w, ent_client_id = None\<rparr>"

definition projectEntity :: "project \<Rightarrow> entity" where
  "projectEntity p = \<lparr>ent_name = pr_name p, ent_client_id = pr_client_id p\<rparr>"

definition clientEntity :: "client \<Rightarrow> entity" where
  "clientEntity c = \<lparr>ent_name = cl_name c, ent_client_id = None\<rparr>"

text \<open>Modelled from the spec: the clearly marked placeholder name, "Unknown".\<close>

definition placeholder :: string where
  "placeholder = ''Unknown''"

text \<open>Modelled from the spec: a put through the manager counts an eviction.\<close>

definition cachePut :: "cache_config \<Rightarrow> int \<Rightarrow> key \<Rightarrow> entity \<Rightarrow> cache_manager \<Rightarrow> cache_manager" where
  "cachePut cfg t k v cm =
     (let r = put cfg t k v (entries cm)
      in cm\<lparr>entries := fst r,
             evictions := evictions cm + (case snd r of None \<Rightarrow> 0 | Some _ \<Rightarrow> 1)\<rparr>)"

fun cachePutAll :: "cache_config \<Rightarrow> int \<Rightarrow> (key \<times> entity) list \<Rightarrow> cache_manager \<Rightarrow> cache_manager" where
  "cachePutAll cfg t [] cm = cm"
| "cachePutAll cfg t (p # ps) cm = cachePutAll cfg t ps (cachePut cfg t (fst p) (snd p) cm)"

text \<open>Modelled from the spec: the single-entity upstream fetch of each kind.\<close>

fun fetchName :: "kind \<Rightarrow> string" where
  "fetchName Workspace = ''getWorkspace''"
| "fetchName Project = ''getProject''"
| "fetchName Client = ''getClient''"

fun fetchEntity :: "toggl_api \<Rightarrow> kind \<Rightarrow> int \<Rightarrow> thrown + entity option" where
  "fetchEntity a Workspace i = map_sum (\<lambda>e. e) (map_option workspaceEntity) (getWorkspace a i)"
| "fetchEntity a Project i = map_sum (\<lambda>e. e) (map_option projectEntity) (getProject a i)"
| "fetchEntity a Client i = map_sum (\<lambda>e. e) (map_option clientEntity) (getClient a i)"

text \<open>
  Modelled from the spec: a lookup goes to the Entity Store; on a miss it performs a
  single-entity upstream fetch and stores the entity; on upstream failure (or the
  not-found signal) nothing is propagated and nothing is stored. A lookup increments
  \<^verbatim>\<open>hits\<close> on a cache hit and \<^verbatim>\<open>misses\<close> on the fallback fetch, whether the fetch
  succeeds or not.
\<close>

definition lookupEntity :: "env \<Rightarrow> kind \<Rightarrow> int \<Rightarrow> server_state \<Rightarrow> entity option \<times> server_state" where
  "lookupEntity ev kd i st =
     (let cm = cache st;
          r = get (cacheConfig ev) (now ev) (kd, i) (entries cm)
      in case fst r of
           Some v \<Rightarrow> (Some v, st\<lparr>cache := cm\<lparr>entries := snd r, hits := hits cm + 1\<rparr>\<rparr>)
         | None \<Rightarrow>
             (let cm1 = cm\<lparr>entries := snd r, misses := misses cm + 1\<rparr>;
                  cs = calls st @ [Call (fetchName kd) [JNum i]]
              in case fetchEntity (api ev) kd i of
                   Inr (Some v) \<Rightarrow>
                     (Some v, st\<lparr>cache := cachePut (cacheConfig ev) (now ev) (kd, i) v cm1, calls := cs\<rparr>)
                 | _ \<Rightarrow> (None, st\<lparr>cache := cm1, calls := cs\<rparr>)))"

text \<open>Modelled from the spec: the name of an entity, or the placeholder.\<close>

definition lookupName :: "env \<Rightarrow> kind \<Rightarrow> int \<Rightarrow> server_state \<Rightarrow> string \<times> server_state" where
  "lookupName ev kd i st =
     (let r = lookupEntity ev kd i st
      in (case fst r of Some v \<Rightarrow> ent_name v | None \<Rightarrow> placeholder, snd r))"

definition getWorkspaceName :: "env \<Rightarrow> int \<Rightarrow> server_state \<Rightarrow> string \<times> server_state" where
  "getWorkspaceName ev i = lookupName ev Workspace i"

definition getProjectName :: "env \<Rightarrow> int \<Rightarrow> server_state \<Rightarrow> string \<times> server_state" where
  "getProjectName ev i = lookupName ev Project i"

definition getClientName :: "env \<Rightarrow> int \<Rightarrow> server_state \<Rightarrow> string \<times> server_state" where
  "getClientName ev i = lookupName ev Client i"

text \<open>
  Modelled from the spec (section 4.3): for one entry, the workspace name always, the
  project name only if \<^verbatim>\<open>project_id\<close> is present, the client name only if the
  resolved project carries a \<^verbatim>\<open>client_id\<close>; in the order workspace, project, client.
\<close>

definition hydrateEntry :: "env \<Rightarrow> time_entry \<Rightarrow> server_state \<Rightarrow> hydrated_time_entry \<times> server_state" where
  "hydrateEntry ev e st =
     (let w = getWorkspaceName ev (te_workspace_id e) st;
          p = (case te_project_id e of
                 None \<Rightarrow> (None, snd w)
               | Some pid \<Rightarrow> (let r = lookupEntity ev Project pid (snd w) in (Some (fst r), snd r)));
          c = (case fst p of
                 Some (Some pv) \<Rightarrow>
                   (case ent_client_id pv of
                      None \<Rightarrow> (None, snd p)
                    | Some cid \<Rightarrow> (let r = getClientName ev cid (snd p) in (Some (fst r), snd r)))
               | _ \<Rightarrow> (None, snd p))
      in (time_entry.extend e
            \<lparr>workspace_name = fst w,
             project_name = map_option (\<lambda>r. case r of Some pv \<Rightarrow> ent_name pv | None \<Rightarrow> placeholder) (fst p),
             client_name = fst c\<rparr>,
          snd c))"

text \<open>Modelled from the spec: the entries one by one, in input order.\<close>

fun hydrateTimeEntries :: "env \<Rightarrow> time_entry list \<Rightarrow> server_state \<Rightarrow> hydrated_time_entry list \<times> server_state" where
  "hydrateTimeEntries ev [] st = ([], st)"
| "hydrateTimeEntries ev (e # es) st =
     (let h = hydrateEntry ev e st;
          r = hydrateTimeEntries ev es (snd h)
      in (fst h # fst r, snd r))"

text \<open>
  Modelled from the spec: \<^verbatim>\<open>warmCache(workspaceId?)\<close> fetches and stores the
  workspaces (all, or the one given), then for each of them fetches and stores its
  projects and then its clients. A failure of the upstream propagates; what was
  stored before it stays.
\<close>

definition storeAll :: "env \<Rightarrow> (key \<times> entity) list \<Rightarrow> server_state \<Rightarrow> unit \<times> server_state" where
  "storeAll ev ps st = ((), st\<lparr>cache := cachePutAll (cacheConfig ev) (now ev) ps (cache st)\<rparr>)"

fun warmWorkspaces :: "env \<Rightarrow> workspace list \<Rightarrow> unit action" where
  "warmWorkspaces ev [] = succeed ()"
| "warmWorkspaces ev (w # ws) =
     andThen (upstream ''getProjects'' [JNum (ws_id w)] (getProjects (api ev) (JNum (ws_id w)))) (\<lambda>ps.
     andThen (perform (storeAll ev (map (\<lambda>p. ((Project, pr_id p), projectEntity p)) ps))) (\<lambda>_.
     andThen (upstream ''getClients'' [JNum (ws_id w)] (getClients (api ev) (JNum (ws_id w)))) (\<lambda>cs.
     andThen (perform (storeAll ev (map (\<lambda>c. ((Client, cl_id c), clientEntity c)) cs))) (\<lambda>_.
     warmWorkspaces ev ws))))"

definition warmCache :: "env \<Rightarrow> json option \<Rightarrow> unit action" where
  "warmCache ev workspaceId =
     andThen (upstream ''getWorkspaces'' [] (getWorkspaces (api ev))) (\<lambda>wss.
     (let relevant = (case workspaceId of
                        None \<Rightarrow> wss
                      | Some i \<Rightarrow> filter (\<lambda>w. JNum (ws_id w) = i) wss)
      in andThen (perform (storeAll ev (map (\<lambda>w. ((Workspace, ws_id w), workspaceEntity w)) relevant))) (\<lambda>_.
         warmWorkspaces ev relevant)))"

text \<open>Modelled from the spec: \<^verbatim>\<open>clearCache()\<close> calls invalidateAll and resets the counters.\<close>

definition clearCache :: "cache_manager \<Rightarrow> cache_manager" where
  "clearCache cm = \<lparr>entries = invalidateAll (entries cm), hits = 0, misses = 0, evictions = 0\<rparr>"

text \<open>Modelled from the spec: \<^verbatim>\<open>getStats()\<close> returns a snapshot of the counters.\<close>

record cache_stats =
  stat_hits :: nat
  stat_misses :: nat
  stat_evictions :: nat
  stat_size :: nat

definition getStats :: "cache_manager \<Rightarrow> cache_stats" where
  "getStats cm =
     \<lparr>stat_hits = hits cm, stat_misses = misses cm, stat_evictions = evictions cm,
      stat_size = store_size (entries cm)\<rparr>"

section \<open>The server: helpers of \<^verbatim>\<open>index.ts\<close>\<close>

text \<open>
  The argument object of a tool call, \<^verbatim>\<open>request.params.arguments\<close>: its properties.
  \<^verbatim>\<open>args?.k\<close> is \<open>arg a k\<close>; an undefined argument object has no property.
\<close>

type_synonym args = "(string \<times> json) list"

definition arg :: "args \<Rightarrow> string \<Rightarrow> json option" where
  "arg a k = map_of a k"

text \<open>What JavaScript takes for true in \<^verbatim>\<open>if (x)\<close>, \<^verbatim>\<open>!x\<close>, \<^verbatim>\<open>x || y\<close> and \<^verbatim>\<open>x && y\<close>.\<close>

fun truthy :: "json option \<Rightarrow> bool" where
  "truthy None = False"
| "truthy (Some JNull) = False"
| "truthy (Some JNaN) = False"
| "truthy (Some (JBool b)) = b"
| "truthy (Some (JNum n)) = (n \<noteq> 0)"
| "truthy (Some (JStr s)) = (s \<noteq> [])"
| "truthy (Some (JArr xs)) = True"
| "truthy (Some (JObj fs)) = True"

text \<open>\<^verbatim>\<open>x || y\<close>.\<close>

definition orElse :: "json option \<Rightarrow> json option \<Rightarrow> json option" where
  "orElse x y = (if truthy x then x else y)"

text \<open>\<^verbatim>\<open>if (!x) throw e\<close>, after which \<open>x\<close> is a value.\<close>

definition requireTruthy :: "json option \<Rightarrow> thrown \<Rightarrow> json action" where
  "requireTruthy x e =
     (case x of None \<Rightarrow> throw e | Some v \<Rightarrow> if truthy (Some v) then succeed v else throw e)"

text \<open>
  Arithmetic. The operators \<^verbatim>\<open>+\<close>, \<^verbatim>\<open>-\<close>, \<^verbatim>\<open>*\<close> and \<^verbatim>\<open>/\<close> of JavaScript work on
  IEEE 754 double precision numbers: the exact result is rounded to the nearest number
  with a significand of 53 bits, to the one with an even significand at a tie. A finite
  double is a rational number. \<open>binade x\<close> is the exponent \<open>e\<close> with
  \<open>2\<^sup>e \<le> x < 2\<^sup>e\<^sup>+\<^sup>1\<close> of a positive \<open>x\<close>. The exponent range of a double (overflow
  beyond \<open>2\<^sup>1\<^sup>0\<^sup>2\<^sup>4\<close>, gradual underflow below \<open>2\<^sup>-\<^sup>1\<^sup>0\<^sup>2\<^sup>2\<close>) is not modelled: the numbers
  of the server are counters, seconds and millisecond time values and their quotients.
\<close>

definition binade :: "rat \<Rightarrow> int" where
  "binade x = (if 1 \<le> x then bitlen \<lfloor>x\<rfloor> - 1 else - bitlen (\<lceil>1 / x\<rceil> - 1))"

definition roundEven :: "rat \<Rightarrow> int" where
  "roundEven y =
     (let f = \<lfloor>y\<rfloor>; r = y - of_int f
      in if r < 1 / 2 then f else if 1 / 2 < r then f + 1 else if even f then f else f + 1)"

definition toDouble :: "rat \<Rightarrow> rat" where
  "toDouble x =
     (if x = 0 then 0
      else (let u = power_int 2 (binade \<bar>x\<bar> - 52)
            in sgn x * (of_int (roundEven (\<bar>x\<bar> / u)) * u)))"

definition fadd :: "rat \<Rightarrow> rat \<Rightarrow> rat" where
  "fadd x y = toDouble (x + y)"

definition fsub :: "rat \<Rightarrow> rat \<Rightarrow> rat" where
  "fsub x y = toDouble (x - y)"

definition fmul :: "rat \<Rightarrow> rat \<Rightarrow> rat" where
  "fmul x y = toDouble (x * y)"

text \<open>\<^verbatim>\<open>x / y\<close> for a \<open>y\<close> that is not zero.\<close>

definition fdiv :: "rat \<Rightarrow> rat \<Rightarrow> rat" where
  "fdiv x y = toDouble (x / y)"

text \<open>
  Dates. A Date object is its time value in milliseconds, or \<open>None\<close> for an Invalid Date;
  a number is an integer, or \<open>None\<close> for NaN. The time value of a Date is always within
  the 8.64e15 milliseconds around the epoch that \<^verbatim>\<open>TimeClip\<close> admits, and
  \<^verbatim>\<open>new Date(v)\<close> of a number drops its fraction.
\<close>

definition timeClip :: "int option \<Rightarrow> date" where
  "timeClip n =
     (case n of None \<Rightarrow> None
      | Some t \<Rightarrow> if \<bar>t\<bar> \<le> 8640000000000000 then Some t else None)"

definition toInteger :: "rat \<Rightarrow> int" where
  "toInteger v = (if v < 0 then - \<lfloor>- v\<rfloor> else \<lfloor>v\<rfloor>)"

definition dateOfNumber :: "rat \<Rightarrow> date" where
  "dateOfNumber v = (if \<bar>v\<bar> \<le> 8640000000000000 then Some (toInteger v) else None)"

fun newDate :: "runtime \<Rightarrow> json option \<Rightarrow> date" where
  "newDate rt None = None"
| "newDate rt (Some (JStr s)) = timeClip (parseDate rt s)"
| "newDate rt (Some (JNum n)) = timeClip (Some n)"
| "newDate rt (Some JNaN) = None"
| "newDate rt (Some v) = timeClip (dateOfValue rt v)"

fun toNumber :: "runtime \<Rightarrow> json option \<Rightarrow> int option" where
  "toNumber rt None = None"
| "toNumber rt (Some (JNum n)) = Some n"
| "toNumber rt (Some JNaN) = None"
| "toNumber rt (Some JNull) = Some 0"
| "toNumber rt (Some (JBool b)) = Some (if b then 1 else 0)"
| "toNumber rt (Some v) = numberOfValue rt v"

definition numJson :: "int option \<Rightarrow> json" where
  "numJson n = (case n of None \<Rightarrow> JNaN | Some x \<Rightarrow> JNum x)"

text \<open>\<^verbatim>\<open>date.toISOString()\<close> throws a RangeError on an Invalid Date.\<close>

definition toISOString :: "runtime \<Rightarrow> date \<Rightarrow> thrown + string" where
  "toISOString rt d =
     (case d of None \<Rightarrow> Inl (RangeError ''Invalid time value'') | Some t \<Rightarrow> Inr (isoString rt t))"

text \<open>\<^verbatim>\<open>d.setDate(d.getDate() + n)\<close> on a copy of \<open>d\<close>; \<open>n\<close> may be NaN.\<close>

definition addDays :: "runtime \<Rightarrow> date \<Rightarrow> int option \<Rightarrow> date" where
  "addDays rt d n =
     (case d of None \<Rightarrow> None
      | Some t \<Rightarrow> (case n of None \<Rightarrow> None | Some k \<Rightarrow> setDate rt t (getDate rt t + k)))"

text \<open>\<^verbatim>\<open>Math.ceil((stop.getTime() - start.getTime()) / 1000)\<close>.\<close>

definition ceilSeconds :: "date \<Rightarrow> date \<Rightarrow> int option" where
  "ceilSeconds stop start =
     (case stop of None \<Rightarrow> None
      | Some b \<Rightarrow> (case start of None \<Rightarrow> None
                  | Some a \<Rightarrow> Some \<lceil>fdiv (fsub (of_int b) (of_int a)) 1000\<rceil>))"

text \<open>\<^verbatim>\<open>new Date(start.getTime() + (duration * 1000))\<close>.\<close>

definition plusSeconds :: "date \<Rightarrow> int option \<Rightarrow> date" where
  "plusSeconds start duration =
     (case start of None \<Rightarrow> None
      | Some a \<Rightarrow>
          (case duration of None \<Rightarrow> None
           | Some d \<Rightarrow> dateOfNumber (fadd (of_int a) (fmul (of_int d) 1000))))"

text \<open>
  A value inside a template literal. An integer is written in decimal (the program's
  integers stay below the \<open>10\<^sup>2\<^sup>1\<close> from which JavaScript writes an exponent); the
  text of an array or an object is the runtime's.
\<close>

fun showNat :: "nat \<Rightarrow> string" where
  "showNat n =
     (if n < 10 then [''0123456789'' ! n]
      else showNat (n div 10) @ [''0123456789'' ! (n mod 10)])"

definition showInt :: "int \<Rightarrow> string" where
  "showInt i = (if i < 0 then ''-'' @ showNat (nat (- i)) else showNat (nat i))"

fun templateText :: "runtime \<Rightarrow> json \<Rightarrow> string" where
  "templateText rt (JStr s) = s"
| "templateText rt (JNum n) = showInt n"
| "templateText rt JNaN = ''NaN''"
| "templateText rt JNull = ''null''"
| "templateText rt (JBool b) = (if b then ''true'' else ''false'')"
| "templateText rt v = toStr rt v"

fun splitOn :: "char \<Rightarrow> string \<Rightarrow> string list" where
  "splitOn c [] = [[]]"
| "splitOn c (x # xs) =
     (case splitOn c xs of
        [] \<Rightarrow> (if x = c then [[], []] else [[x]])
      | p # ps \<Rightarrow> (if x = c then [] # p # ps else (x # p) # ps))"

text \<open>\<^verbatim>\<open>s.split(c)[0]\<close>.\<close>

definition firstPart :: "char \<Rightarrow> string \<Rightarrow> string" where
  "firstPart c s = (case splitOn c s of [] \<Rightarrow> [] | p # ps \<Rightarrow> p)"

text \<open>
  A response \<^verbatim>\<open>{ content: [{ type: 'text', text }] }\<close>: the text is
  \<^verbatim>\<open>JSON.stringify(v, null, 2)\<close> of a value, or a string as it is.
\<close>

datatype response = JsonText json | PlainText string

text \<open>An object literal as \<^verbatim>\<open>JSON.stringify\<close> writes it: undefined properties are left out.\<close>

definition obj :: "(string \<times> json option) list \<Rightarrow> json" where
  "obj fs = JObj (List.map_filter (\<lambda>f. map_option (Pair (fst f)) (snd f)) fs)"

definition hydratedJson :: "hydrated_time_entry \<Rightarrow> json" where
  "hydratedJson h =
     obj [(''id'', Some (JNum (te_id h))),
          (''workspace_id'', Some (JNum (te_workspace_id h))),
          (''project_id'', map_option JNum (te_project_id h)),
          (''task_id'', map_option JNum (te_task_id h)),
          (''description'', Some (JStr (te_description h))),
          (''start'', Some (JStr (te_start h))),
          (''stop'', map_option JStr (te_stop h)),
          (''duration'', Some (JNum (te_duration h))),
          (''tags'', Some (JArr (map JStr (te_tags h)))),
          (''billable'', Some (JBool (te_billable h))),
          (''workspace_name'', Some (JStr (workspace_name h))),
          (''project_name'', map_option JStr (project_name h)),
          (''client_name'', map_option JStr (client_name h))]"

text \<open>\<^verbatim>\<open>hydrated[0]\<close>.\<close>

definition firstJson :: "hydrated_time_entry list \<Rightarrow> json option" where
  "firstJson hs = (case hs of [] \<Rightarrow> None | h # _ \<Rightarrow> Some (hydratedJson h))"

definition dateJson :: "date \<Rightarrow> json" where
  "dateJson d = numJson d"

text \<open>The first failure of a sequence of helper calls, or all their results.\<close>

fun collect :: "(thrown + 'a) list \<Rightarrow> thrown + 'a list" where
  "collect [] = Inr []"
| "collect (r # rs) =
     (case r of
        Inl e \<Rightarrow> Inl e
      | Inr x \<Rightarrow> (case collect rs of Inl e \<Rightarrow> Inl e | Inr xs \<Rightarrow> Inr (x # xs)))"

subsection \<open>\<^verbatim>\<open>ensureCache\<close> and the invalidation after a write\<close>

text \<open>
  \<^verbatim>\<open>ensureCache\<close> (lines 112 to 121): when the cache has not been warmed, warm it for the
  default workspace and set the flag; a failure is given to \<^verbatim>\<open>console.error\<close> and
  goes no further.
\<close>

definition ensureCache :: "env \<Rightarrow> server_state \<Rightarrow> unit \<times> server_state" where
  "ensureCache ev st =
     (if \<not> cacheWarmed st then
        (case warmCache ev (defaultWorkspaceId ev) st of
           (Inr u, st') \<Rightarrow> ((), st'\<lparr>cacheWarmed := True\<rparr>)
         | (Inl e, st') \<Rightarrow> ((), st'\<lparr>errlog := errlog st' @ [e]\<rparr>))
      else ((), st))"

text \<open>\<^verbatim>\<open>cache.clearCache(); cacheWarmed = false;\<close>\<close>

definition clearAndReset :: "server_state \<Rightarrow> unit \<times> server_state" where
  "clearAndReset st = ((), st\<lparr>cache := clearCache (cache st), cacheWarmed := False\<rparr>)"

definition workspaceIdOf :: "env \<Rightarrow> args \<Rightarrow> json option" where
  "workspaceIdOf ev a = orElse (arg a ''workspace_id'') (defaultWorkspaceId ev)"

definition workspaceRequired :: thrown where
  "workspaceRequired =
     Error ''Workspace ID required (set TOGGL_DEFAULT_WORKSPACE_ID or provide workspace_id)''"

subsection \<open>The tool cases: time tracking\<close>

text \<open>
  \<^verbatim>\<open>maskEmail\<close> of the \<^verbatim>\<open>toggl_check_auth\<close> case (lines 599 to 605).
\<close>

definition maskEmail :: "string option \<Rightarrow> string option" where
  "maskEmail e =
     (case e of
        None \<Rightarrow> None
      | Some s \<Rightarrow>
          if s = [] then None
          else (case splitOn CHR ''@'' s of
                  [] \<Rightarrow> Some ''***''
                | [user] \<Rightarrow> Some ''***''
                | user # domain # rest \<Rightarrow>
                    if domain = [] then Some ''***''
                    else Some ((if length user \<le> 2 then replicate (length user) CHR ''*''
                                else take 1 user @ ''***'' @ drop (length user - 1) user)
                               @ ''@'' @ domain)))"

definition toggl_check_auth :: "env \<Rightarrow> args \<Rightarrow> response action" where
  "toggl_check_auth ev a =
     andThen (upstream ''getMe'' [] (getMe (api ev))) (\<lambda>m.
     andThen (upstream ''getWorkspaces'' [] (getWorkspaces (api ev))) (\<lambda>workspaces.
     succeed (JsonText (obj
       [(''authenticated'', Some (JBool True)),
        (''user'', Some (obj
           [(''id'', Some (JNum (me_id m))),
            (''email'', map_option JStr (maskEmail (me_email m))),
            (''fullname'', Some (JStr (me_fullname m)))])),
        (''workspaces'', Some (JArr (map
           (\<lambda>w. obj [(''id'', Some (JNum (ws_id w))), (''name'', Some (JStr (ws_name w)))])
           workspaces)))]))))"

definition rangeEntries :: "env \<Rightarrow> date \<Rightarrow> date \<Rightarrow> time_entry list action" where
  "rangeEntries ev s e =
     upstream ''getTimeEntriesForDateRange'' [dateJson s, dateJson e]
       (getTimeEntriesForDateRange (api ev) s e)"

definition toggl_get_time_entries :: "env \<Rightarrow> args \<Rightarrow> response action" where
  "toggl_get_time_entries ev a =
     andThen (perform (ensureCache ev)) (\<lambda>_.
     andThen
       (if truthy (arg a ''period'') then
          andThen (attempt (getDateRange (utils ev) (arg a ''period''))) (\<lambda>range.
          rangeEntries ev (fst range) (snd range))
        else if truthy (arg a ''start_date'') \<or> truthy (arg a ''end_date'') then
          rangeEntries ev
            (if truthy (arg a ''start_date'') then newDate (runtime ev) (arg a ''start_date'')
             else Some (now ev))
            (if truthy (arg a ''end_date'') then newDate (runtime ev) (arg a ''end_date'')
             else Some (now ev))
        else upstream ''getTimeEntriesForToday'' [] (getTimeEntriesForToday (api ev)))
       (\<lambda>entries.
     (let entries1 =
            (if truthy (arg a ''workspace_id'')
             then filter (\<lambda>e. Some (JNum (te_workspace_id e)) = arg a ''workspace_id'') entries
             else entries);
          entries2 =
            (if truthy (arg a ''project_id'')
             then filter (\<lambda>e. map_option JNum (te_project_id e) = arg a ''project_id'') entries1
             else entries1)
      in andThen (perform (hydrateTimeEntries ev entries2)) (\<lambda>hydrated.
         succeed (JsonText (obj
           [(''count'', Some (JNum (int (length hydrated)))),
            (''entries'', Some (JArr (map hydratedJson hydrated)))]))))))"

definition toggl_get_current_entry :: "env \<Rightarrow> args \<Rightarrow> response action" where
  "toggl_get_current_entry ev a =
     andThen (upstream ''getCurrentTimeEntry'' [] (getCurrentTimeEntry (api ev))) (\<lambda>entry.
     (case entry of
        None \<Rightarrow>
          succeed (JsonText (obj
            [(''running'', Some (JBool False)),
             (''message'', Some (JStr ''No timer currently running''))]))
      | Some e \<Rightarrow>
          andThen (perform (ensureCache ev)) (\<lambda>_.
          andThen (perform (hydrateTimeEntries ev [e])) (\<lambda>hydrated.
          succeed (JsonText (obj
            [(''running'', Some (JBool True)),
             (''entry'', firstJson hydrated)]))))))"

definition optJson :: "json option \<Rightarrow> json" where
  "optJson v = (case v of None \<Rightarrow> JNull | Some x \<Rightarrow> x)"

definition toggl_start_timer :: "env \<Rightarrow> args \<Rightarrow> response action" where
  "toggl_start_timer ev a =
     andThen (requireTruthy (workspaceIdOf ev a) workspaceRequired) (\<lambda>workspaceId.
     andThen
       (upstream ''startTimer''
          [workspaceId, optJson (arg a ''description''), optJson (arg a ''project_id''),
           optJson (arg a ''task_id''), optJson (arg a ''tags'')]
          (startTimer (api ev) workspaceId (arg a ''description'') (arg a ''project_id'')
             (arg a ''task_id'') (arg a ''tags'')))
       (\<lambda>entry.
     andThen (perform (ensureCache ev)) (\<lambda>_.
     andThen (perform (hydrateTimeEntries ev [entry])) (\<lambda>hydrated.
     succeed (JsonText (obj
       [(''success'', Some (JBool True)),
        (''message'', Some (JStr ''Timer started'')),
        (''entry'', firstJson hydrated)]))))))"

text \<open>
  Lines 729 to 738 of the \<^verbatim>\<open>toggl_create_entry\<close> case: the stop and the duration sent
  upstream, from the \<^verbatim>\<open>stop\<close> and \<^verbatim>\<open>duration\<close> arguments.
\<close>

definition stopAndDuration ::
  "runtime \<Rightarrow> json \<Rightarrow> json option \<Rightarrow> json option \<Rightarrow> (json option \<times> json option) action" where
  "stopAndDuration rt start stop duration =
     (if truthy stop \<and> \<not> truthy duration then
        succeed (stop, Some (numJson (ceilSeconds (newDate rt stop) (newDate rt (Some start)))))
      else if truthy duration \<and> \<not> truthy stop then
        andThen
          (attempt (toISOString rt (plusSeconds (newDate rt (Some start)) (toNumber rt duration))))
          (\<lambda>iso. succeed (Some (JStr iso), duration))
      else if \<not> truthy stop \<and> \<not> truthy duration then
        throw (Error ''Either stop or duration is required'')
      else succeed (stop, duration))"

text \<open>The object given to \<^verbatim>\<open>api.createTimeEntry\<close> (lines 740 to 749).\<close>

definition entryBody :: "args \<Rightarrow> json \<Rightarrow> json option \<Rightarrow> json option \<Rightarrow> (string \<times> json) list" where
  "entryBody a start stop duration =
     List.map_filter (\<lambda>f. map_option (Pair (fst f)) (snd f))
       [(''description'', arg a ''description''),
        (''start'', Some start),
        (''stop'', stop),
        (''duration'', duration),
        (''project_id'', arg a ''project_id''),
        (''task_id'', arg a ''task_id''),
        (''billable'', arg a ''billable''),
        (''tags'', arg a ''tags'')]"

definition toggl_create_entry :: "env \<Rightarrow> args \<Rightarrow> response action" where
  "toggl_create_entry ev a =
     andThen (requireTruthy (workspaceIdOf ev a) workspaceRequired) (\<lambda>workspaceId.
     andThen (requireTruthy (arg a ''start'') (Error ''start is required (ISO 8601 format)'')) (\<lambda>start.
     andThen (stopAndDuration (runtime ev) start (arg a ''stop'') (arg a ''duration'')) (\<lambda>sd.
     (let body = entryBody a start (fst sd) (snd sd)
      in andThen
           (upstream ''createTimeEntry'' [workspaceId, JObj body]
              (createTimeEntry (api ev) workspaceId body))
           (\<lambda>entry.
         andThen (perform (ensureCache ev)) (\<lambda>_.
         andThen (perform (hydrateTimeEntries ev [entry])) (\<lambda>hydrated.
         succeed (JsonText (obj
           [(''success'', Some (JBool True)),
            (''message'', Some (JStr ''Time entry created'')),
            (''entry'', firstJson hydrated)])))))))))"

definition toggl_stop_timer :: "env \<Rightarrow> args \<Rightarrow> response action" where
  "toggl_stop_timer ev a =
     andThen (upstream ''getCurrentTimeEntry'' [] (getCurrentTimeEntry (api ev))) (\<lambda>current.
     (case current of
        None \<Rightarrow>
          succeed (JsonText (obj
            [(''success'', Some (JBool False)),
             (''message'', Some (JStr ''No timer currently running''))]))
      | Some c \<Rightarrow>
          andThen
            (upstream ''stopTimer'' [JNum (te_workspace_id c), JNum (te_id c)]
               (stopTimer (api ev) (te_workspace_id c) (te_id c)))
            (\<lambda>stopped.
          andThen (perform (ensureCache ev)) (\<lambda>_.
          andThen (perform (hydrateTimeEntries ev [stopped])) (\<lambda>hydrated.
          succeed (JsonText (obj
            [(''success'', Some (JBool True)),
             (''message'', Some (JStr ''Timer stopped'')),
             (''entry'', firstJson hydrated)])))))))"

subsection \<open>The tool cases: reports\<close>

definition reportResponse :: "env \<Rightarrow> args \<Rightarrow> json \<Rightarrow> response action" where
  "reportResponse ev a report =
     (if arg a ''format'' = Some (JStr ''text'')
      then andThen (attempt (formatReportForDisplay (utils ev) report)) (\<lambda>t. succeed (PlainText t))
      else succeed (JsonText report))"

definition toggl_daily_report :: "env \<Rightarrow> args \<Rightarrow> response action" where
  "toggl_daily_report ev a =
     andThen (perform (ensureCache ev)) (\<lambda>_.
     (let d = (if truthy (arg a ''date'') then newDate (runtime ev) (arg a ''date'') else Some (now ev));
          nextDay = addDays (runtime ev) d (Some 1)
      in andThen (rangeEntries ev d nextDay) (\<lambda>entries.
         andThen (perform (hydrateTimeEntries ev entries)) (\<lambda>hydrated.
         andThen (attempt (toISOString (runtime ev) d)) (\<lambda>iso.
         andThen (attempt (generateDailyReport (utils ev) (firstPart CHR ''T'' iso) hydrated)) (\<lambda>report.
         reportResponse ev a report))))))"

definition toggl_weekly_report :: "env \<Rightarrow> args \<Rightarrow> response action" where
  "toggl_weekly_report ev a =
     andThen (perform (ensureCache ev)) (\<lambda>_.
     (let weekOffset = orElse (arg a ''week_offset'') (Some (JNum 0))
      in andThen
           (upstream ''getTimeEntriesForWeek'' [optJson weekOffset]
              (getTimeEntriesForWeek (api ev) (optJson weekOffset)))
           (\<lambda>entries.
         andThen (perform (hydrateTimeEntries ev entries)) (\<lambda>hydrated.
         (let rt = runtime ev;
              today = now ev;
              dayOfWeek = getDay rt today;
              diff = getDate rt today - dayOfWeek + (if dayOfWeek = 0 then - 6 else 1);
              monday0 = setDate rt today diff;
              monday = addDays rt monday0 (map_option (\<lambda>k. k * 7) (toNumber rt weekOffset));
              sunday = addDays rt monday (Some 6)
          in andThen (attempt (generateWeeklyReport (utils ev) monday sunday hydrated)) (\<lambda>report.
             reportResponse ev a report))))))"

text \<open>
  The entries of \<^verbatim>\<open>toggl_project_summary\<close> and \<^verbatim>\<open>toggl_workspace_summary\<close>: a
  period, or both dates, or the current week.
\<close>

definition summaryEntries :: "env \<Rightarrow> args \<Rightarrow> time_entry list action" where
  "summaryEntries ev a =
     (if truthy (arg a ''period'') then
        andThen (attempt (getDateRange (utils ev) (arg a ''period''))) (\<lambda>range.
        rangeEntries ev (fst range) (snd range))
      else if truthy (arg a ''start_date'') \<and> truthy (arg a ''end_date'') then
        rangeEntries ev (newDate (runtime ev) (arg a ''start_date''))
          (newDate (runtime ev) (arg a ''end_date''))
      else upstream ''getTimeEntriesForWeek'' [JNum 0] (getTimeEntriesForWeek (api ev) (JNum 0)))"

text \<open>\<^verbatim>\<open>summaries.sort((a, b) => b.total_seconds - a.total_seconds)\<close>: descending, stable.\<close>

definition sortSummaries :: "summary list \<Rightarrow> summary list" where
  "sortSummaries xs = sort_key (\<lambda>x. - total_seconds x) xs"

definition totalHours :: "env \<Rightarrow> summary list \<Rightarrow> thrown + json" where
  "totalHours ev xs = secondsToHours (utils ev) (foldl (\<lambda>t x. t + total_seconds x) 0 xs)"

definition toggl_project_summary :: "env \<Rightarrow> args \<Rightarrow> response action" where
  "toggl_project_summary ev a =
     andThen (perform (ensureCache ev)) (\<lambda>_.
     andThen (summaryEntries ev a) (\<lambda>entries.
     (let entries1 =
            (if truthy (arg a ''workspace_id'')
             then filter (\<lambda>e. Some (JNum (te_workspace_id e)) = arg a ''workspace_id'') entries
             else entries)
      in andThen (perform (hydrateTimeEntries ev entries1)) (\<lambda>hydrated.
         andThen (attempt (groupEntriesByProject (utils ev) hydrated)) (\<lambda>byProject.
         andThen (attempt (collect (map (\<lambda>g. generateProjectSummary (utils ev) (fst g) (snd g)) byProject))) (\<lambda>pushed.
         (let summaries = sortSummaries pushed
          in andThen (attempt (totalHours ev summaries)) (\<lambda>hours.
             succeed (JsonText (obj
               [(''project_count'', Some (JNum (int (length summaries)))),
                (''total_hours'', Some hours),
                (''projects'', Some (JArr (map summary_json summaries)))]))))))))))"

definition toggl_workspace_summary :: "env \<Rightarrow> args \<Rightarrow> response action" where
  "toggl_workspace_summary ev a =
     andThen (perform (ensureCache ev)) (\<lambda>_.
     andThen (summaryEntries ev a) (\<lambda>entries.
     andThen (perform (hydrateTimeEntries ev entries)) (\<lambda>hydrated.
     andThen (attempt (groupEntriesByWorkspace (utils ev) hydrated)) (\<lambda>byWorkspace.
     andThen
       (attempt (collect (map
          (\<lambda>g. generateWorkspaceSummary (utils ev) (fst g)
                  (case snd g of [] \<Rightarrow> 0 | e # _ \<Rightarrow> te_workspace_id e) (snd g))
          byWorkspace)))
       (\<lambda>pushed.
     (let summaries = sortSummaries pushed
      in andThen (attempt (totalHours ev summaries)) (\<lambda>hours.
         succeed (JsonText (obj
           [(''workspace_count'', Some (JNum (int (length summaries)))),
            (''total_hours'', Some hours),
            (''workspaces'', Some (JArr (map summary_json summaries)))])))))))))"

subsection \<open>The tool cases: management\<close>

definition toggl_list_workspaces :: "env \<Rightarrow> args \<Rightarrow> response action" where
  "toggl_list_workspaces ev a =
     andThen (upstream ''getWorkspaces'' [] (getWorkspaces (api ev))) (\<lambda>workspaces.
     succeed (JsonText (obj
       [(''count'', Some (JNum (int (length workspaces)))),
        (''workspaces'', Some (JArr (map
           (\<lambda>w. obj [(''id'', Some (JNum (ws_id w))),
                      (''name'', Some (JStr (ws_name w))),
                      (''premium'', Some (JBool (ws_premium w))),
                      (''default_currency'', Some (JStr (ws_default_currency w)))])
           workspaces)))])))"

definition projectJson :: "project \<Rightarrow> json" where
  "projectJson p =
     obj [(''id'', Some (JNum (pr_id p))),
          (''name'', Some (JStr (pr_name p))),
          (''workspace_id'', Some (JNum (pr_workspace_id p))),
          (''client_id'', map_option JNum (pr_client_id p)),
          (''active'', Some (JBool (pr_active p))),
          (''billable'', Some (JBool (pr_billable p))),
          (''color'', Some (JStr (pr_color p))),
          (''is_private'', Some (JBool (pr_is_private p)))]"

definition toggl_list_projects :: "env \<Rightarrow> args \<Rightarrow> response action" where
  "toggl_list_projects ev a =
     andThen (requireTruthy (workspaceIdOf ev a) workspaceRequired) (\<lambda>workspaceId.
     andThen (upstream ''getProjects'' [workspaceId] (getProjects (api ev) workspaceId)) (\<lambda>projects.
     succeed (JsonText (obj
       [(''workspace_id'', Some workspaceId),
        (''count'', Some (JNum (int (length projects)))),
        (''projects'', Some (JArr (map
           (\<lambda>p. obj [(''id'', Some (JNum (pr_id p))),
                      (''name'', Some (JStr (pr_name p))),
                      (''active'', Some (JBool (pr_active p))),
                      (''billable'', Some (JBool (pr_billable p))),
                      (''color'', Some (JStr (pr_color p))),
                      (''client_id'', map_option JNum (pr_client_id p))])
           projects)))]))))"

definition toggl_list_clients :: "env \<Rightarrow> args \<Rightarrow> response action" where
  "toggl_list_clients ev a =
     andThen (requireTruthy (workspaceIdOf ev a) workspaceRequired) (\<lambda>workspaceId.
     andThen (upstream ''getClients'' [workspaceId] (getClients (api ev) workspaceId)) (\<lambda>clients.
     succeed (JsonText (obj
       [(''workspace_id'', Some workspaceId),
        (''count'', Some (JNum (int (length clients)))),
        (''clients'', Some (JArr (map
           (\<lambda>c. obj [(''id'', Some (JNum (cl_id c))),
                      (''name'', Some (JStr (cl_name c))),
                      (''archived'', Some (JBool (cl_archived c)))])
           clients)))]))))"

text \<open>The properties of \<open>a\<close> among \<open>ks\<close> that are not undefined, as an object.\<close>

definition pick :: "args \<Rightarrow> string list \<Rightarrow> (string \<times> json) list" where
  "pick a ks = List.map_filter (\<lambda>k. map_option (Pair k) (arg a k)) ks"

definition toggl_create_client :: "env \<Rightarrow> args \<Rightarrow> response action" where
  "toggl_create_client ev a =
     andThen (requireTruthy (workspaceIdOf ev a) workspaceRequired) (\<lambda>workspaceId.
     andThen (requireTruthy (arg a ''name'') (Error ''Client name is required'')) (\<lambda>name.
     (let body = (''name'', name) # pick a [''notes'']
      in andThen (upstream ''createClient'' [workspaceId, JObj body] (createClient (api ev) workspaceId body)) (\<lambda>newClient.
         andThen (perform clearAndReset) (\<lambda>_.
         succeed (JsonText (obj
           [(''success'', Some (JBool True)),
            (''message'', Some (JStr (''Client \"'' @ cl_name newClient @ ''\" created''))),
            (''client'', Some (obj
               [(''id'', Some (JNum (cl_id newClient))),
                (''name'', Some (JStr (cl_name newClient))),
                (''workspace_id'', Some (JNum (cl_workspace_id newClient))),
                (''notes'', map_option JStr (cl_notes newClient))]))])))))))"

definition toggl_create_project :: "env \<Rightarrow> args \<Rightarrow> response action" where
  "toggl_create_project ev a =
     andThen (requireTruthy (workspaceIdOf ev a) workspaceRequired) (\<lambda>workspaceId.
     andThen (requireTruthy (arg a ''name'') (Error ''Project name is required'')) (\<lambda>name.
     (let body = (''name'', name) #
            pick a [''client_id'', ''is_private'', ''active'', ''color'', ''billable'', ''estimated_hours'']
      in andThen (upstream ''createProject'' [workspaceId, JObj body] (createProject (api ev) workspaceId body)) (\<lambda>project.
         andThen (perform clearAndReset) (\<lambda>_.
         succeed (JsonText (obj
           [(''success'', Some (JBool True)),
            (''message'', Some (JStr (''Project \"'' @ pr_name project @ ''\" created''))),
            (''project'', Some (projectJson project))])))))))"

definition toggl_update_project :: "env \<Rightarrow> args \<Rightarrow> response action" where
  "toggl_update_project ev a =
     andThen (requireTruthy (workspaceIdOf ev a) workspaceRequired) (\<lambda>workspaceId.
     andThen (requireTruthy (arg a ''project_id'') (Error ''Project ID is required'')) (\<lambda>projectId.
     (let updates =
            pick a [''name'', ''client_id'', ''active'', ''is_private'', ''color'', ''billable'', ''estimated_hours'']
      in andThen
           (upstream ''updateProject'' [workspaceId, projectId, JObj updates]
              (updateProject (api ev) workspaceId projectId updates))
           (\<lambda>updatedProject.
         andThen (perform clearAndReset) (\<lambda>_.
         succeed (JsonText (obj
           [(''success'', Some (JBool True)),
            (''message'', Some (JStr (''Project \"'' @ pr_name updatedProject @ ''\" updated''))),
            (''project'', Some (projectJson updatedProject))])))))))"

definition toggl_update_time_entry :: "env \<Rightarrow> args \<Rightarrow> response action" where
  "toggl_update_time_entry ev a =
     andThen (requireTruthy (workspaceIdOf ev a) workspaceRequired) (\<lambda>workspaceId.
     andThen (requireTruthy (arg a ''time_entry_id'') (Error ''Time entry ID is required'')) (\<lambda>timeEntryId.
     (let entryUpdates =
            pick a [''description'', ''project_id'', ''task_id'', ''billable'', ''start'', ''stop'',
                    ''duration'', ''tags'']
      in andThen
           (upstream ''updateTimeEntry'' [workspaceId, timeEntryId, JObj entryUpdates]
              (updateTimeEntry (api ev) workspaceId timeEntryId entryUpdates))
           (\<lambda>updatedEntry.
         andThen (perform (ensureCache ev)) (\<lambda>_.
         andThen (perform (hydrateTimeEntries ev [updatedEntry])) (\<lambda>hydrated.
         succeed (JsonText (obj
           [(''success'', Some (JBool True)),
            (''message'', Some (JStr ''Time entry updated'')),
            (''entry'', firstJson hydrated)]))))))))"

definition toggl_delete_time_entry :: "env \<Rightarrow> args \<Rightarrow> response action" where
  "toggl_delete_time_entry ev a =
     andThen (requireTruthy (workspaceIdOf ev a) workspaceRequired) (\<lambda>workspaceId.
     andThen (requireTruthy (arg a ''time_entry_id'') (Error ''Time entry ID is required'')) (\<lambda>timeEntryId.
     andThen
       (upstream ''deleteTimeEntry'' [workspaceId, timeEntryId]
          (deleteTimeEntry (api ev) workspaceId timeEntryId))
       (\<lambda>_.
     succeed (JsonText (obj
       [(''success'', Some (JBool True)),
        (''message'', Some (JStr (''Time entry '' @ templateText (runtime ev) timeEntryId @ '' deleted'')))])))))"

subsection \<open>The tool cases: cache management\<close>

definition statsFields :: "cache_stats \<Rightarrow> (string \<times> json option) list" where
  "statsFields stats =
     [(''hits'', Some (JNum (int (stat_hits stats)))),
      (''misses'', Some (JNum (int (stat_misses stats)))),
      (''evictions'', Some (JNum (int (stat_evictions stats)))),
      (''size'', Some (JNum (int (stat_size stats))))]"

definition readStats :: "server_state \<Rightarrow> cache_stats \<times> server_state" where
  "readStats st = (getStats (cache st), st)"

definition setCacheWarmed :: "bool \<Rightarrow> server_state \<Rightarrow> unit \<times> server_state" where
  "setCacheWarmed b st = ((), st\<lparr>cacheWarmed := b\<rparr>)"

definition toggl_warm_cache :: "env \<Rightarrow> args \<Rightarrow> response action" where
  "toggl_warm_cache ev a =
     andThen (warmCache ev (workspaceIdOf ev a)) (\<lambda>_.
     andThen (perform (setCacheWarmed True)) (\<lambda>_.
     andThen (perform readStats) (\<lambda>stats.
     succeed (JsonText (obj
       [(''success'', Some (JBool True)),
        (''message'', Some (JStr ''Cache warmed successfully'')),
        (''stats'', Some (obj (statsFields stats)))])))))"

text \<open>\<^verbatim>\<open>Math.round(x)\<close>, the integer nearest to the double \<open>x\<close>, the larger one at a tie.\<close>

definition mathRound :: "rat \<Rightarrow> int" where
  "mathRound x = \<lfloor>x + 1 / 2\<rfloor>"

text \<open>
  The \<^verbatim>\<open>hitRate\<close> of the \<^verbatim>\<open>toggl_cache_stats\<close> case (lines 1235 to 1237):
  \<^verbatim>\<open>hits + misses > 0 ? Math.round((hits / (hits + misses)) * 100) : 0\<close>, each operator
  on doubles.
\<close>

definition hitRate :: "cache_stats \<Rightarrow> int" where
  "hitRate stats =
     (let h = of_nat (stat_hits stats); m = of_nat (stat_misses stats)
      in if fadd h m > 0 then mathRound (fmul (fdiv h (fadd h m)) 100) else 0)"

definition readCacheWarmed :: "server_state \<Rightarrow> bool \<times> server_state" where
  "readCacheWarmed st = (cacheWarmed st, st)"

definition toggl_cache_stats :: "env \<Rightarrow> args \<Rightarrow> response action" where
  "toggl_cache_stats ev a =
     andThen (perform readStats) (\<lambda>stats.
     andThen (perform readCacheWarmed) (\<lambda>warmed.
     succeed (JsonText (obj
       (statsFields stats @
        [(''hit_rate'', Some (JStr (showInt (hitRate stats) @ ''%''))),
         (''cache_warmed'', Some (JBool warmed))])))))"

definition toggl_clear_cache :: "env \<Rightarrow> args \<Rightarrow> response action" where
  "toggl_clear_cache ev a =
     andThen (perform clearAndReset) (\<lambda>_.
     succeed (JsonText (obj
       [(''success'', Some (JBool True)),
        (''message'', Some (JStr ''Cache cleared successfully''))])))"

subsection \<open>The request handler\<close>

text \<open>The \<^verbatim>\<open>switch (name)\<close> of the CallToolRequestSchema handler (lines 594 to 1268).\<close>

definition callTool :: "env \<Rightarrow> string \<Rightarrow> args \<Rightarrow> response action" where
  "callTool ev name a =
     (if name = ''toggl_check_auth'' then toggl_check_auth ev a
      else if name = ''toggl_get_time_entries'' then toggl_get_time_entries ev a
      else if name = ''toggl_get_current_entry'' then toggl_get_current_entry ev a
      else if name = ''toggl_start_timer'' then toggl_start_timer ev a
      else if name = ''toggl_create_entry'' then toggl_create_entry ev a
      else if name = ''toggl_stop_timer'' then toggl_stop_timer ev a
      else if name = ''toggl_daily_report'' then toggl_daily_report ev a
      else if name = ''toggl_weekly_report'' then toggl_weekly_report ev a
      else if name = ''toggl_project_summary'' then toggl_project_summary ev a
      else if name = ''toggl_workspace_summary'' then toggl_workspace_summary ev a
      else if name = ''toggl_list_workspaces'' then toggl_list_workspaces ev a
      else if name = ''toggl_list_projects'' then toggl_list_projects ev a
      else if name = ''toggl_list_clients'' then toggl_list_clients ev a
      else if name = ''toggl_create_client'' then toggl_create_client ev a
      else if name = ''toggl_create_project'' then toggl_create_project ev a
      else if name = ''toggl_update_project'' then toggl_update_project ev a
      else if name = ''toggl_update_time_entry'' then toggl_update_time_entry ev a
      else if name = ''toggl_delete_time_entry'' then toggl_delete_time_entry ev a
      else if name = ''toggl_warm_cache'' then toggl_warm_cache ev a
      else if name = ''toggl_cache_stats'' then toggl_cache_stats ev a
      else if name = ''toggl_clear_cache'' then toggl_clear_cache ev a
      else throw (Error (''Unknown tool: '' @ name)))"

text \<open>\<^verbatim>\<open>error.stack\<close> as \<^verbatim>\<open>JSON.stringify\<close> meets it.\<close>

definition stackJson :: "runtime \<Rightarrow> stack \<Rightarrow> json option" where
  "stackJson rt s =
     (case s of
        NoStack \<Rightarrow> None
      | StackValue v \<Rightarrow> Some v
      | Captured c m \<Rightarrow> Some (JStr (stackTrace rt c m)))"

text \<open>
  The \<^verbatim>\<open>catch (error: any)\<close> of the handler (lines 1269 to 1280), which returns a
  response with \<^verbatim>\<open>error.message || 'An error occurred'\<close> and \<^verbatim>\<open>error.stack\<close>. Reading
  \<^verbatim>\<open>error.message\<close> of \<^verbatim>\<open>undefined\<close> or \<^verbatim>\<open>null\<close> throws a TypeError, which nothing
  catches.
\<close>

definition errorResponse :: "runtime \<Rightarrow> thrown \<Rightarrow> thrown + response" where
  "errorResponse rt e =
     (case e of
        ThrownUndefined \<Rightarrow>
          Inl (TypeError ''Cannot read properties of undefined (reading 'message')'')
      | ThrownNull \<Rightarrow>
          Inl (TypeError ''Cannot read properties of null (reading 'message')'')
      | ThrownObject m s \<Rightarrow>
          Inr (JsonText (obj
            [(''error'', Some (JBool True)),
             (''message'', orElse m (Some (JStr ''An error occurred''))),
             (''details'', stackJson rt s)])))"

text \<open>
  The CallToolRequestSchema handler (lines 590 to 1281), on the \<^verbatim>\<open>name\<close> and the
  \<^verbatim>\<open>arguments\<close> of \<^verbatim>\<open>request.params\<close>: the promise it returns is fulfilled with a
  response (\<open>Inr\<close>) or rejected (\<open>Inl\<close>).
\<close>

definition handleCallTool ::
  "env \<Rightarrow> string \<Rightarrow> args \<Rightarrow> server_state \<Rightarrow> (thrown + response) \<times> server_state" where
  "handleCallTool ev name a st =
     (case callTool ev name a st of
        (Inr r, st') \<Rightarrow> (Inr r, st')
      | (Inl e, st') \<Rightarrow> (errorResponse (runtime ev) e, st'))"

text \<open>The names of the \<^verbatim>\<open>tools\<close> array (lines 137 to 582).\<close>

definition toolNames :: "string list" where
  "toolNames =
     [''toggl_check_auth'', ''toggl_get_time_entries'', ''toggl_get_current_entry'',
      ''toggl_start_timer'', ''toggl_create_entry'', ''toggl_stop_timer'',
      ''toggl_daily_report'', ''toggl_weekly_report'', ''toggl_project_summary'',
      ''toggl_workspace_summary'', ''toggl_list_workspaces'', ''toggl_list_projects'',
      ''toggl_list_clients'', ''toggl_create_client'', ''toggl_create_project'',
      ''toggl_update_project'', ''toggl_update_time_entry'', ''toggl_delete_time_entry'',
      ''toggl_warm_cache'', ''toggl_cache_stats'', ''toggl_clear_cache'']"

text \<open>
  The state when the process starts (lines 105 and 109): an empty cache, counters at
  zero, \<^verbatim>\<open>cacheWarmed = false\<close>.
\<close>

definition initialState :: server_state where
  "initialState =
     \<lparr>cache = \<lparr>entries = [], hits = 0, misses = 0, evictions = 0\<rparr>,
      cacheWarmed = False, calls = [], errlog = []\<rparr>"

text \<open>The configuration when no variable is set (lines 93 to 97).\<close>

definition defaultConfig :: cache_config where
  "defaultConfig = \<lparr>ttl = 3600000, maxSize = 1000, batchSize = 100\<rparr>"

text \<open>The upstream calls made between two states, in order.\<close>

definition newCalls :: "server_state \<Rightarrow> server_state \<Rightarrow> api_call list" where
  "newCalls st st' = drop (length (calls st)) (calls st')"

text \<open>
  The name the upstream delivers for an entity through the single-entity fetch of its
  kind, read off the accessor itself: none when the fetch fails or gives the not-found
  signal. An entity is unresolvable when the upstream delivers no name for it.
\<close>

fun delivered :: "toggl_api \<Rightarrow> kind \<Rightarrow> int \<Rightarrow> string option" where
  "delivered a Workspace i =
     (case getWorkspace a i of Inl err \<Rightarrow> None | Inr None \<Rightarrow> None | Inr (Some w) \<Rightarrow> Some (ws_name w))"
| "delivered a Project i =
     (case getProject a i of Inl err \<Rightarrow> None | Inr None \<Rightarrow> None | Inr (Some p) \<Rightarrow> Some (pr_name p))"
| "delivered a Client i =
     (case getClient a i of Inl err \<Rightarrow> None | Inr None \<Rightarrow> None | Inr (Some c) \<Rightarrow> Some (cl_name c))"

definition nameOr :: "string option \<Rightarrow> string" where
  "nameOr n = (case n of None \<Rightarrow> placeholder | Some x \<Rightarrow> x)"

text \<open>
  The client of the project the upstream delivers, if it delivers the project and the
  project has one.
\<close>

definition deliveredClientId :: "toggl_api \<Rightarrow> int \<Rightarrow> int option" where
  "deliveredClientId a pid =
     (case getProject a pid of Inl err \<Rightarrow> None | Inr None \<Rightarrow> None | Inr (Some p) \<Rightarrow> pr_client_id p)"

text \<open>
  A store agrees with the upstream when each entity it holds is the one the upstream
  delivers for the key: nothing in it is stale. The empty store does.
\<close>

definition agrees :: "toggl_api \<Rightarrow> entity_store \<Rightarrow> bool" where
  "agrees a es =
     list_all (\<lambda>p. fetchEntity a (fst (fst p)) (snd (fst p)) = Inr (Some (cached (snd p)))) es"

text \<open>An action only ever appends to the log of upstream calls.\<close>

definition grows :: "'a action \<Rightarrow> bool" where
  "grows m = (\<forall>st. prefix (calls st) (calls (snd (m st))))"

text \<open>
  What is thrown, if anything is, is neither \<^verbatim>\<open>undefined\<close> nor \<^verbatim>\<open>null\<close>: of a result,
  of every method of the upstream accessor, of every helper, of both, and of an action
  in every state.
\<close>

definition throwsDefined :: "thrown + 'a \<Rightarrow> bool" where
  "throwsDefined r = (r \<noteq> Inl ThrownUndefined \<and> r \<noteq> Inl ThrownNull)"

definition apiThrowsDefined :: "toggl_api \<Rightarrow> bool" where
  "apiThrowsDefined a =
     (throwsDefined (getMe a) \<and> throwsDefined (getWorkspaces a) \<and>
      (\<forall>w. throwsDefined (getProjects a w)) \<and> (\<forall>w. throwsDefined (getClients a w)) \<and>
      (\<forall>i. throwsDefined (getWorkspace a i)) \<and> (\<forall>i. throwsDefined (getProject a i)) \<and>
      (\<forall>i. throwsDefined (getClient a i)) \<and>
      (\<forall>s e. throwsDefined (getTimeEntriesForDateRange a s e)) \<and>
      throwsDefined (getTimeEntriesForToday a) \<and>
      (\<forall>k. throwsDefined (getTimeEntriesForWeek a k)) \<and>
      throwsDefined (getCurrentTimeEntry a) \<and>
      (\<forall>w d p t g. throwsDefined (startTimer a w d p t g)) \<and>
      (\<forall>w b. throwsDefined (createTimeEntry a w b)) \<and>
      (\<forall>w i. throwsDefined (stopTimer a w i)) \<and>
      (\<forall>w i u. throwsDefined (updateTimeEntry a w i u)) \<and>
      (\<forall>w i. throwsDefined (deleteTimeEntry a w i)) \<and>
      (\<forall>w b. throwsDefined (createClient a w b)) \<and>
      (\<forall>w b. throwsDefined (createProject a w b)) \<and>
      (\<forall>w i u. throwsDefined (updateProject a w i u)))"

definition utilsThrowDefined :: "utils \<Rightarrow> bool" where
  "utilsThrowDefined u =
     ((\<forall>p. throwsDefined (getDateRange u p)) \<and>
      (\<forall>d hs. throwsDefined (generateDailyReport u d hs)) \<and>
      (\<forall>m s hs. throwsDefined (generateWeeklyReport u m s hs)) \<and>
      (\<forall>r. throwsDefined (formatReportForDisplay u r)) \<and>
      (\<forall>n. throwsDefined (secondsToHours u n)) \<and>
      (\<forall>hs. throwsDefined (groupEntriesByProject u hs)) \<and>
      (\<forall>hs. throwsDefined (groupEntriesByWorkspace u hs)) \<and>
      (\<forall>n hs. throwsDefined (generateProjectSummary u n hs)) \<and>
      (\<forall>n i hs. throwsDefined (generateWorkspaceSummary u n i hs)))"

definition collaboratorsThrowDefined :: "env \<Rightarrow> bool" where
  "collaboratorsThrowDefined ev = (apiThrowsDefined (api ev) \<and> utilsThrowDefined (utils ev))"

definition neverThrowsNullish :: "'a action \<Rightarrow> bool" where
  "neverThrowsNullish m = (\<forall>st. throwsDefined (fst (m st)))"

text \<open>An action that leaves \<^verbatim>\<open>cacheWarmed\<close> true when it was.\<close>

definition keepsWarm :: "'a action \<Rightarrow> bool" where
  "keepsWarm m = (\<forall>st. cacheWarmed st \<longrightarrow> cacheWarmed (snd (m st)))"

text \<open>
  The end that the cases \<^verbatim>\<open>toggl_start_timer\<close>, \<^verbatim>\<open>toggl_create_entry\<close>,
  \<^verbatim>\<open>toggl_stop_timer\<close> and \<^verbatim>\<open>toggl_update_time_entry\<close> share, as it runs when
  \<^verbatim>\<open>cacheWarmed\<close> is true and \<^verbatim>\<open>ensureCache\<close> so does nothing: hydrate the entry that the
  upstream returned and answer with it.
\<close>

definition respondHydrated ::
  "env \<Rightarrow> string \<Rightarrow> time_entry \<Rightarrow> server_state \<Rightarrow> (thrown + response) \<times> server_state" where
  "respondHydrated ev msg e st =
     (let H = hydrateTimeEntries ev [e] st
      in (Inr (JsonText (obj
            [(''success'', Some (JBool True)),
             (''message'', Some (JStr msg)),
             (''entry'', firstJson (fst H))])),
          snd H))"

section \<open>Example collaborators\<close>

text \<open>
  Concrete collaborators on which the theorems below are exercised: the entities of the
  specification's scenario, an upstream that answers, an upstream that is unreachable,
  and a runtime that knows two instants.
\<close>

definition acme :: workspace where
  "acme = \<lparr>ws_id = 1, ws_name = ''Acme'', ws_premium = False, ws_default_currency = ''USD''\<rparr>"

definition website :: project where
  "website =
     \<lparr>pr_id = 10, pr_name = ''Website'', pr_workspace_id = 1, pr_client_id = Some 5,
      pr_active = True, pr_billable = False, pr_color = ''#06aaf5'', pr_is_private = False\<rparr>"

definition globex :: client where
  "globex =
     \<lparr>cl_id = 5, cl_name = ''Globex'', cl_workspace_id = 1, cl_archived = False, cl_notes = None\<rparr>"

definition entry100 :: time_entry where
  "entry100 =
     \<lparr>te_id = 100, te_workspace_id = 1, te_project_id = Some 10, te_task_id = None,
      te_description = ''Design'', te_start = ''2026-02-17T17:30:00.000Z'',
      te_stop = Some ''2026-02-17T18:00:00.000Z'', te_duration = 1800, te_tags = [],
      te_billable = False\<rparr>"

definition upApi :: toggl_api where
  "upApi =
     \<lparr>getMe = Inr \<lparr>me_id = 7, me_email = Some ''jane@example.com'', me_fullname = ''Jane''\<rparr>,
      getWorkspaces = Inr [acme],
      getProjects = (\<lambda>w. Inr [website]),
      getClients = (\<lambda>w. Inr [globex]),
      getWorkspace = (\<lambda>i. Inr (if i = 1 then Some acme else None)),
      getProject = (\<lambda>i. Inr (if i = 10 then Some website else None)),
      getClient = (\<lambda>i. Inr (if i = 5 then Some globex else None)),
      getTimeEntriesForDateRange = (\<lambda>s e. Inr [entry100]),
      getTimeEntriesForToday = Inr [entry100],
      getTimeEntriesForWeek = (\<lambda>k. Inr [entry100]),
      getCurrentTimeEntry = Inr None,
      startTimer = (\<lambda>w d p t g. Inr entry100),
      createTimeEntry = (\<lambda>w b. Inr entry100),
      stopTimer = (\<lambda>w i. Inr entry100),
      updateTimeEntry = (\<lambda>w i u. Inr entry100),
      deleteTimeEntry = (\<lambda>w i. Inr ()),
      createClient = (\<lambda>w b. Inr globex),
      createProject = (\<lambda>w b. Inr website),
      updateProject = (\<lambda>w i u. Inr website)\<rparr>"

definition networkError :: thrown where
  "networkError = Error ''Network Error''"

definition downApi :: toggl_api where
  "downApi =
     \<lparr>getMe = Inl networkError,
      getWorkspaces = Inl networkError,
      getProjects = (\<lambda>w. Inl networkError),
      getClients = (\<lambda>w. Inl networkError),
      getWorkspace = (\<lambda>i. Inl networkError),
      getProject = (\<lambda>i. Inl networkError),
      getClient = (\<lambda>i. Inl networkError),
      getTimeEntriesForDateRange = (\<lambda>s e. Inl networkError),
      getTimeEntriesForToday = Inl networkError,
      getTimeEntriesForWeek = (\<lambda>k. Inl networkError),
      getCurrentTimeEntry = Inl networkError,
      startTimer = (\<lambda>w d p t g. Inl networkError),
      createTimeEntry = (\<lambda>w b. Inl networkError),
      stopTimer = (\<lambda>w i. Inl networkError),
      updateTimeEntry = (\<lambda>w i u. Inl networkError),
      deleteTimeEntry = (\<lambda>w i. Inl networkError),
      createClient = (\<lambda>w b. Inl networkError),
      createProject = (\<lambda>w b. Inl networkError),
      updateProject = (\<lambda>w i u. Inl networkError)\<rparr>"

definition someUtils :: utils where
  "someUtils =
     \<lparr>getDateRange = (\<lambda>p. Inr (Some 1771286400000, Some 1771372800000)),
      generateDailyReport = (\<lambda>d hs. Inr (JObj [(''date'', JStr d)])),
      generateWeeklyReport = (\<lambda>m s hs. Inr (JObj [(''week'', dateJson m)])),
      formatReportForDisplay = (\<lambda>r. Inr ''report''),
      secondsToHours = (\<lambda>n. Inr (JNum (n div 3600))),
      groupEntriesByProject = (\<lambda>hs. Inr [(''Website'', hs)]),
      groupEntriesByWorkspace = (\<lambda>hs. Inr [(''Acme'', hs)]),
      generateProjectSummary = (\<lambda>n hs. Inr \<lparr>total_seconds = sum_list (map te_duration hs), summary_json = JStr n\<rparr>),
      generateWorkspaceSummary = (\<lambda>n i hs. Inr \<lparr>total_seconds = sum_list (map te_duration hs), summary_json = JStr n\<rparr>)\<rparr>"

definition someRuntime :: runtime where
  "someRuntime =
     \<lparr>parseDate = (\<lambda>s. if s = ''2026-02-17T17:30:00.000Z'' then Some 1771349400000
                        else if s = ''2026-02-17T18:00:00.500Z'' then Some 1771351200500
                        else None),
      dateOfValue = (\<lambda>v. None),
      numberOfValue = (\<lambda>v. None),
      isoString = (\<lambda>t. if t = 1771349400000 then ''2026-02-17T17:30:00.000Z''
                        else if t = 1771351200000 then ''2026-02-17T18:00:00.000Z''
                        else ''another instant''),
      getDay = (\<lambda>t. 2),
      getDate = (\<lambda>t. 17),
      setDate = (\<lambda>t n. Some (t + (n - 17) * 86400000)),
      toStr = (\<lambda>v. ''[object Object]''),
      stackTrace = (\<lambda>c m. c @ '': '' @ m @ [CHR 0x0A] @ ''    at file:///app/dist/index.js'')\<rparr>"

definition upEnv :: env where
  "upEnv =
     \<lparr>api = upApi, utils = someUtils, runtime = someRuntime, cacheConfig = defaultConfig,
      defaultWorkspaceId = Some (JNum 1), now = 1771349400000\<rparr>"

definition downEnv :: env where
  "downEnv = upEnv\<lparr>api := downApi\<rparr>"

text \<open>Arguments of \<^verbatim>\<open>toggl_create_entry\<close>: with a stop, with a duration, with neither.\<close>

definition entryWithStop :: args where
  "entryWithStop =
     [(''description'', JStr ''Design''), (''start'', JStr ''2026-02-17T17:30:00.000Z''),
      (''stop'', JStr ''2026-02-17T18:00:00.500Z'')]"

definition entryWithDuration :: args where
  "entryWithDuration =
     [(''description'', JStr ''Design''), (''start'', JStr ''2026-02-17T17:30:00.000Z''),
      (''duration'', JNum 1800)]"

definition entryWithNeither :: args where
  "entryWithNeither =
     [(''description'', JStr ''Design''), (''start'', JStr ''2026-02-17T17:30:00.000Z'')]"

text \<open>
  More arguments of \<^verbatim>\<open>toggl_create_entry\<close>: a stop that is no date, a duration that
  leads beyond the last instant a Date can hold, both a stop and a duration, no start,
  a duration of zero, and two instants more than \<open>2\<^sup>5\<^sup>3\<close> milliseconds apart (given as
  time values).
\<close>

definition entryWithBadStop :: args where
  "entryWithBadStop =
     [(''description'', JStr ''Design''), (''start'', JStr ''2026-02-17T17:30:00.000Z''),
      (''stop'', JStr ''tomorrow'')]"

definition entryWithHugeDuration :: args where
  "entryWithHugeDuration =
     [(''description'', JStr ''Design''), (''start'', JStr ''2026-02-17T17:30:00.000Z''),
      (''duration'', JNum 8640000000000)]"

definition entryWithBoth :: args where
  "entryWithBoth =
     [(''description'', JStr ''Design''), (''start'', JStr ''2026-02-17T17:30:00.000Z''),
      (''stop'', JStr ''2026-02-17T18:00:00.500Z''), (''duration'', JNum 60)]"

definition entryWithoutStart :: args where
  "entryWithoutStart = [(''description'', JStr ''Design''), (''duration'', JNum 1800)]"

definition entryWithZeroDuration :: args where
  "entryWithZeroDuration =
     [(''description'', JStr ''Design''), (''start'', JStr ''2026-02-17T17:30:00.000Z''),
      (''duration'', JNum 0)]"

definition entryFarApart :: args where
  "entryFarApart =
     [(''description'', JStr ''Design''), (''start'', JNum (- 8000000000000000)),
      (''stop'', JNum 8000000000000001)]"

text \<open>An upstream whose workspace listing fails while everything else answers.\<close>

definition halfEnv :: env where
  "halfEnv = upEnv\<lparr>api := upApi\<lparr>getWorkspaces := Inl networkError\<rparr>\<rparr>"

text \<open>The state after \<^verbatim>\<open>toggl_warm_cache\<close> on a fresh process, and the process a minute later.\<close>

definition warmedState :: server_state where
  "warmedState = snd (handleCallTool upEnv ''toggl_warm_cache'' [] initialState)"

definition laterEnv :: env where
  "laterEnv = upEnv\<lparr>now := 1771349460000\<rparr>"

text \<open>A process whose cache has answered one lookup and missed two.\<close>

definition oneHitTwoMisses :: server_state where
  "oneHitTwoMisses =
     initialState\<lparr>cache := \<lparr>entries = [], hits = 1, misses = 2, evictions = 0\<rparr>\<rparr>"

text \<open>A process whose cache has answered 23 lookups and missed 17.\<close>

definition manyLookups :: server_state where
  "manyLookups =
     initialState\<lparr>cache := \<lparr>entries = [], hits = 23, misses = 17, evictions = 0\<rparr>\<rparr>"

text \<open>A process that holds one project, cached at the instant of \<open>upEnv\<close>; an hour later.\<close>

definition oneProjectCached :: server_state where
  "oneProjectCached =
     initialState
       \<lparr>cache :=
          \<lparr>entries = [((Project, 10), \<lparr>cached = projectEntity website, storedAt = 1771349400000\<rparr>)],
           hits = 0, misses = 0, evictions = 0\<rparr>\<rparr>"

definition hourLaterEnv :: env where
  "hourLaterEnv = upEnv\<lparr>now := 1771353000000\<rparr>"



text \<open>
  An entry without a project; a process that holds only the workspace; an upstream
  whose single-project fetch fails.
\<close>

definition entry101 :: time_entry where
  "entry101 =
     \<lparr>te_id = 101, te_workspace_id = 1, te_project_id = None, te_task_id = None,
      te_description = ''Email'', te_start = ''2026-02-17T16:00:00.000Z'',
      te_stop = Some ''2026-02-17T16:30:00.000Z'', te_duration = 1800, te_tags = [],
      te_billable = False\<rparr>"

definition oneWorkspaceCached :: server_state where
  "oneWorkspaceCached =
     initialState
       \<lparr>cache :=
          \<lparr>entries = [((Workspace, 1), \<lparr>cached = workspaceEntity acme, storedAt = 1771349400000\<rparr>)],
           hits = 0, misses = 0, evictions = 0\<rparr>\<rparr>"

definition noProjectEnv :: env where
  "noProjectEnv = upEnv\<lparr>api := upApi\<lparr>getProject := (\<lambda>i. Inl networkError)\<rparr>\<rparr>"

text \<open>
  An upstream that serves project 10 but no other project and no client; a store of
  capacity zero and one of capacity one.
\<close>

definition patchyEnv :: env where
  "patchyEnv =
     upEnv\<lparr>api := upApi\<lparr>getProject := (\<lambda>i. if i = 10 then Inr (Some website) else Inl networkError),
                           getClient := (\<lambda>i. Inl networkError)\<rparr>\<rparr>"



text \<open>A project without a client, an entry on it, and an upstream that serves it.\<close>

definition inhouse :: project where
  "inhouse =
     \<lparr>pr_id = 11, pr_name = ''Internal'', pr_workspace_id = 1, pr_client_id = None,
      pr_active = True, pr_billable = False, pr_color = ''#000000'', pr_is_private = True\<rparr>"

definition entry102 :: time_entry where
  "entry102 =
     \<lparr>te_id = 102, te_workspace_id = 1, te_project_id = Some 11, te_task_id = None,
      te_description = ''Planning'', te_start = ''2026-02-17T15:00:00.000Z'',
      te_stop = Some ''2026-02-17T16:00:00.000Z'', te_duration = 3600, te_tags = [],
      te_billable = False\<rparr>"

definition inhouseEnv :: env where
  "inhouseEnv =
     upEnv\<lparr>api := upApi\<lparr>getProject := (\<lambda>i. Inr (if i = 11 then Some inhouse else None))\<rparr>\<rparr>"

text \<open>An upstream whose \<^verbatim>\<open>getMe\<close> throws \<^verbatim>\<open>undefined\<close>, and one that throws \<^verbatim>\<open>new Error()\<close>.\<close>

definition undefinedEnv :: env where
  "undefinedEnv = upEnv\<lparr>api := upApi\<lparr>getMe := Inl ThrownUndefined\<rparr>\<rparr>"

definition emptyErrorEnv :: env where
  "emptyErrorEnv = upEnv\<lparr>api := upApi\<lparr>getMe := Inl (Error [])\<rparr>\<rparr>"

text \<open>
  An upstream with a running timer, and one on which the project has been renamed since
  the cache was warmed.
\<close>

definition runningEnv :: env where
  "runningEnv = upEnv\<lparr>api := upApi\<lparr>getCurrentTimeEntry := Inr (Some entry100)\<rparr>, now := 1771349460000\<rparr>"

definition renamedEnv :: env where
  "renamedEnv =
     upEnv\<lparr>api := upApi\<lparr>getProject := (\<lambda>i. Inr (if i = 10 then Some (website\<lparr>pr_name := ''Website 2''\<rparr>) else None)),
                           getProjects := (\<lambda>w. Inr [website\<lparr>pr_name := ''Website 2''\<rparr>])\<rparr>,
           now := 1771349460000\<rparr>"

definition newClient :: args where
  "newClient = [(''name'', JStr ''Globex'')]"

definition projectRename :: args where
  "projectRename = [(''project_id'', JNum 10), (''name'', JStr ''Website'')]"

definition newProject :: args where
  "newProject = [(''name'', JStr ''Website''), (''client_id'', JNum 5)]"

definition entryUpdate :: args where
  "entryUpdate = [(''time_entry_id'', JNum 100), (''description'', JStr ''Design'')]"

section \<open>Properties\<close>

declare showNat.simps [simp del]

lemma map_of_invalidate_same: "map_of (invalidate k es) k = None"
  by (induction es) (auto simp: invalidate_def)

lemma map_of_invalidate_other: "k' \<noteq> k \<Longrightarrow> map_of (invalidate k es) k' = map_of es k'"
  by (induction es) (auto simp: invalidate_def)

lemma invalidate_idem: "invalidate k (invalidate k es) = invalidate k es"
  by (simp add: invalidate_def)


subsection \<open>The log of upstream calls only grows\<close>

lemma grows_succeed: "grows (succeed x)"
  by (simp add: grows_def succeed_def)

lemma grows_throw: "grows (throw e)"
  by (simp add: grows_def throw_def)

lemma grows_attempt: "grows (attempt r)"
  by (simp add: grows_def attempt_def)

lemma grows_upstream: "grows (upstream m as r)"
  by (simp add: grows_def upstream_def)

lemma grows_andThen: "grows m \<Longrightarrow> (\<And>x. grows (f x)) \<Longrightarrow> grows (andThen m f)"
  unfolding grows_def andThen_def
proof (intro allI)
  fix st
  assume m: "\<forall>st. prefix (calls st) (calls (snd (m st)))"
    and f: "\<And>x. \<forall>st. prefix (calls st) (calls (snd (f x st)))"
  show "prefix (calls st)
          (calls (snd (case m st of (Inl e, st') \<Rightarrow> (Inl e, st') | (Inr x, st') \<Rightarrow> f x st')))"
  proof (cases "m st")
    case (Pair r st')
    from m have p: "prefix (calls st) (calls st')"
      using Pair by (metis snd_conv)
    show ?thesis
    proof (cases r)
      case (Inl e)
      with Pair p show ?thesis by simp
    next
      case (Inr x)
      from f have "prefix (calls st') (calls (snd (f x st')))" by blast
      with p Pair Inr show ?thesis by (auto intro: prefix_order.trans)
    qed
  qed
qed

lemma grows_perform: "(\<And>st. prefix (calls st) (calls (snd (f st)))) \<Longrightarrow> grows (perform f)"
  by (simp add: grows_def perform_def split: prod.splits) (metis snd_conv)

lemma lookupEntity_calls: "prefix (calls st) (calls (snd (lookupEntity ev kd i st)))"
  by (simp add: lookupEntity_def Let_def split: option.splits sum.splits)

lemma lookupName_calls: "prefix (calls st) (calls (snd (lookupName ev kd i st)))"
  by (simp add: lookupName_def Let_def lookupEntity_calls)

lemma hydrateEntry_calls: "prefix (calls st) (calls (snd (hydrateEntry ev e st)))"
proof -
  let ?w = "getWorkspaceName ev (te_workspace_id e) st"
  have w: "prefix (calls st) (calls (snd ?w))"
    by (simp add: getWorkspaceName_def lookupName_calls)
  show ?thesis
    unfolding hydrateEntry_def Let_def
    by (auto simp: getClientName_def split: option.splits
        intro: prefix_order.trans[OF w] prefix_order.trans[OF w lookupEntity_calls]
          prefix_order.trans[OF prefix_order.trans[OF w lookupEntity_calls] lookupName_calls])
qed

lemma hydrateTimeEntries_calls: "prefix (calls st) (calls (snd (hydrateTimeEntries ev es st)))"
proof (induction es arbitrary: st)
  case Nil
  show ?case by simp
next
  case (Cons e es)
  show ?case
    by (simp add: Let_def) (rule prefix_order.trans[OF hydrateEntry_calls Cons.IH])
qed

lemma storeAll_calls: "calls (snd (storeAll ev ps st)) = calls st"
  by (simp add: storeAll_def)

lemma grows_warmWorkspaces: "grows (warmWorkspaces ev ws)"
proof (induction ws)
  case Nil
  show ?case by (simp add: grows_succeed)
next
  case (Cons w ws)
  show ?case
    by simp (intro grows_andThen grows_upstream grows_perform Cons.IH, simp_all add: storeAll_calls)
qed

lemma grows_warmCache: "grows (warmCache ev wid)"
  unfolding warmCache_def Let_def
  by (intro grows_andThen grows_upstream grows_perform grows_warmWorkspaces)
     (simp_all add: storeAll_calls)

lemma ensureCache_calls: "prefix (calls st) (calls (snd (ensureCache ev st)))"
proof -
  have "prefix (calls st) (calls (snd (warmCache ev (defaultWorkspaceId ev) st)))"
    using grows_warmCache by (simp add: grows_def)
  then show ?thesis
    by (auto simp: ensureCache_def split: prod.splits sum.splits)
qed

subsection \<open>Double precision arithmetic\<close>

lemma pow2_pos: "0 < (power_int 2 e :: rat)"
  by (simp add: zero_less_power_int)

lemma pow2_nat: "0 \<le> e \<Longrightarrow> (power_int 2 e :: rat) = of_int (2 ^ nat e)"
  by (simp add: power_int_def)

lemma pow2_Suc: "(power_int 2 (e + 1) :: rat) = 2 * power_int 2 e"
  by (simp add: power_int_add)

lemma binade_bounds:
  assumes "0 < x"
  shows "power_int 2 (binade x) \<le> x" and "x < power_int 2 (binade x + 1)"
proof -
  have "power_int 2 (binade x) \<le> x \<and> x < power_int 2 (binade x + 1)"
  proof (cases "1 \<le> x")
    case True
    let ?n = "\<lfloor>x\<rfloor>"
    from True have n: "0 < ?n" by linarith
    from bitlen_bounds[OF n]
    have lo: "2 ^ nat (bitlen ?n - 1) \<le> ?n" and hi: "?n < 2 ^ nat (bitlen ?n)" by simp_all
    have b1: "1 \<le> bitlen ?n"
      using n bitlen_eq_zero_iff[of ?n] bitlen_nonneg[of ?n] by linarith
    have e: "binade x = bitlen ?n - 1" using True by (simp add: binade_def)
    have "(power_int 2 (bitlen ?n - 1) :: rat) = of_int (2 ^ nat (bitlen ?n - 1))"
      using b1 by (simp add: pow2_nat)
    also have "\<dots> \<le> of_int ?n" using lo by (simp only: of_int_le_iff)
    also have "\<dots> \<le> x" by simp
    finally have A: "power_int 2 (binade x) \<le> x" by (simp add: e)
    have "?n + 1 \<le> 2 ^ nat (bitlen ?n)" using hi by simp
    then have "(of_int (?n + 1) :: rat) \<le> of_int (2 ^ nat (bitlen ?n))"
      by (simp only: of_int_le_iff)
    moreover have "x < of_int (?n + 1)" by linarith
    moreover have "(power_int 2 (bitlen ?n) :: rat) = of_int (2 ^ nat (bitlen ?n))"
      using b1 by (simp add: pow2_nat)
    ultimately have "x < power_int 2 (binade x + 1)" by (simp add: e)
    with A show ?thesis by simp
  next
    case False
    let ?y = "1 / x"
    let ?c = "\<lceil>?y\<rceil> - 1"
    from False assms have y1: "1 < ?y" by simp
    then have c: "0 < ?c" by linarith
    from bitlen_bounds[OF c]
    have lo: "2 ^ nat (bitlen ?c - 1) \<le> ?c" and hi: "?c < 2 ^ nat (bitlen ?c)" by simp_all
    have b1: "1 \<le> bitlen ?c"
      using c bitlen_eq_zero_iff[of ?c] bitlen_nonneg[of ?c] by linarith
    have e: "binade x = - bitlen ?c" using False by (simp add: binade_def)
    have "\<lceil>?y\<rceil> \<le> 2 ^ nat (bitlen ?c)" using hi by simp
    then have "(of_int \<lceil>?y\<rceil> :: rat) \<le> of_int (2 ^ nat (bitlen ?c))"
      by (simp only: of_int_le_iff)
    moreover have "?y \<le> of_int \<lceil>?y\<rceil>" by simp
    ultimately have "?y \<le> of_int (2 ^ nat (bitlen ?c))" by linarith
    then have "?y \<le> power_int 2 (bitlen ?c)"
      using b1 by (simp add: pow2_nat)
    then have "1 / power_int 2 (bitlen ?c) \<le> x"
      using assms pow2_pos[of "bitlen ?c"] by (simp add: field_simps)
    then have A: "power_int 2 (binade x) \<le> x"
      by (simp add: e power_int_minus_divide)
    have "(of_int (2 ^ nat (bitlen ?c - 1)) :: rat) \<le> of_int ?c"
      using lo by (simp only: of_int_le_iff)
    moreover have "of_int ?c < ?y" by linarith
    ultimately have "of_int (2 ^ nat (bitlen ?c - 1)) < ?y" by linarith
    then have "power_int 2 (bitlen ?c - 1) < ?y"
      using b1 by (simp add: pow2_nat)
    then have "x < 1 / power_int 2 (bitlen ?c - 1)"
      using assms pow2_pos[of "bitlen ?c - 1"] by (simp add: field_simps)
    also have "\<dots> = power_int 2 (- (bitlen ?c - 1))"
      by (simp only: power_int_minus_divide)
    finally have "x < power_int 2 (binade x + 1)"
      by (simp add: e)
    with A show ?thesis by simp
  qed
  then show "power_int 2 (binade x) \<le> x" and "x < power_int 2 (binade x + 1)" by simp_all
qed

lemma pow2_mono: "a \<le> b \<Longrightarrow> (power_int 2 a :: rat) \<le> power_int 2 b"
  by (rule power_int_increasing) simp_all

lemma binade_unique:
  assumes "power_int 2 e \<le> x" "x < power_int 2 (e + 1)"
  shows "binade x = e"
proof -
  from assms(1) pow2_pos[of e] have x: "0 < x" by linarith
  note b = binade_bounds[OF x]
  have "\<not> binade x + 1 \<le> e"
  proof
    assume "binade x + 1 \<le> e"
    from pow2_mono[OF this] b(2) assms(1) show False by linarith
  qed
  moreover have "\<not> e + 1 \<le> binade x"
  proof
    assume "e + 1 \<le> binade x"
    from pow2_mono[OF this] b(1) assms(2) show False by linarith
  qed
  ultimately show ?thesis by linarith
qed

lemma roundEven_near: "\<bar>of_int (roundEven y) - y\<bar> \<le> 1 / 2"
proof -
  have "of_int \<lfloor>y\<rfloor> \<le> y" "y < of_int \<lfloor>y\<rfloor> + 1" by linarith+
  then show ?thesis
    by (auto simp: roundEven_def Let_def)
qed

lemma roundEven_int: "roundEven (of_int n) = n"
  by (simp add: roundEven_def)

lemma toDouble_minus: "toDouble (- x) = - toDouble x"
  by (simp add: toDouble_def Let_def sgn_minus)

lemma toDouble_error_pos:
  assumes "0 < x"
  shows "\<bar>toDouble x - x\<bar> \<le> power_int 2 (binade x - 53)"
proof -
  let ?u = "power_int 2 (binade x - 52) :: rat"
  have u: "0 < ?u" by (rule pow2_pos)
  have t: "toDouble x = of_int (roundEven (x / ?u)) * ?u"
    using assms by (simp add: toDouble_def Let_def)
  have "toDouble x - x = (of_int (roundEven (x / ?u)) - x / ?u) * ?u"
    using u by (simp add: t left_diff_distrib)
  then have "\<bar>toDouble x - x\<bar> = \<bar>of_int (roundEven (x / ?u)) - x / ?u\<bar> * \<bar>?u\<bar>"
    by (simp only: abs_mult)
  also have "\<dots> = \<bar>of_int (roundEven (x / ?u)) - x / ?u\<bar> * ?u"
    using u by (simp only: abs_of_pos)
  also have "\<dots> \<le> (1 / 2) * ?u"
    using roundEven_near[of "x / ?u"] u by (intro mult_right_mono) simp_all
  also have "\<dots> = power_int 2 (binade x - 53)"
    using pow2_Suc[of "binade x - 53"] by simp
  finally show ?thesis .
qed

lemma toDouble_error:
  "\<bar>toDouble x - x\<bar> \<le> \<bar>x\<bar> / 2 ^ 53"
proof -
  have pos: "\<bar>toDouble y - y\<bar> \<le> y / 2 ^ 53" if "0 < y" for y
  proof -
    have "(power_int 2 (binade y - 53) :: rat) = power_int 2 (binade y) * power_int 2 (- 53)"
      using power_int_add[of "2 :: rat" "binade y" "- 53"] by simp
    also have "\<dots> \<le> y * power_int 2 (- 53)"
      using binade_bounds(1)[OF that] pow2_pos[of "- 53"] by (intro mult_right_mono) simp_all
    also have "\<dots> = y / 2 ^ 53" by (simp add: power_int_minus_divide)
    finally show ?thesis using toDouble_error_pos[OF that] by linarith
  qed
  consider "x = 0" | "0 < x" | "x < 0" by linarith
  then show ?thesis
  proof cases
    case 1
    then show ?thesis by (simp add: toDouble_def)
  next
    case 2
    with pos[of x] show ?thesis by simp
  next
    case 3
    with pos[of "- x"] show ?thesis by (simp add: toDouble_minus)
  qed
qed

lemma toDouble_exact_pos:
  assumes m: "0 < m" "m < 2 ^ 53"
  shows "toDouble (of_int m * power_int 2 k) = of_int m * power_int 2 k"
proof -
  let ?x = "of_int m * power_int 2 k :: rat"
  let ?j = "bitlen m - 1"
  from bitlen_bounds[OF m(1)]
  have lo: "2 ^ nat ?j \<le> m" and hi: "m < 2 ^ nat (bitlen m)" by simp_all
  have b1: "1 \<le> bitlen m"
    using m(1) bitlen_eq_zero_iff[of m] bitlen_nonneg[of m] by linarith
  have j52: "?j \<le> 52"
  proof (rule ccontr)
    assume "\<not> ?j \<le> 52"
    then have "53 \<le> nat ?j" by simp
    then have "(2 :: int) ^ 53 \<le> 2 ^ nat ?j" by (intro power_increasing) simp_all
    with lo m(2) show False by linarith
  qed
  have x: "0 < ?x" using m(1) pow2_pos[of k] by simp
  have "(power_int 2 ?j :: rat) \<le> of_int m"
    using lo b1 by (simp add: pow2_nat del: of_int_power)
  then have l: "power_int 2 (?j + k) \<le> ?x"
    using pow2_pos[of k] by (simp add: power_int_add)
  have "of_int m < (power_int 2 (?j + 1) :: rat)"
    using hi b1 by (simp add: pow2_nat del: of_int_power)
  then have h: "?x < power_int 2 (?j + k + 1)"
    using pow2_pos[of k] power_int_add[of "2 :: rat" "?j + 1" k] by (simp add: algebra_simps)
  from binade_unique[OF l h] have e: "binade ?x = ?j + k" .
  let ?u = "power_int 2 (?j + k - 52) :: rat"
  have "?x / ?u = of_int m * power_int 2 (52 - ?j)"
    using power_int_add[of "2 :: rat" "?j + k - 52" "52 - ?j"] pow2_pos[of "?j + k - 52"]
    by (simp add: field_simps)
  also have "\<dots> = of_int (m * 2 ^ nat (52 - ?j))"
    using j52 by (simp add: pow2_nat)
  finally have q: "?x / ?u = of_int (m * 2 ^ nat (52 - ?j))" .
  have "toDouble ?x = of_int (roundEven (?x / ?u)) * ?u"
    using x m(1) by (simp add: toDouble_def Let_def e abs_of_pos)
  also have "\<dots> = (?x / ?u) * ?u"
    by (simp only: q roundEven_int)
  also have "\<dots> = ?x"
    using pow2_pos[of "?j + k - 52"] by simp
  finally show ?thesis .
qed

lemma toDouble_exact:
  assumes "\<bar>m\<bar> < 2 ^ 53"
  shows "toDouble (of_int m * power_int 2 k) = of_int m * power_int 2 k"
proof -
  consider "m = 0" | "0 < m" | "m < 0" by linarith
  then show ?thesis
  proof cases
    case 1
    then show ?thesis by (simp add: toDouble_def)
  next
    case 2
    with assms toDouble_exact_pos[of m k] show ?thesis by simp
  next
    case 3
    with assms toDouble_exact_pos[of "- m" k] toDouble_minus[of "of_int (- m) * power_int 2 k"]
    show ?thesis by simp
  qed
qed

lemma toDouble_int: "\<bar>n\<bar> \<le> 2 ^ 53 \<Longrightarrow> toDouble (of_int n) = of_int n"
proof -
  assume a: "\<bar>n\<bar> \<le> 2 ^ 53"
  show ?thesis
  proof (cases "\<bar>n\<bar> < 2 ^ 53")
    case True
    from toDouble_exact[OF True, of 0] show ?thesis by simp
  next
    case False
    with a have "n = 2 ^ 53 \<or> n = - (2 ^ 53)" by linarith
    moreover have "toDouble (of_int 1 * power_int 2 53) = of_int 1 * power_int 2 53"
      by (rule toDouble_exact) simp
    moreover have "toDouble (of_int (- 1) * power_int 2 53) = of_int (- 1) * power_int 2 53"
      by (rule toDouble_exact) simp
    ultimately show ?thesis by auto
  qed
qed

lemma toDouble_nonneg: "0 \<le> x \<Longrightarrow> 0 \<le> toDouble x"
proof -
  assume x: "0 \<le> x"
  from toDouble_error[of x] x have "\<bar>toDouble x - x\<bar> \<le> x / 2 ^ 53" by simp
  moreover have "x / 2 ^ 53 \<le> x" using x by (simp add: field_simps)
  ultimately show ?thesis by linarith
qed

lemma toDouble_pos: "0 < x \<Longrightarrow> 0 < toDouble x"
proof -
  assume x: "0 < x"
  from toDouble_error[of x] x have "\<bar>toDouble x - x\<bar> \<le> x / 2 ^ 53" by simp
  moreover have "x / 2 ^ 53 < x" using x by (simp add: field_simps)
  ultimately show ?thesis by linarith
qed

lemma toDouble_upper: "0 \<le> x \<Longrightarrow> toDouble x \<le> x * (1 + 1 / 2 ^ 53)"
proof -
  assume "0 \<le> x"
  with toDouble_error[of x] have "\<bar>toDouble x - x\<bar> \<le> x / 2 ^ 53" by simp
  then have "toDouble x \<le> x + x / 2 ^ 53" by linarith
  then show ?thesis by (simp add: distrib_left)
qed

lemma toDouble_lower: "0 \<le> x \<Longrightarrow> x * (1 - 1 / 2 ^ 53) \<le> toDouble x"
proof -
  assume "0 \<le> x"
  with toDouble_error[of x] have "\<bar>toDouble x - x\<bar> \<le> x / 2 ^ 53" by simp
  then have "x - x / 2 ^ 53 \<le> toDouble x" by linarith
  then show ?thesis by (simp add: right_diff_distrib)
qed

text \<open>The percentage of the cache statistics.\<close>

lemma percent_range:
  fixes h n :: rat
  assumes "0 \<le> h" "h \<le> n" "0 < n"
  shows "0 \<le> mathRound (fmul (fdiv h (toDouble n)) 100)"
    and "mathRound (fmul (fdiv h (toDouble n)) 100) \<le> 100"
proof -
  let ?e = "1 / 2 ^ 53 :: rat"
  let ?s = "toDouble n"
  have s: "n * (1 - ?e) \<le> ?s" using assms(3) by (intro toDouble_lower) simp
  have sp: "0 < ?s" using assms(3) by (rule toDouble_pos)
  have x0: "0 \<le> h / ?s" using assms(1) sp by simp
  have "h / ?s \<le> n / ?s" using assms(2) sp by (simp add: divide_right_mono)
  also have "\<dots> \<le> n / (n * (1 - ?e))"
    using s assms(3) by (intro divide_left_mono) (simp_all add: sp)
  also have "\<dots> = 1 / (1 - ?e)" using assms(3) by simp
  finally have x1: "h / ?s \<le> 1 / (1 - ?e)" .
  let ?q = "fdiv h ?s"
  have q0: "0 \<le> ?q" unfolding fdiv_def using x0 by (rule toDouble_nonneg)
  have "?q \<le> (h / ?s) * (1 + ?e)" unfolding fdiv_def using x0 by (rule toDouble_upper)
  also have "\<dots> \<le> (1 / (1 - ?e)) * (1 + ?e)" using x1 by (intro mult_right_mono) simp_all
  finally have q1: "?q \<le> (1 / (1 - ?e)) * (1 + ?e)" .
  let ?d = "fmul ?q 100"
  have d0: "0 \<le> ?d" unfolding fmul_def using q0 by (intro toDouble_nonneg) simp
  have "?d \<le> (?q * 100) * (1 + ?e)" unfolding fmul_def using q0 by (intro toDouble_upper) simp
  also have "\<dots> \<le> (((1 / (1 - ?e)) * (1 + ?e)) * 100) * (1 + ?e)"
    using q1 by (intro mult_right_mono) simp_all
  also have "\<dots> < 100 + 1 / 2" by simp
  finally have d1: "?d < 100 + 1 / 2" .
  from d0 show "0 \<le> mathRound ?d" by (simp add: mathRound_def)
  from d1 have "?d + 1 / 2 < 101" by simp
  then have "\<lfloor>?d + 1 / 2\<rfloor> < 101" by (simp add: floor_less_iff)
  then show "mathRound ?d \<le> 100" by (simp add: mathRound_def)
qed

lemma percent_near:
  fixes h n :: int
  assumes "0 \<le> h" "h \<le> n" "0 < n" "n \<le> 2 ^ 44"
  shows "\<bar>of_int (mathRound (fmul (fdiv (of_int h) (toDouble (of_int n))) 100)) - 100 * (of_int h / of_int n)\<bar>
           \<le> (1 / 2 :: rat)"
proof -
  let ?e = "1 / 2 ^ 53 :: rat"
  let ?x = "of_int h / of_int n :: rat"
  have n53: "\<bar>n\<bar> \<le> 2 ^ 53" using assms(3,4) by simp
  have s: "toDouble (of_int n) = of_int n" using n53 by (rule toDouble_int)
  have x0: "0 \<le> ?x" using assms by simp
  have x1: "?x \<le> 1" using assms by simp
  let ?q = "toDouble ?x"
  have q: "\<bar>?q - ?x\<bar> \<le> ?x * ?e" using toDouble_error[of ?x] x0 by simp
  have q0: "0 \<le> ?q" using x0 by (rule toDouble_nonneg)
  let ?p = "?q * 100"
  let ?d = "toDouble ?p"
  have d: "\<bar>?d - ?p\<bar> \<le> ?p * ?e" using toDouble_error[of ?p] q0 by simp
  have "?p \<le> 100 * ?x * (1 + ?e)" using q by (simp add: field_simps abs_le_iff)
  then have "?p * ?e \<le> 100 * ?x * (1 + ?e) * ?e" by (intro mult_right_mono) simp_all
  with d have d': "\<bar>?d - ?p\<bar> \<le> 100 * ?x * (1 + ?e) * ?e" by linarith
  have "\<bar>?p - 100 * ?x\<bar> = 100 * \<bar>?q - ?x\<bar>" by (simp add: abs_if)
  with q have p': "\<bar>?p - 100 * ?x\<bar> \<le> 100 * ?x * ?e" by simp
  have "\<bar>?d - 100 * ?x\<bar> \<le> 100 * ?x * (1 + ?e) * ?e + 100 * ?x * ?e"
    using d' p' by linarith
  also have "\<dots> = ?x * (100 * (2 + ?e) * ?e)" by (simp add: algebra_simps)
  also have "\<dots> \<le> 1 * (100 * (2 + ?e) * ?e)" using x1 by (intro mult_right_mono) simp_all
  also have "\<dots> < 1 / 2 ^ 45" by simp
  finally have eta: "\<bar>?d - 100 * ?x\<bar> < 1 / 2 ^ 45" .
  let ?r = "mathRound ?d"
  have r: "of_int ?r \<le> ?d + 1 / 2" "?d + 1 / 2 < of_int ?r + 1"
    unfolding mathRound_def by linarith+
  have n_inv: "1 / 2 ^ 45 \<le> 1 / (2 * of_int n :: rat)"
  proof -
    have "(of_int n :: rat) \<le> of_int (2 ^ 44)" using assms(4) by (simp only: of_int_le_iff)
    then have "2 * (of_int n :: rat) \<le> 2 ^ 45" by simp
    moreover have "0 < 2 * (of_int n :: rat)" using assms(3) by simp
    ultimately show ?thesis by (simp add: frac_le)
  qed
  have np: "0 < (of_int n :: rat)" using assms(3) by simp
  have up: "of_int ?r - 100 * ?x \<le> 1 / 2"
  proof (rule ccontr)
    assume "\<not> of_int ?r - 100 * ?x \<le> 1 / 2"
    then have g: "0 < of_int ?r - 1 / 2 - 100 * ?x" by simp
    let ?N = "2 * ?r * n - n - 200 * h"
    have eq: "of_int ?r - 1 / 2 - 100 * ?x = of_int ?N / (2 * of_int n)"
      using np by (simp add: field_simps)
    from g have "0 < of_int ?N / (2 * of_int n :: rat)" unfolding eq .
    with np have "0 < (of_int ?N :: rat)" by (simp add: zero_less_divide_iff)
    then have "1 \<le> ?N" by linarith
    then have "(1 :: rat) \<le> of_int ?N" by linarith
    then have "1 / (2 * of_int n) \<le> of_int ?N / (2 * of_int n :: rat)"
      using np by (intro divide_right_mono) simp_all
    with eq n_inv have "1 / 2 ^ 45 \<le> of_int ?r - 1 / 2 - 100 * ?x" by linarith
    with r(1) eta show False by linarith
  qed
  have lo: "- (1 / 2) \<le> of_int ?r - 100 * ?x"
  proof (rule ccontr)
    assume "\<not> - (1 / 2) \<le> of_int ?r - 100 * ?x"
    then have g: "0 < 100 * ?x - 1 / 2 - of_int ?r" by simp
    let ?N = "200 * h - n - 2 * ?r * n"
    have eq: "100 * ?x - 1 / 2 - of_int ?r = of_int ?N / (2 * of_int n)"
      using np by (simp add: field_simps)
    from g have "0 < of_int ?N / (2 * of_int n :: rat)" unfolding eq .
    with np have "0 < (of_int ?N :: rat)" by (simp add: zero_less_divide_iff)
    then have "1 \<le> ?N" by linarith
    then have "(1 :: rat) \<le> of_int ?N" by linarith
    then have "1 / (2 * of_int n) \<le> of_int ?N / (2 * of_int n :: rat)"
      using np by (intro divide_right_mono) simp_all
    with eq n_inv have "1 / 2 ^ 45 \<le> 100 * ?x - 1 / 2 - of_int ?r" by linarith
    with r(2) eta show False by linarith
  qed
  from up lo have "\<bar>of_int ?r - 100 * ?x\<bar> \<le> 1 / 2" by linarith
  then show ?thesis by (simp add: fmul_def fdiv_def s)
qed

text \<open>Seconds between two instants.\<close>

lemma ceil_thousandth:
  fixes t :: int
  assumes "\<bar>t\<bar> < 2 ^ 53"
  shows "\<lceil>toDouble (of_int t / 1000)\<rceil> = \<lceil>(of_int t :: rat) / 1000\<rceil>"
proof -
  let ?x = "of_int t / 1000 :: rat"
  let ?y = "toDouble ?x"
  let ?k = "\<lceil>?x\<rceil>"
  have err: "\<bar>?y - ?x\<bar> \<le> \<bar>?x\<bar> / 2 ^ 53" by (rule toDouble_error)
  have "(of_int \<bar>t\<bar> :: rat) < of_int (2 ^ 53)" using assms by (simp only: of_int_less_iff)
  then have ax: "\<bar>?x\<bar> < 2 ^ 53 / 1000" by simp
  show ?thesis
  proof (cases "t mod 1000 = 0")
    case True
    then obtain c where c: "t = c * 1000" by (metis mod_eq_0_iff_dvd dvd_def mult.commute)
    then have xc: "?x = of_int c" by simp
    from c assms have "\<bar>c\<bar> \<le> 2 ^ 53" by simp
    from toDouble_int[OF this] xc show ?thesis by simp
  next
    case False
    define r where "r = t mod 1000"
    define c where "c = t div 1000"
    have r: "1 \<le> r" "r \<le> 999"
      using False pos_mod_bound[of 1000 t] pos_mod_sign[of 1000 t] by (simp_all add: r_def)
    have "t = c * 1000 + r" by (simp add: r_def c_def)
    then have "(of_int t :: rat) = of_int c * 1000 + of_int r" by simp
    then have xx: "?x = of_int c + of_int r / 1000" by simp
    have r1: "(1 :: rat) \<le> of_int r" using r(1) by linarith
    have r2: "(of_int r :: rat) \<le> 999" using r(2) by linarith
    have l: "of_int c + 1 / 1000 \<le> ?x" using r1 by (simp add: xx)
    have u: "?x \<le> of_int c + 999 / 1000" using r2 by (simp add: xx)
    have "\<bar>?x\<bar> / 2 ^ 53 < (2 ^ 53 / 1000) / 2 ^ 53" using ax by (intro divide_strict_right_mono) simp_all
    with err have e: "\<bar>?y - ?x\<bar> < 1 / 1000" by simp
    have "of_int c < ?x" "?x \<le> of_int c + 1" using l u by linarith+
    then have k: "?k = c + 1" by (simp add: ceiling_eq_iff)
    have "of_int c < ?y" "?y < of_int c + 1" using l u e by linarith+
    then have "\<lceil>?y\<rceil> = c + 1" by (simp add: ceiling_eq_iff)
    with k show ?thesis by simp
  qed
qed

lemma ceil_seconds_exact:
  fixes a b :: int
  assumes "\<bar>b - a\<bar> < 2 ^ 53"
  shows "\<lceil>fdiv (fsub (of_int b) (of_int a)) 1000\<rceil> = \<lceil>(of_int (b - a) :: rat) / 1000\<rceil>"
proof -
  have "\<bar>b - a\<bar> \<le> 2 ^ 53" using assms by simp
  from toDouble_int[OF this] have t: "fsub (of_int b) (of_int a) = of_int (b - a)"
    by (simp add: fsub_def)
  show ?thesis
    unfolding fdiv_def t by (rule ceil_thousandth[OF assms])
qed

text \<open>An instant some seconds after another.\<close>

lemma plus_seconds_exact:
  fixes a d :: int
  assumes "\<bar>a\<bar> \<le> 8640000000000000" "\<bar>a + d * 1000\<bar> \<le> 8640000000000000"
  shows "fadd (of_int a) (fmul (of_int d) 1000) = of_int (a + d * 1000)"
proof -
  have "\<bar>500 * d\<bar> < 2 ^ 53" using assms by simp
  from toDouble_exact[OF this, of 1]
  have m: "fmul (of_int d) 1000 = of_int (d * 1000)"
    by (simp add: fmul_def mult.commute)
  have "\<bar>a + d * 1000\<bar> \<le> 2 ^ 53" using assms(2) by simp
  from toDouble_int[OF this] show ?thesis
    by (simp add: fadd_def m)
qed

lemma toDouble_abs_lower: "\<bar>x\<bar> * (1 - 1 / 2 ^ 53) \<le> \<bar>toDouble x\<bar>"
proof -
  have "\<bar>x\<bar> - \<bar>x\<bar> / 2 ^ 53 \<le> \<bar>toDouble x\<bar>"
    using toDouble_error[of x] by linarith
  then show ?thesis by (simp add: right_diff_distrib)
qed

lemma plus_seconds_invalid:
  fixes a d :: int
  assumes "\<bar>a\<bar> \<le> 8640000000000000" "8640000000000000 < \<bar>a + d * 1000\<bar>"
  shows "8640000000000000 < \<bar>fadd (of_int a) (fmul (of_int d) 1000)\<bar>"
proof (cases "\<bar>500 * d\<bar> < 2 ^ 53")
  case True
  from toDouble_exact[OF True, of 1]
  have m: "fmul (of_int d) 1000 = of_int (d * 1000)"
    by (simp add: fmul_def mult.commute)
  let ?s = "a + d * 1000"
  have f: "fadd (of_int a) (fmul (of_int d) 1000) = toDouble (of_int ?s)"
    by (simp add: fadd_def m)
  show ?thesis
  proof (cases "\<bar>?s\<bar> \<le> 2 ^ 53")
    case True
    from toDouble_int[OF True] assms(2) show ?thesis
      unfolding f by simp
  next
    case False
    then have "2 ^ 53 < \<bar>?s\<bar>" by simp
    then have "(of_int (2 ^ 53) :: rat) < of_int \<bar>?s\<bar>" by (simp only: of_int_less_iff)
    then have big: "(2 ^ 53 :: rat) < \<bar>of_int ?s\<bar>" by simp
    have "(2 ^ 53 :: rat) * (1 - 1 / 2 ^ 53) \<le> \<bar>of_int ?s\<bar> * (1 - 1 / 2 ^ 53)"
      using big by (intro mult_right_mono) simp_all
    with toDouble_abs_lower[of "of_int ?s"]
    have "(2 ^ 53 :: rat) * (1 - 1 / 2 ^ 53) \<le> \<bar>toDouble (of_int ?s)\<bar>" by linarith
    then show ?thesis unfolding f by simp
  qed
next
  case False
  then have "2 ^ 53 \<le> \<bar>500 * d\<bar>" by simp
  then have "2 ^ 54 \<le> \<bar>d * 1000\<bar>" by simp
  then have "(of_int (2 ^ 54) :: rat) \<le> of_int \<bar>d * 1000\<bar>" by (simp only: of_int_le_iff)
  then have big: "(2 ^ 54 :: rat) \<le> \<bar>of_int d * 1000\<bar>" by simp
  let ?p = "fmul (of_int d) 1000"
  have "(2 ^ 54 :: rat) * (1 - 1 / 2 ^ 53) \<le> \<bar>of_int d * 1000\<bar> * (1 - 1 / 2 ^ 53)"
    using big by (intro mult_right_mono) simp_all
  with toDouble_abs_lower[of "of_int d * 1000"]
  have p: "(2 ^ 54 :: rat) * (1 - 1 / 2 ^ 53) \<le> \<bar>?p\<bar>"
    unfolding fmul_def by linarith
  have "(of_int \<bar>a\<bar> :: rat) \<le> of_int 8640000000000000" using assms(1) by (simp only: of_int_le_iff)
  then have a: "\<bar>of_int a :: rat\<bar> \<le> 8640000000000000" by simp
  from p a have s: "(9000000000000000 :: rat) \<le> \<bar>of_int a + ?p\<bar>" by simp
  have "(9000000000000000 :: rat) * (1 - 1 / 2 ^ 53) \<le> \<bar>of_int a + ?p\<bar> * (1 - 1 / 2 ^ 53)"
    using s by (intro mult_right_mono) simp_all
  with toDouble_abs_lower[of "of_int a + ?p"]
  have "(9000000000000000 :: rat) * (1 - 1 / 2 ^ 53) \<le> \<bar>fadd (of_int a) ?p\<bar>"
    unfolding fadd_def by linarith
  then show ?thesis by simp
qed

subsection \<open>The request handler\<close>

lemma unknown_tool:
  "name \<notin> set toolNames \<Longrightarrow> callTool ev name a = throw (Error (''Unknown tool: '' @ name))"
  by (simp add: toolNames_def callTool_def)

lemma handleCallTool_snd: "snd (handleCallTool ev name a st) = snd (callTool ev name a st)"
  by (simp add: handleCallTool_def split: prod.splits sum.splits)

lemma handleCallTool_throw:
  "callTool ev name a = throw e \<Longrightarrow>
     handleCallTool ev name a st = (errorResponse (runtime ev) e, st)"
  by (simp add: handleCallTool_def throw_def)

lemma errorResponse_Error:
  "errorResponse rt (Error (c # cs)) =
     Inr (JsonText (JObj [(''error'', JBool True), (''message'', JStr (c # cs)),
                          (''details'', JStr (stackTrace rt ''Error'' (c # cs)))]))"
  by (simp add: errorResponse_def Error_def obj_def orElse_def stackJson_def
        List.map_filter_simps)

lemma errorResponse_RangeError:
  "errorResponse rt (RangeError (c # cs)) =
     Inr (JsonText (JObj [(''error'', JBool True), (''message'', JStr (c # cs)),
                          (''details'', JStr (stackTrace rt ''RangeError'' (c # cs)))]))"
  by (simp add: errorResponse_def RangeError_def obj_def orElse_def stackJson_def
        List.map_filter_simps)

text \<open>What the server itself throws is an error object.\<close>

lemma throwsDefined_Inr [simp]: "throwsDefined (Inr x)"
  by (simp add: throwsDefined_def)

lemma Error_defined [simp]:
  "Error m \<noteq> ThrownUndefined" "Error m \<noteq> ThrownNull"
  "RangeError m \<noteq> ThrownUndefined" "RangeError m \<noteq> ThrownNull"
  "TypeError m \<noteq> ThrownUndefined" "TypeError m \<noteq> ThrownNull"
  by (simp_all add: Error_def RangeError_def TypeError_def)

lemma throwsDefined_Inl [simp]:
  "throwsDefined (Inl e) \<longleftrightarrow> e \<noteq> ThrownUndefined \<and> e \<noteq> ThrownNull"
  by (simp add: throwsDefined_def)

lemma nn_succeed: "neverThrowsNullish (succeed x)"
  by (simp add: neverThrowsNullish_def succeed_def)

lemma nn_throw: "e \<noteq> ThrownUndefined \<Longrightarrow> e \<noteq> ThrownNull \<Longrightarrow> neverThrowsNullish (throw e)"
  by (simp add: neverThrowsNullish_def throw_def)

lemma nn_attempt: "throwsDefined r \<Longrightarrow> neverThrowsNullish (attempt r)"
  by (simp add: neverThrowsNullish_def attempt_def)

lemma nn_upstream: "throwsDefined r \<Longrightarrow> neverThrowsNullish (upstream m as r)"
  by (simp add: neverThrowsNullish_def upstream_def)

lemma nn_perform: "neverThrowsNullish (perform f)"
  by (simp add: neverThrowsNullish_def perform_def split: prod.splits)

lemma nn_andThen:
  assumes "neverThrowsNullish m" and "\<And>x. neverThrowsNullish (f x)"
  shows "neverThrowsNullish (andThen m f)"
  unfolding neverThrowsNullish_def
proof
  fix st
  show "throwsDefined (fst (andThen m f st))"
  proof (cases "m st")
    case (Pair r st')
    show ?thesis
    proof (cases r)
      case (Inl e)
      from assms(1) have "throwsDefined (fst (m st))" by (simp add: neverThrowsNullish_def)
      with Pair Inl show ?thesis by (simp add: andThen_def)
    next
      case (Inr x)
      from assms(2)[of x] have "throwsDefined (fst (f x st'))"
        by (simp add: neverThrowsNullish_def)
      with Pair Inr show ?thesis by (simp add: andThen_def)
    qed
  qed
qed

lemma nn_if:
  "(c \<Longrightarrow> neverThrowsNullish m) \<Longrightarrow> (\<not> c \<Longrightarrow> neverThrowsNullish n) \<Longrightarrow>
     neverThrowsNullish (if c then m else n)"
  by simp

lemma nn_case_option:
  "neverThrowsNullish m \<Longrightarrow> (\<And>y. neverThrowsNullish (f y)) \<Longrightarrow>
     neverThrowsNullish (case x of None \<Rightarrow> m | Some y \<Rightarrow> f y)"
  by (cases x) simp_all

lemma nn_requireTruthy:
  "e \<noteq> ThrownUndefined \<Longrightarrow> e \<noteq> ThrownNull \<Longrightarrow> neverThrowsNullish (requireTruthy x e)"
  by (cases x) (simp_all add: requireTruthy_def nn_throw nn_succeed)

lemma nn_workspace: "neverThrowsNullish (requireTruthy x workspaceRequired)"
  by (rule nn_requireTruthy) (simp_all add: workspaceRequired_def)

lemma throwsDefined_collect:
  "(\<And>r. r \<in> set rs \<Longrightarrow> throwsDefined r) \<Longrightarrow> throwsDefined (collect rs)"
proof (induction rs)
  case Nil
  show ?case by simp
next
  case (Cons r rs)
  from Cons.prems have r: "throwsDefined r" by simp
  from Cons have c: "throwsDefined (collect rs)" by simp
  from r c show ?case
    by (auto simp: throwsDefined_def split: sum.splits)
qed

lemma throwsDefined_toISOString: "throwsDefined (toISOString rt d)"
  by (simp add: toISOString_def split: option.splits)

lemma nn_warmWorkspaces:
  "apiThrowsDefined (api ev) \<Longrightarrow> neverThrowsNullish (warmWorkspaces ev ws)"
proof (induction ws)
  case Nil
  show ?case by (simp add: nn_succeed)
next
  case (Cons w ws)
  then show ?case
    by simp (intro nn_andThen nn_upstream nn_perform, simp_all add: apiThrowsDefined_def)
qed

lemma nn_warmCache:
  "apiThrowsDefined (api ev) \<Longrightarrow> neverThrowsNullish (warmCache ev wid)"
  unfolding warmCache_def Let_def
  by (intro nn_andThen nn_upstream nn_perform nn_warmWorkspaces)
     (simp_all add: apiThrowsDefined_def)

lemmas nn_rules =
  nn_andThen nn_succeed nn_perform nn_workspace nn_if nn_case_option

lemma nn_rangeEntries:
  "apiThrowsDefined (api ev) \<Longrightarrow> neverThrowsNullish (rangeEntries ev s e)"
  unfolding rangeEntries_def by (rule nn_upstream) (simp add: apiThrowsDefined_def)

lemma nn_summaryEntries:
  "collaboratorsThrowDefined ev \<Longrightarrow> neverThrowsNullish (summaryEntries ev a)"
  unfolding summaryEntries_def collaboratorsThrowDefined_def
  by (intro nn_rules nn_attempt nn_upstream nn_rangeEntries)
     (simp_all add: apiThrowsDefined_def utilsThrowDefined_def)

lemma nn_reportResponse:
  "collaboratorsThrowDefined ev \<Longrightarrow> neverThrowsNullish (reportResponse ev a r)"
  unfolding reportResponse_def collaboratorsThrowDefined_def
  by (intro nn_rules nn_attempt) (simp_all add: utilsThrowDefined_def)

lemma nn_stopAndDuration: "neverThrowsNullish (stopAndDuration rt start stop duration)"
  unfolding stopAndDuration_def
  by (intro nn_rules nn_attempt nn_throw throwsDefined_toISOString) simp_all

lemma nn_tools:
  assumes c: "collaboratorsThrowDefined ev"
  shows "neverThrowsNullish (toggl_check_auth ev a)"
    and "neverThrowsNullish (toggl_get_time_entries ev a)"
    and "neverThrowsNullish (toggl_get_current_entry ev a)"
    and "neverThrowsNullish (toggl_start_timer ev a)"
    and "neverThrowsNullish (toggl_create_entry ev a)"
    and "neverThrowsNullish (toggl_stop_timer ev a)"
    and "neverThrowsNullish (toggl_daily_report ev a)"
    and "neverThrowsNullish (toggl_weekly_report ev a)"
    and "neverThrowsNullish (toggl_project_summary ev a)"
    and "neverThrowsNullish (toggl_workspace_summary ev a)"
    and "neverThrowsNullish (toggl_list_workspaces ev a)"
    and "neverThrowsNullish (toggl_list_projects ev a)"
    and "neverThrowsNullish (toggl_list_clients ev a)"
    and "neverThrowsNullish (toggl_create_client ev a)"
    and "neverThrowsNullish (toggl_create_project ev a)"
    and "neverThrowsNullish (toggl_update_project ev a)"
    and "neverThrowsNullish (toggl_update_time_entry ev a)"
    and "neverThrowsNullish (toggl_delete_time_entry ev a)"
    and "neverThrowsNullish (toggl_warm_cache ev a)"
    and "neverThrowsNullish (toggl_cache_stats ev a)"
    and "neverThrowsNullish (toggl_clear_cache ev a)"
proof -
  from c have a: "apiThrowsDefined (api ev)" and u: "utilsThrowDefined (utils ev)"
    by (simp_all add: collaboratorsThrowDefined_def)
  note api = a[unfolded apiThrowsDefined_def]
  note utl = u[unfolded utilsThrowDefined_def]
  note rules = nn_rules nn_upstream nn_attempt nn_requireTruthy nn_rangeEntries[OF a]
    nn_summaryEntries[OF c] nn_reportResponse[OF c] nn_stopAndDuration nn_warmCache[OF a]
    throwsDefined_toISOString throwsDefined_collect
  show "neverThrowsNullish (toggl_check_auth ev a)"
    unfolding toggl_check_auth_def by (intro rules) (simp_all add: api)
  show "neverThrowsNullish (toggl_get_time_entries ev a)"
    unfolding toggl_get_time_entries_def Let_def by (intro rules) (simp_all add: api utl)
  show "neverThrowsNullish (toggl_get_current_entry ev a)"
    unfolding toggl_get_current_entry_def by (intro rules) (simp_all add: api)
  show "neverThrowsNullish (toggl_start_timer ev a)"
    unfolding toggl_start_timer_def by (intro rules) (simp_all add: api)
  show "neverThrowsNullish (toggl_create_entry ev a)"
    unfolding toggl_create_entry_def Let_def by (intro rules) (simp_all add: api)
  show "neverThrowsNullish (toggl_stop_timer ev a)"
    unfolding toggl_stop_timer_def by (intro rules) (simp_all add: api)
  show "neverThrowsNullish (toggl_daily_report ev a)"
    unfolding toggl_daily_report_def Let_def by (intro rules) (simp_all add: api utl)
  show "neverThrowsNullish (toggl_weekly_report ev a)"
    unfolding toggl_weekly_report_def Let_def by (intro rules) (simp_all add: api utl)
  show "neverThrowsNullish (toggl_project_summary ev a)"
    unfolding toggl_project_summary_def Let_def totalHours_def
    by (intro rules) (auto simp: api utl)
  show "neverThrowsNullish (toggl_workspace_summary ev a)"
    unfolding toggl_workspace_summary_def Let_def totalHours_def
    by (intro rules) (auto simp: api utl)
  show "neverThrowsNullish (toggl_list_workspaces ev a)"
    unfolding toggl_list_workspaces_def by (intro rules) (simp_all add: api)
  show "neverThrowsNullish (toggl_list_projects ev a)"
    unfolding toggl_list_projects_def by (intro rules) (simp_all add: api)
  show "neverThrowsNullish (toggl_list_clients ev a)"
    unfolding toggl_list_clients_def by (intro rules) (simp_all add: api)
  show "neverThrowsNullish (toggl_create_client ev a)"
    unfolding toggl_create_client_def Let_def by (intro rules) (simp_all add: api)
  show "neverThrowsNullish (toggl_create_project ev a)"
    unfolding toggl_create_project_def Let_def by (intro rules) (simp_all add: api)
  show "neverThrowsNullish (toggl_update_project ev a)"
    unfolding toggl_update_project_def Let_def by (intro rules) (simp_all add: api)
  show "neverThrowsNullish (toggl_update_time_entry ev a)"
    unfolding toggl_update_time_entry_def Let_def by (intro rules) (simp_all add: api)
  show "neverThrowsNullish (toggl_delete_time_entry ev a)"
    unfolding toggl_delete_time_entry_def by (intro rules) (simp_all add: api)
  show "neverThrowsNullish (toggl_warm_cache ev a)"
    unfolding toggl_warm_cache_def by (intro rules)
  show "neverThrowsNullish (toggl_cache_stats ev a)"
    unfolding toggl_cache_stats_def by (intro rules)
  show "neverThrowsNullish (toggl_clear_cache ev a)"
    unfolding toggl_clear_cache_def by (intro rules)
qed

lemma nn_callTool:
  "collaboratorsThrowDefined ev \<Longrightarrow> neverThrowsNullish (callTool ev name a)"
  unfolding callTool_def
  by (intro nn_if nn_tools nn_throw) simp_all

text \<open>
  C8. Whatever the tool name and the arguments: when nothing that a collaborator throws
  is \<^verbatim>\<open>undefined\<close> or \<^verbatim>\<open>null\<close>, the handler returns a response and does not reject (what
  the server itself throws is always an error object). The response is that of the
  tool case when the case returns. When the case throws a value other than
  \<^verbatim>\<open>undefined\<close> and \<^verbatim>\<open>null\<close>, the response is a JSON object with \<^verbatim>\<open>error: true\<close>, as
  \<^verbatim>\<open>message\<close> the thrown value's message when that is truthy and "An error occurred"
  otherwise, and as \<^verbatim>\<open>details\<close> its stack when it has one; the state is the one the case
  left. A name that is not a tool's is answered so with the message "Unknown tool: "
  followed by the name. When the case throws \<^verbatim>\<open>undefined\<close> or \<^verbatim>\<open>null\<close>, the handler
  rejects with the TypeError of reading \<^verbatim>\<open>message\<close>.
\<close>

theorem handler_never_rejects:
  "(collaboratorsThrowDefined ev \<longrightarrow> (\<exists>r. fst (handleCallTool ev name a st) = Inr r))
   \<and> (\<forall>r. fst (callTool ev name a st) = Inr r \<longrightarrow>
        handleCallTool ev name a st = (Inr r, snd (callTool ev name a st)))
   \<and> (\<forall>m s. fst (callTool ev name a st) = Inl (ThrownObject m s) \<longrightarrow>
        handleCallTool ev name a st =
          (Inr (JsonText (JObj
             ([(''error'', JBool True),
               (''message'', (case m of
                                None \<Rightarrow> JStr ''An error occurred''
                              | Some v \<Rightarrow> if truthy (Some v) then v else JStr ''An error occurred''))]
              @ (case s of
                   NoStack \<Rightarrow> []
                 | StackValue v \<Rightarrow> [(''details'', v)]
                 | Captured c t \<Rightarrow> [(''details'', JStr (stackTrace (runtime ev) c t))])))),
           snd (callTool ev name a st)))
   \<and> (name \<notin> set toolNames \<longrightarrow>
        handleCallTool ev name a st =
          (Inr (JsonText (JObj
             [(''error'', JBool True),
              (''message'', JStr (''Unknown tool: '' @ name)),
              (''details'', JStr (stackTrace (runtime ev) ''Error'' (''Unknown tool: '' @ name)))])),
           st))
   \<and> (fst (callTool ev name a st) = Inl ThrownUndefined \<longrightarrow>
        handleCallTool ev name a st =
          (Inl (TypeError ''Cannot read properties of undefined (reading 'message')''),
           snd (callTool ev name a st)))
   \<and> (fst (callTool ev name a st) = Inl ThrownNull \<longrightarrow>
        handleCallTool ev name a st =
          (Inl (TypeError ''Cannot read properties of null (reading 'message')''),
           snd (callTool ev name a st)))"
proof (intro conjI allI impI)
  assume "collaboratorsThrowDefined ev"
  from nn_callTool[OF this, of name a]
  have d: "throwsDefined (fst (callTool ev name a st))"
    by (simp add: neverThrowsNullish_def)
  show "\<exists>r. fst (handleCallTool ev name a st) = Inr r"
  proof (cases "callTool ev name a st")
    case (Pair r st')
    show ?thesis
    proof (cases r)
      case (Inr x)
      with Pair show ?thesis by (simp add: handleCallTool_def)
    next
      case (Inl e)
      with d Pair have "e \<noteq> ThrownUndefined" "e \<noteq> ThrownNull" by simp_all
      then obtain m s where "e = ThrownObject m s" by (cases e) simp_all
      with Pair Inl show ?thesis by (simp add: handleCallTool_def errorResponse_def)
    qed
  qed
next
  fix r
  assume "fst (callTool ev name a st) = Inr r"
  then show "handleCallTool ev name a st = (Inr r, snd (callTool ev name a st))"
    by (cases "callTool ev name a st") (simp add: handleCallTool_def)
next
  fix m s
  assume "fst (callTool ev name a st) = Inl (ThrownObject m s)"
  then show "handleCallTool ev name a st =
          (Inr (JsonText (JObj
             ([(''error'', JBool True),
               (''message'', (case m of
                                None \<Rightarrow> JStr ''An error occurred''
                              | Some v \<Rightarrow> if truthy (Some v) then v else JStr ''An error occurred''))]
              @ (case s of
                   NoStack \<Rightarrow> []
                 | StackValue v \<Rightarrow> [(''details'', v)]
                 | Captured c t \<Rightarrow> [(''details'', JStr (stackTrace (runtime ev) c t))])))),
           snd (callTool ev name a st))"
    by (cases "callTool ev name a st")
       (simp add: handleCallTool_def errorResponse_def obj_def orElse_def stackJson_def
             List.map_filter_simps split: option.splits stack.splits)
next
  assume "name \<notin> set toolNames"
  from handleCallTool_throw[OF unknown_tool[OF this]]
  show "handleCallTool ev name a st =
          (Inr (JsonText (JObj
             [(''error'', JBool True),
              (''message'', JStr (''Unknown tool: '' @ name)),
              (''details'', JStr (stackTrace (runtime ev) ''Error'' (''Unknown tool: '' @ name)))])),
           st)"
    using errorResponse_Error[of "runtime ev" "CHR ''U''" "''nknown tool: '' @ name"]
    by simp
next
  assume "fst (callTool ev name a st) = Inl ThrownUndefined"
  then show "handleCallTool ev name a st =
          (Inl (TypeError ''Cannot read properties of undefined (reading 'message')''),
           snd (callTool ev name a st))"
    by (cases "callTool ev name a st") (simp add: handleCallTool_def errorResponse_def)
next
  assume "fst (callTool ev name a st) = Inl ThrownNull"
  then show "handleCallTool ev name a st =
          (Inl (TypeError ''Cannot read properties of null (reading 'message')''),
           snd (callTool ev name a st))"
    by (cases "callTool ev name a st") (simp add: handleCallTool_def errorResponse_def)
qed

lemma downEnv_throws_defined: "collaboratorsThrowDefined downEnv"
  by (simp add: collaboratorsThrowDefined_def apiThrowsDefined_def utilsThrowDefined_def
        downEnv_def upEnv_def downApi_def someUtils_def networkError_def)

lemma check_auth_examples:
  "callTool downEnv ''toggl_check_auth'' [] initialState =
     (Inl (ThrownObject (Some (JStr ''Network Error'')) (Captured ''Error'' ''Network Error'')),
      initialState\<lparr>calls := [Call ''getMe'' []]\<rparr>)"
  "stackTrace (runtime downEnv) ''Error'' ''Network Error'' =
     ''Error: Network Error'' @ [CHR 0x0A] @ ''    at file:///app/dist/index.js''"
  "stackTrace (runtime downEnv) ''Error'' ''Unknown tool: toggl_nope'' =
     ''Error: Unknown tool: toggl_nope'' @ [CHR 0x0A] @ ''    at file:///app/dist/index.js''"
  "callTool upEnv ''toggl_list_workspaces'' [] initialState =
     (Inr (JsonText (JObj [(''count'', JNum 1),
        (''workspaces'', JArr [JObj [(''id'', JNum 1), (''name'', JStr ''Acme''),
           (''premium'', JBool False), (''default_currency'', JStr ''USD'')]])])),
      initialState\<lparr>calls := [Call ''getWorkspaces'' []]\<rparr>)"
  "callTool undefinedEnv ''toggl_check_auth'' [] initialState =
     (Inl ThrownUndefined, initialState\<lparr>calls := [Call ''getMe'' []]\<rparr>)"
  "callTool emptyErrorEnv ''toggl_check_auth'' [] initialState =
     (Inl (ThrownObject (Some (JStr [])) (Captured ''Error'' [])),
      initialState\<lparr>calls := [Call ''getMe'' []]\<rparr>)"
  by (simp_all add: callTool_def toggl_check_auth_def toggl_list_workspaces_def andThen_def
        upstream_def succeed_def downEnv_def undefinedEnv_def emptyErrorEnv_def upEnv_def
        downApi_def upApi_def initialState_def networkError_def Error_def someRuntime_def
        obj_def acme_def List.map_filter_simps)

theorem handler_never_rejects_witness:
  "collaboratorsThrowDefined downEnv
   \<and> (\<exists>r. fst (handleCallTool downEnv ''toggl_check_auth'' [] initialState) = Inr r)
   \<and> fst (callTool downEnv ''toggl_check_auth'' [] initialState) =
       Inl (ThrownObject (Some (JStr ''Network Error'')) (Captured ''Error'' ''Network Error''))
   \<and> handleCallTool downEnv ''toggl_check_auth'' [] initialState =
       (Inr (JsonText (JObj
          [(''error'', JBool True), (''message'', JStr ''Network Error''),
           (''details'', JStr (''Error: Network Error'' @ [CHR 0x0A] @
                               ''    at file:///app/dist/index.js''))])),
        initialState\<lparr>calls := [Call ''getMe'' []]\<rparr>)
   \<and> ''toggl_nope'' \<notin> set toolNames
   \<and> handleCallTool downEnv ''toggl_nope'' [] initialState =
       (Inr (JsonText (JObj
          [(''error'', JBool True), (''message'', JStr ''Unknown tool: toggl_nope''),
           (''details'', JStr (''Error: Unknown tool: toggl_nope'' @ [CHR 0x0A] @
                               ''    at file:///app/dist/index.js''))])),
        initialState)
   \<and> fst (callTool upEnv ''toggl_list_workspaces'' [] initialState) =
       Inr (JsonText (JObj [(''count'', JNum 1),
          (''workspaces'', JArr [JObj [(''id'', JNum 1), (''name'', JStr ''Acme''),
             (''premium'', JBool False), (''default_currency'', JStr ''USD'')]])]))
   \<and> handleCallTool upEnv ''toggl_list_workspaces'' [] initialState =
       (Inr (JsonText (JObj [(''count'', JNum 1),
          (''workspaces'', JArr [JObj [(''id'', JNum 1), (''name'', JStr ''Acme''),
             (''premium'', JBool False), (''default_currency'', JStr ''USD'')]])])),
        initialState\<lparr>calls := [Call ''getWorkspaces'' []]\<rparr>)
   \<and> fst (callTool undefinedEnv ''toggl_check_auth'' [] initialState) = Inl ThrownUndefined
   \<and> handleCallTool undefinedEnv ''toggl_check_auth'' [] initialState =
       (Inl (TypeError ''Cannot read properties of undefined (reading 'message')''),
        initialState\<lparr>calls := [Call ''getMe'' []]\<rparr>)"
proof -
  note E = check_auth_examples
  note T = handler_never_rejects
  have n: "''toggl_nope'' \<notin> set toolNames"
    by (simp add: toolNames_def)
  have c1: "fst (callTool downEnv ''toggl_check_auth'' [] initialState) =
       Inl (ThrownObject (Some (JStr ''Network Error'')) (Captured ''Error'' ''Network Error''))"
    by (simp add: E(1))
  have c2: "fst (callTool upEnv ''toggl_list_workspaces'' [] initialState) =
       Inr (JsonText (JObj [(''count'', JNum 1),
          (''workspaces'', JArr [JObj [(''id'', JNum 1), (''name'', JStr ''Acme''),
             (''premium'', JBool False), (''default_currency'', JStr ''USD'')]])]))"
    by (simp add: E(4))
  have c3: "fst (callTool undefinedEnv ''toggl_check_auth'' [] initialState) = Inl ThrownUndefined"
    by (simp add: E(5))
  note a1 = T[where ev = downEnv and name = "''toggl_check_auth''" and a = "[]"
      and st = initialState, THEN conjunct1, THEN mp, OF downEnv_throws_defined]
  from T[where ev = downEnv and name = "''toggl_check_auth''" and a = "[]"
      and st = initialState, THEN conjunct2, THEN conjunct2, THEN conjunct1, rule_format, OF c1]
  have a2: "handleCallTool downEnv ''toggl_check_auth'' [] initialState =
       (Inr (JsonText (JObj
          [(''error'', JBool True), (''message'', JStr ''Network Error''),
           (''details'', JStr (''Error: Network Error'' @ [CHR 0x0A] @
                               ''    at file:///app/dist/index.js''))])),
        initialState\<lparr>calls := [Call ''getMe'' []]\<rparr>)"
    by (simp add: E(1) E(2))
  from T[where ev = downEnv and name = "''toggl_nope''" and a = "[]"
      and st = initialState, THEN conjunct2, THEN conjunct2, THEN conjunct2, THEN conjunct1,
      THEN mp, OF n]
  have a3: "handleCallTool downEnv ''toggl_nope'' [] initialState =
       (Inr (JsonText (JObj
          [(''error'', JBool True), (''message'', JStr ''Unknown tool: toggl_nope''),
           (''details'', JStr (''Error: Unknown tool: toggl_nope'' @ [CHR 0x0A] @
                               ''    at file:///app/dist/index.js''))])),
        initialState)"
    by (simp add: E(3))
  from T[where ev = upEnv and name = "''toggl_list_workspaces''" and a = "[]"
      and st = initialState, THEN conjunct2, THEN conjunct1, rule_format, OF c2]
  have a4: "handleCallTool upEnv ''toggl_list_workspaces'' [] initialState =
       (Inr (JsonText (JObj [(''count'', JNum 1),
          (''workspaces'', JArr [JObj [(''id'', JNum 1), (''name'', JStr ''Acme''),
             (''premium'', JBool False), (''default_currency'', JStr ''USD'')]])])),
        initialState\<lparr>calls := [Call ''getWorkspaces'' []]\<rparr>)"
    by (simp add: E(4))
  from T[where ev = undefinedEnv and name = "''toggl_check_auth''" and a = "[]"
      and st = initialState, THEN conjunct2, THEN conjunct2, THEN conjunct2, THEN conjunct2,
      THEN conjunct1, THEN mp, OF c3]
  have a5: "handleCallTool undefinedEnv ''toggl_check_auth'' [] initialState =
       (Inl (TypeError ''Cannot read properties of undefined (reading 'message')''),
        initialState\<lparr>calls := [Call ''getMe'' []]\<rparr>)"
    by (simp add: E(5))
  from downEnv_throws_defined a1 c1 a2 n a3 c2 a4 c3 a5 show ?thesis
    by (intro conjI)
qed

text \<open>
  The claim as it stands, "never rejects" and "serialized with the exception's message",
  fails twice. When a collaborator throws \<^verbatim>\<open>undefined\<close>, the catch block itself throws
  and the handler rejects. When it throws an error whose message is empty, as that of
  \<^verbatim>\<open>new Error()\<close> is, the response says "An error occurred".
\<close>

theorem handler_message_counterexample:
  "fst (callTool undefinedEnv ''toggl_check_auth'' [] initialState) = Inl ThrownUndefined
   \<and> fst (handleCallTool undefinedEnv ''toggl_check_auth'' [] initialState) =
       Inl (ThrownObject
              (Some (JStr ''Cannot read properties of undefined (reading 'message')''))
              (Captured ''TypeError'' ''Cannot read properties of undefined (reading 'message')''))
   \<and> fst (callTool emptyErrorEnv ''toggl_check_auth'' [] initialState) =
       Inl (ThrownObject (Some (JStr [])) (Captured ''Error'' []))
   \<and> fst (handleCallTool emptyErrorEnv ''toggl_check_auth'' [] initialState) =
       Inr (JsonText (JObj
         [(''error'', JBool True), (''message'', JStr ''An error occurred''),
          (''details'', JStr (''Error: '' @ [CHR 0x0A] @ ''    at file:///app/dist/index.js''))]))"
  by code_simp

subsection \<open>\<^verbatim>\<open>toggl_create_entry\<close>: stop and duration\<close>

lemma requireTruthy_pass: "truthy (Some v) \<Longrightarrow> requireTruthy (Some v) e = succeed v"
  by (simp add: requireTruthy_def)

lemma requireTruthy_fail: "\<not> truthy x \<Longrightarrow> requireTruthy x e = throw e"
  by (cases x) (simp_all add: requireTruthy_def)

lemma andThen_succeed: "andThen (succeed x) f = f x"
  by (rule ext) (simp add: andThen_def succeed_def)

lemma andThen_throw: "andThen (throw e) f = throw e"
  by (rule ext) (simp add: andThen_def throw_def)

lemma attempt_Inr: "attempt (Inr x) = succeed x"
  by (rule ext) (simp add: attempt_def succeed_def)

lemma attempt_Inl: "attempt (Inl e) = throw e"
  by (rule ext) (simp add: attempt_def throw_def)

lemma newCalls_first:
  assumes "\<And>x. grows (K x)"
  shows "take 1 (newCalls st (snd (andThen (upstream m as r) K st))) = [Call m as]"
proof (cases r)
  case (Inl e)
  then show ?thesis by (simp add: andThen_def upstream_def newCalls_def)
next
  case (Inr x)
  let ?st1 = "st\<lparr>calls := calls st @ [Call m as]\<rparr>"
  from assms[of x] have "\<forall>s. prefix (calls s) (calls (snd (K x s)))"
    by (simp add: grows_def)
  then have "prefix (calls ?st1) (calls (snd (K x ?st1)))"
    by blast
  then obtain cs where "calls (snd (K x ?st1)) = calls st @ [Call m as] @ cs"
    by (auto simp: prefix_def)
  with Inr show ?thesis by (simp add: andThen_def upstream_def newCalls_def)
qed

lemma newDate_valid: "newDate rt v = Some t \<Longrightarrow> \<bar>t\<bar> \<le> 8640000000000000"
  by (cases "(rt, v)" rule: newDate.cases)
     (auto simp: timeClip_def split: option.splits if_splits)

lemma toInteger_of_int: "toInteger (of_int n) = n"
  by (simp add: toInteger_def)

lemma create_entry_after_guards:
  assumes "workspaceIdOf ev a = Some w" "truthy (Some w)"
    and "arg a ''start'' = Some start" "truthy (Some start)"
  shows "toggl_create_entry ev a =
     andThen (stopAndDuration (runtime ev) start (arg a ''stop'') (arg a ''duration'')) (\<lambda>sd.
       andThen (upstream ''createTimeEntry'' [w, JObj (entryBody a start (fst sd) (snd sd))]
              (createTimeEntry (api ev) w (entryBody a start (fst sd) (snd sd))))
           (\<lambda>entry.
         andThen (perform (ensureCache ev)) (\<lambda>_.
         andThen (perform (hydrateTimeEntries ev [entry])) (\<lambda>hydrated.
         succeed (JsonText (obj
           [(''success'', Some (JBool True)),
            (''message'', Some (JStr ''Time entry created'')),
            (''entry'', firstJson hydrated)]))))))"
  using assms by (simp add: toggl_create_entry_def requireTruthy_pass andThen_succeed Let_def)

lemma create_entry_sends:
  assumes g: "workspaceIdOf ev a = Some w" "truthy (Some w)"
      "arg a ''start'' = Some start" "truthy (Some start)"
    and sd: "stopAndDuration (runtime ev) start (arg a ''stop'') (arg a ''duration'') =
               succeed (stop, duration)"
  shows "take 1 (newCalls st (snd (handleCallTool ev ''toggl_create_entry'' a st))) =
           [Call ''createTimeEntry'' [w, JObj (entryBody a start stop duration)]]"
proof -
  have eq: "callTool ev ''toggl_create_entry'' a = toggl_create_entry ev a"
    by (simp add: callTool_def)
  show ?thesis
    unfolding handleCallTool_snd eq create_entry_after_guards[OF g] sd andThen_succeed
      fst_conv snd_conv
    by (rule newCalls_first)
       (intro grows_andThen grows_perform grows_succeed ensureCache_calls
          hydrateTimeEntries_calls)
qed

lemma create_entry_throws:
  assumes g: "workspaceIdOf ev a = Some w" "truthy (Some w)"
      "arg a ''start'' = Some start" "truthy (Some start)"
    and sd: "stopAndDuration (runtime ev) start (arg a ''stop'') (arg a ''duration'') = throw e"
  shows "handleCallTool ev ''toggl_create_entry'' a st = (errorResponse (runtime ev) e, st)"
proof -
  have "callTool ev ''toggl_create_entry'' a = throw e"
    by (simp add: callTool_def create_entry_after_guards[OF g] sd andThen_throw)
  then show ?thesis by (rule handleCallTool_throw)
qed

text \<open>
  C10. In \<^verbatim>\<open>toggl_create_entry\<close>, given a workspace id (the \<^verbatim>\<open>workspace_id\<close> argument or
  the configured default) and a start, the first upstream call is \<^verbatim>\<open>createTimeEntry\<close>
  with a stop and a duration as follows.

  With a stop and no duration (none, or a falsy one): the stop as given, and as
  duration \<open>\<lceil>(stop - start) / 1000\<rceil>\<close> of the millisecond time values when both are
  dates less than \<open>2\<^sup>5\<^sup>3\<close> milliseconds apart, and NaN when one of them is no date.

  With a duration that is a non-zero number and no stop (none, or a falsy one): the
  duration as given and as stop the ISO string of start + duration * 1000 when the
  start is a date and that instant is one a Date can hold; otherwise the response is
  the error "Invalid time value" and the state, with its log of upstream calls, is
  unchanged.

  With both a stop and a duration: both as given. With neither (each absent or falsy):
  the response is the error "Either stop or duration is required" and the state is
  unchanged.

  Without a workspace id the response is the error "Workspace ID required ...", and
  with one but without a start it is "start is required (ISO 8601 format)"; the state
  is unchanged.
\<close>

theorem create_entry_stop_and_duration:
  "(\<forall>w start.
      workspaceIdOf ev a = Some w \<and> truthy (Some w) \<and>
      arg a ''start'' = Some start \<and> truthy (Some start) \<longrightarrow>
        (\<forall>stop b a0.
            arg a ''stop'' = Some stop \<and> truthy (Some stop) \<and> \<not> truthy (arg a ''duration'') \<and>
            newDate (runtime ev) (Some stop) = Some b \<and>
            newDate (runtime ev) (Some start) = Some a0 \<and> \<bar>b - a0\<bar> < 2 ^ 53 \<longrightarrow>
            take 1 (newCalls st (snd (handleCallTool ev ''toggl_create_entry'' a st))) =
              [Call ''createTimeEntry''
                 [w, JObj (entryBody a start (Some stop)
                             (Some (JNum \<lceil>rat_of_int (b - a0) / 1000\<rceil>)))]])
      \<and> (\<forall>stop.
            arg a ''stop'' = Some stop \<and> truthy (Some stop) \<and> \<not> truthy (arg a ''duration'') \<and>
            (newDate (runtime ev) (Some stop) = None \<or>
             newDate (runtime ev) (Some start) = None) \<longrightarrow>
            take 1 (newCalls st (snd (handleCallTool ev ''toggl_create_entry'' a st))) =
              [Call ''createTimeEntry'' [w, JObj (entryBody a start (Some stop) (Some JNaN))]])
      \<and> (\<forall>d a0.
            arg a ''duration'' = Some (JNum d) \<and> d \<noteq> 0 \<and> \<not> truthy (arg a ''stop'') \<and>
            newDate (runtime ev) (Some start) = Some a0 \<and>
            \<bar>a0 + d * 1000\<bar> \<le> 8640000000000000 \<longrightarrow>
            take 1 (newCalls st (snd (handleCallTool ev ''toggl_create_entry'' a st))) =
              [Call ''createTimeEntry''
                 [w, JObj (entryBody a start
                             (Some (JStr (isoString (runtime ev) (a0 + d * 1000))))
                             (Some (JNum d)))]])
      \<and> (\<forall>d.
            arg a ''duration'' = Some (JNum d) \<and> d \<noteq> 0 \<and> \<not> truthy (arg a ''stop'') \<and>
            (newDate (runtime ev) (Some start) = None \<or>
             (\<exists>a0. newDate (runtime ev) (Some start) = Some a0 \<and>
                   8640000000000000 < \<bar>a0 + d * 1000\<bar>)) \<longrightarrow>
            handleCallTool ev ''toggl_create_entry'' a st =
              (Inr (JsonText (JObj
                 [(''error'', JBool True),
                  (''message'', JStr ''Invalid time value''),
                  (''details'', JStr (stackTrace (runtime ev) ''RangeError'' ''Invalid time value''))])),
               st))
      \<and> (\<forall>stop duration.
            arg a ''stop'' = Some stop \<and> truthy (Some stop) \<and>
            arg a ''duration'' = Some duration \<and> truthy (Some duration) \<longrightarrow>
            take 1 (newCalls st (snd (handleCallTool ev ''toggl_create_entry'' a st))) =
              [Call ''createTimeEntry'' [w, JObj (entryBody a start (Some stop) (Some duration))]])
      \<and> (\<not> truthy (arg a ''stop'') \<and> \<not> truthy (arg a ''duration'') \<longrightarrow>
            handleCallTool ev ''toggl_create_entry'' a st =
              (Inr (JsonText (JObj
                 [(''error'', JBool True),
                  (''message'', JStr ''Either stop or duration is required''),
                  (''details'', JStr (stackTrace (runtime ev) ''Error''
                                        ''Either stop or duration is required''))])),
               st)))
   \<and> (\<not> truthy (workspaceIdOf ev a) \<longrightarrow>
        handleCallTool ev ''toggl_create_entry'' a st =
          (Inr (JsonText (JObj
             [(''error'', JBool True),
              (''message'', JStr ''Workspace ID required (set TOGGL_DEFAULT_WORKSPACE_ID or provide workspace_id)''),
              (''details'', JStr (stackTrace (runtime ev) ''Error''
                 ''Workspace ID required (set TOGGL_DEFAULT_WORKSPACE_ID or provide workspace_id)''))])),
           st))
   \<and> (truthy (workspaceIdOf ev a) \<and> \<not> truthy (arg a ''start'') \<longrightarrow>
        handleCallTool ev ''toggl_create_entry'' a st =
          (Inr (JsonText (JObj
             [(''error'', JBool True),
              (''message'', JStr ''start is required (ISO 8601 format)''),
              (''details'', JStr (stackTrace (runtime ev) ''Error''
                                    ''start is required (ISO 8601 format)''))])),
           st))"
proof (intro conjI allI impI; (elim conjE)?)
  fix w start stop b a0
  assume g: "workspaceIdOf ev a = Some w" "truthy (Some w)" "arg a ''start'' = Some start"
      "truthy (Some start)"
    and h: "arg a ''stop'' = Some stop" "truthy (Some stop)" "\<not> truthy (arg a ''duration'')"
      "newDate (runtime ev) (Some stop) = Some b" "newDate (runtime ev) (Some start) = Some a0"
    and near: "\<bar>b - a0\<bar> < 2 ^ 53"
  have "stopAndDuration (runtime ev) start (arg a ''stop'') (arg a ''duration'') =
          succeed (Some stop, Some (JNum \<lceil>rat_of_int (b - a0) / 1000\<rceil>))"
    using h by (simp add: stopAndDuration_def ceilSeconds_def numJson_def
        ceil_seconds_exact[OF near])
  from create_entry_sends[OF g this]
  show "take 1 (newCalls st (snd (handleCallTool ev ''toggl_create_entry'' a st))) =
              [Call ''createTimeEntry''
                 [w, JObj (entryBody a start (Some stop)
                             (Some (JNum \<lceil>rat_of_int (b - a0) / 1000\<rceil>)))]]" .
next
  fix w start stop
  assume g: "workspaceIdOf ev a = Some w" "truthy (Some w)" "arg a ''start'' = Some start"
      "truthy (Some start)"
    and h: "arg a ''stop'' = Some stop" "truthy (Some stop)" "\<not> truthy (arg a ''duration'')"
      "newDate (runtime ev) (Some stop) = None \<or> newDate (runtime ev) (Some start) = None"
  have "ceilSeconds (newDate (runtime ev) (Some stop)) (newDate (runtime ev) (Some start)) = None"
    using h(4) by (auto simp: ceilSeconds_def split: option.splits)
  then have "stopAndDuration (runtime ev) start (arg a ''stop'') (arg a ''duration'') =
          succeed (Some stop, Some JNaN)"
    using h(1-3) by (simp add: stopAndDuration_def numJson_def)
  from create_entry_sends[OF g this]
  show "take 1 (newCalls st (snd (handleCallTool ev ''toggl_create_entry'' a st))) =
              [Call ''createTimeEntry'' [w, JObj (entryBody a start (Some stop) (Some JNaN))]]" .
next
  fix w start d a0
  assume g: "workspaceIdOf ev a = Some w" "truthy (Some w)" "arg a ''start'' = Some start"
      "truthy (Some start)"
    and h: "arg a ''duration'' = Some (JNum d)" "d \<noteq> 0" "\<not> truthy (arg a ''stop'')"
      "newDate (runtime ev) (Some start) = Some a0" "\<bar>a0 + d * 1000\<bar> \<le> 8640000000000000"
  have p: "plusSeconds (Some a0) (Some d) = Some (a0 + d * 1000)"
    using h(5) plus_seconds_exact[OF newDate_valid[OF h(4)] h(5)]
    by (simp add: plusSeconds_def dateOfNumber_def toInteger_of_int del: of_int_add of_int_mult)
  have "stopAndDuration (runtime ev) start (arg a ''stop'') (arg a ''duration'') =
          succeed (Some (JStr (isoString (runtime ev) (a0 + d * 1000))), Some (JNum d))"
    using h(1-4)
    by (simp add: stopAndDuration_def p toISOString_def attempt_Inr andThen_succeed)
  from create_entry_sends[OF g this]
  show "take 1 (newCalls st (snd (handleCallTool ev ''toggl_create_entry'' a st))) =
              [Call ''createTimeEntry''
                 [w, JObj (entryBody a start
                             (Some (JStr (isoString (runtime ev) (a0 + d * 1000))))
                             (Some (JNum d)))]]" .
next
  fix w start d
  assume g: "workspaceIdOf ev a = Some w" "truthy (Some w)" "arg a ''start'' = Some start"
      "truthy (Some start)"
    and h: "arg a ''duration'' = Some (JNum d)" "d \<noteq> 0" "\<not> truthy (arg a ''stop'')"
      "newDate (runtime ev) (Some start) = None \<or>
       (\<exists>a0. newDate (runtime ev) (Some start) = Some a0 \<and> 8640000000000000 < \<bar>a0 + d * 1000\<bar>)"
  have p: "plusSeconds (newDate (runtime ev) (Some start)) (Some d) = None"
  proof (cases "newDate (runtime ev) (Some start)")
    case None
    then show ?thesis by (simp add: plusSeconds_def)
  next
    case (Some a0)
    with h(4) have "8640000000000000 < \<bar>a0 + d * 1000\<bar>" by simp
    from plus_seconds_invalid[OF newDate_valid[OF Some] this] Some show ?thesis
      by (simp add: plusSeconds_def dateOfNumber_def)
  qed
  have "stopAndDuration (runtime ev) start (arg a ''stop'') (arg a ''duration'') =
          throw (RangeError ''Invalid time value'')"
    using h(1-3)
    by (simp add: stopAndDuration_def p toISOString_def attempt_Inl andThen_throw)
  from create_entry_throws[OF g this]
  show "handleCallTool ev ''toggl_create_entry'' a st =
              (Inr (JsonText (JObj
                 [(''error'', JBool True),
                  (''message'', JStr ''Invalid time value''),
                  (''details'', JStr (stackTrace (runtime ev) ''RangeError'' ''Invalid time value''))])),
               st)"
    by (simp add: errorResponse_RangeError)
next
  fix w start stop duration
  assume g: "workspaceIdOf ev a = Some w" "truthy (Some w)" "arg a ''start'' = Some start"
      "truthy (Some start)"
    and h: "arg a ''stop'' = Some stop" "truthy (Some stop)"
      "arg a ''duration'' = Some duration" "truthy (Some duration)"
  have "stopAndDuration (runtime ev) start (arg a ''stop'') (arg a ''duration'') =
          succeed (Some stop, Some duration)"
    using h by (simp add: stopAndDuration_def)
  from create_entry_sends[OF g this]
  show "take 1 (newCalls st (snd (handleCallTool ev ''toggl_create_entry'' a st))) =
          [Call ''createTimeEntry'' [w, JObj (entryBody a start (Some stop) (Some duration))]]" .
next
  fix w start
  assume g: "workspaceIdOf ev a = Some w" "truthy (Some w)" "arg a ''start'' = Some start"
      "truthy (Some start)"
    and h: "\<not> truthy (arg a ''stop'')" "\<not> truthy (arg a ''duration'')"
  have "stopAndDuration (runtime ev) start (arg a ''stop'') (arg a ''duration'') =
          throw (Error ''Either stop or duration is required'')"
    using h by (simp add: stopAndDuration_def)
  from create_entry_throws[OF g this]
  show "handleCallTool ev ''toggl_create_entry'' a st =
              (Inr (JsonText (JObj
                 [(''error'', JBool True),
                  (''message'', JStr ''Either stop or duration is required''),
                  (''details'', JStr (stackTrace (runtime ev) ''Error''
                                        ''Either stop or duration is required''))])),
               st)"
    by (simp add: errorResponse_Error)
next
  assume "\<not> truthy (workspaceIdOf ev a)"
  then have "callTool ev ''toggl_create_entry'' a = throw workspaceRequired"
    by (simp add: callTool_def toggl_create_entry_def requireTruthy_fail andThen_throw)
  from handleCallTool_throw[OF this]
  show "handleCallTool ev ''toggl_create_entry'' a st =
          (Inr (JsonText (JObj
             [(''error'', JBool True),
              (''message'', JStr ''Workspace ID required (set TOGGL_DEFAULT_WORKSPACE_ID or provide workspace_id)''),
              (''details'', JStr (stackTrace (runtime ev) ''Error''
                 ''Workspace ID required (set TOGGL_DEFAULT_WORKSPACE_ID or provide workspace_id)''))])),
           st)"
    by (simp add: workspaceRequired_def errorResponse_Error)
next
  assume w: "truthy (workspaceIdOf ev a)" and s: "\<not> truthy (arg a ''start'')"
  from w obtain v where v: "workspaceIdOf ev a = Some v" by (cases "workspaceIdOf ev a") simp_all
  with w have "requireTruthy (workspaceIdOf ev a) workspaceRequired = succeed v"
    by (simp add: requireTruthy_pass)
  with s have "callTool ev ''toggl_create_entry'' a =
      throw (Error ''start is required (ISO 8601 format)'')"
    by (simp add: callTool_def toggl_create_entry_def requireTruthy_fail andThen_throw
        andThen_succeed)
  from handleCallTool_throw[OF this]
  show "handleCallTool ev ''toggl_create_entry'' a st =
          (Inr (JsonText (JObj
             [(''error'', JBool True),
              (''message'', JStr ''start is required (ISO 8601 format)''),
              (''details'', JStr (stackTrace (runtime ev) ''Error''
                                    ''start is required (ISO 8601 format)''))])),
           st)"
    by (simp add: errorResponse_Error)
qed

lemma create_entry_arguments:
  "workspaceIdOf upEnv entryWithStop = Some (JNum 1)"
  "arg entryWithStop ''start'' = Some (JStr ''2026-02-17T17:30:00.000Z'')"
  "arg entryWithStop ''stop'' = Some (JStr ''2026-02-17T18:00:00.500Z'')"
  "arg entryWithStop ''duration'' = None"
  "workspaceIdOf upEnv entryWithBadStop = Some (JNum 1)"
  "arg entryWithBadStop ''start'' = Some (JStr ''2026-02-17T17:30:00.000Z'')"
  "arg entryWithBadStop ''stop'' = Some (JStr ''tomorrow'')"
  "arg entryWithBadStop ''duration'' = None"
  "workspaceIdOf upEnv entryWithDuration = Some (JNum 1)"
  "arg entryWithDuration ''start'' = Some (JStr ''2026-02-17T17:30:00.000Z'')"
  "arg entryWithDuration ''stop'' = None"
  "arg entryWithDuration ''duration'' = Some (JNum 1800)"
  "workspaceIdOf upEnv entryWithHugeDuration = Some (JNum 1)"
  "arg entryWithHugeDuration ''start'' = Some (JStr ''2026-02-17T17:30:00.000Z'')"
  "arg entryWithHugeDuration ''stop'' = None"
  "arg entryWithHugeDuration ''duration'' = Some (JNum 8640000000000)"
  "workspaceIdOf upEnv entryWithBoth = Some (JNum 1)"
  "arg entryWithBoth ''start'' = Some (JStr ''2026-02-17T17:30:00.000Z'')"
  "arg entryWithBoth ''stop'' = Some (JStr ''2026-02-17T18:00:00.500Z'')"
  "arg entryWithBoth ''duration'' = Some (JNum 60)"
  "workspaceIdOf upEnv entryWithNeither = Some (JNum 1)"
  "arg entryWithNeither ''start'' = Some (JStr ''2026-02-17T17:30:00.000Z'')"
  "arg entryWithNeither ''stop'' = None"
  "arg entryWithNeither ''duration'' = None"
  "workspaceIdOf (upEnv\<lparr>defaultWorkspaceId := None\<rparr>) entryWithNeither = None"
  "workspaceIdOf upEnv entryWithoutStart = Some (JNum 1)"
  "arg entryWithoutStart ''start'' = None"
  by (simp_all add: entryWithStop_def entryWithBadStop_def entryWithDuration_def
        entryWithHugeDuration_def entryWithBoth_def entryWithNeither_def entryWithoutStart_def
        workspaceIdOf_def orElse_def arg_def upEnv_def)

lemma create_entry_dates:
  "newDate (runtime upEnv) (Some (JStr ''2026-02-17T17:30:00.000Z'')) = Some 1771349400000"
  "newDate (runtime upEnv) (Some (JStr ''2026-02-17T18:00:00.500Z'')) = Some 1771351200500"
  "newDate (runtime upEnv) (Some (JStr ''tomorrow'')) = None"
  "isoString (runtime upEnv) 1771351200000 = ''2026-02-17T18:00:00.000Z''"
  "runtime (upEnv\<lparr>defaultWorkspaceId := None\<rparr>) = runtime upEnv"
  by (simp_all add: upEnv_def someRuntime_def timeClip_def)

lemma create_entry_bodies:
  "entryBody entryWithStop (JStr ''2026-02-17T17:30:00.000Z'')
     (Some (JStr ''2026-02-17T18:00:00.500Z'')) (Some (JNum 1801)) =
     [(''description'', JStr ''Design''), (''start'', JStr ''2026-02-17T17:30:00.000Z''),
      (''stop'', JStr ''2026-02-17T18:00:00.500Z''), (''duration'', JNum 1801)]"
  "entryBody entryWithBadStop (JStr ''2026-02-17T17:30:00.000Z'')
     (Some (JStr ''tomorrow'')) (Some JNaN) =
     [(''description'', JStr ''Design''), (''start'', JStr ''2026-02-17T17:30:00.000Z''),
      (''stop'', JStr ''tomorrow''), (''duration'', JNaN)]"
  "entryBody entryWithDuration (JStr ''2026-02-17T17:30:00.000Z'')
     (Some (JStr ''2026-02-17T18:00:00.000Z'')) (Some (JNum 1800)) =
     [(''description'', JStr ''Design''), (''start'', JStr ''2026-02-17T17:30:00.000Z''),
      (''stop'', JStr ''2026-02-17T18:00:00.000Z''), (''duration'', JNum 1800)]"
  "entryBody entryWithBoth (JStr ''2026-02-17T17:30:00.000Z'')
     (Some (JStr ''2026-02-17T18:00:00.500Z'')) (Some (JNum 60)) =
     [(''description'', JStr ''Design''), (''start'', JStr ''2026-02-17T17:30:00.000Z''),
      (''stop'', JStr ''2026-02-17T18:00:00.500Z''), (''duration'', JNum 60)]"
  by (simp_all add: entryBody_def entryWithStop_def entryWithBadStop_def entryWithDuration_def
        entryWithBoth_def arg_def List.map_filter_simps)

theorem create_entry_stop_and_duration_witness:
  "workspaceIdOf upEnv entryWithStop = Some (JNum 1)
   \<and> arg entryWithStop ''stop'' = Some (JStr ''2026-02-17T18:00:00.500Z'')
   \<and> arg entryWithStop ''duration'' = None
   \<and> take 1 (newCalls initialState
                (snd (handleCallTool upEnv ''toggl_create_entry'' entryWithStop initialState))) =
       [Call ''createTimeEntry''
          [JNum 1, JObj [(''description'', JStr ''Design''),
                         (''start'', JStr ''2026-02-17T17:30:00.000Z''),
                         (''stop'', JStr ''2026-02-17T18:00:00.500Z''),
                         (''duration'', JNum 1801)]]]
   \<and> arg entryWithBadStop ''stop'' = Some (JStr ''tomorrow'')
   \<and> newDate (runtime upEnv) (Some (JStr ''tomorrow'')) = None
   \<and> take 1 (newCalls initialState
                (snd (handleCallTool upEnv ''toggl_create_entry'' entryWithBadStop initialState))) =
       [Call ''createTimeEntry''
          [JNum 1, JObj [(''description'', JStr ''Design''),
                         (''start'', JStr ''2026-02-17T17:30:00.000Z''),
                         (''stop'', JStr ''tomorrow''),
                         (''duration'', JNaN)]]]
   \<and> arg entryWithDuration ''duration'' = Some (JNum 1800)
   \<and> arg entryWithDuration ''stop'' = None
   \<and> take 1 (newCalls initialState
                (snd (handleCallTool upEnv ''toggl_create_entry'' entryWithDuration initialState))) =
       [Call ''createTimeEntry''
          [JNum 1, JObj [(''description'', JStr ''Design''),
                         (''start'', JStr ''2026-02-17T17:30:00.000Z''),
                         (''stop'', JStr ''2026-02-17T18:00:00.000Z''),
                         (''duration'', JNum 1800)]]]
   \<and> arg entryWithHugeDuration ''duration'' = Some (JNum 8640000000000)
   \<and> handleCallTool upEnv ''toggl_create_entry'' entryWithHugeDuration initialState =
       (Inr (JsonText (JObj
          [(''error'', JBool True),
           (''message'', JStr ''Invalid time value''),
           (''details'', JStr (stackTrace (runtime upEnv) ''RangeError'' ''Invalid time value''))])),
        initialState)
   \<and> arg entryWithBoth ''duration'' = Some (JNum 60)
   \<and> take 1 (newCalls initialState
                (snd (handleCallTool upEnv ''toggl_create_entry'' entryWithBoth initialState))) =
       [Call ''createTimeEntry''
          [JNum 1, JObj [(''description'', JStr ''Design''),
                         (''start'', JStr ''2026-02-17T17:30:00.000Z''),
                         (''stop'', JStr ''2026-02-17T18:00:00.500Z''),
                         (''duration'', JNum 60)]]]
   \<and> arg entryWithNeither ''stop'' = None
   \<and> arg entryWithNeither ''duration'' = None
   \<and> handleCallTool upEnv ''toggl_create_entry'' entryWithNeither initialState =
       (Inr (JsonText (JObj
          [(''error'', JBool True),
           (''message'', JStr ''Either stop or duration is required''),
           (''details'', JStr (stackTrace (runtime upEnv) ''Error''
                                 ''Either stop or duration is required''))])),
        initialState)
   \<and> workspaceIdOf (upEnv\<lparr>defaultWorkspaceId := None\<rparr>) entryWithNeither = None
   \<and> handleCallTool (upEnv\<lparr>defaultWorkspaceId := None\<rparr>) ''toggl_create_entry'' entryWithNeither
        initialState =
       (Inr (JsonText (JObj
          [(''error'', JBool True),
           (''message'', JStr ''Workspace ID required (set TOGGL_DEFAULT_WORKSPACE_ID or provide workspace_id)''),
           (''details'', JStr (stackTrace (runtime upEnv) ''Error''
              ''Workspace ID required (set TOGGL_DEFAULT_WORKSPACE_ID or provide workspace_id)''))])),
        initialState)
   \<and> arg entryWithoutStart ''start'' = None
   \<and> handleCallTool upEnv ''toggl_create_entry'' entryWithoutStart initialState =
       (Inr (JsonText (JObj
          [(''error'', JBool True),
           (''message'', JStr ''start is required (ISO 8601 format)''),
           (''details'', JStr (stackTrace (runtime upEnv) ''Error''
                                 ''start is required (ISO 8601 format)''))])),
        initialState)"
proof -
  note A = create_entry_arguments
  note D = create_entry_dates
  note B = create_entry_bodies
  note T = create_entry_stop_and_duration
  have tw: "truthy (Some (JNum 1))" and ts: "truthy (Some (JStr ''2026-02-17T17:30:00.000Z''))"
    and t1: "truthy (Some (JStr ''2026-02-17T18:00:00.500Z''))"
    and t2: "truthy (Some (JStr ''tomorrow''))" and t3: "truthy (Some (JNum 60))"
    by simp_all
  have c: "\<lceil>rat_of_int (1771351200500 - 1771349400000) / 1000\<rceil> = 1801"
    by (simp add: ceiling_eq_iff)
  have near: "\<bar>1771351200500 - 1771349400000 :: int\<bar> < 2 ^ 53"
    by simp
  have n1: "\<not> truthy (arg entryWithStop ''duration'')" by (simp add: A(4))
  note G1 = T[of upEnv entryWithStop initialState, THEN conjunct1, rule_format,
      OF conjI[OF A(1) conjI[OF tw conjI[OF A(2) ts]]]]
  from G1[THEN conjunct1, rule_format,
      OF conjI[OF A(3) conjI[OF t1 conjI[OF n1 conjI[OF D(2) conjI[OF D(1) near]]]]]]
  have w1: "take 1 (newCalls initialState
                  (snd (handleCallTool upEnv ''toggl_create_entry'' entryWithStop initialState))) =
       [Call ''createTimeEntry''
          [JNum 1, JObj [(''description'', JStr ''Design''),
                         (''start'', JStr ''2026-02-17T17:30:00.000Z''),
                         (''stop'', JStr ''2026-02-17T18:00:00.500Z''),
                         (''duration'', JNum 1801)]]]"
    by (simp only: c B(1))
  have n2: "\<not> truthy (arg entryWithBadStop ''duration'')" by (simp add: A(8))
  note G2 = T[of upEnv entryWithBadStop initialState, THEN conjunct1, rule_format,
      OF conjI[OF A(5) conjI[OF tw conjI[OF A(6) ts]]]]
  from G2[THEN conjunct2, THEN conjunct1, rule_format,
      OF conjI[OF A(7) conjI[OF t2 conjI[OF n2 disjI1[OF D(3)]]]]]
  have w2: "take 1 (newCalls initialState
                (snd (handleCallTool upEnv ''toggl_create_entry'' entryWithBadStop initialState))) =
       [Call ''createTimeEntry''
          [JNum 1, JObj [(''description'', JStr ''Design''),
                         (''start'', JStr ''2026-02-17T17:30:00.000Z''),
                         (''stop'', JStr ''tomorrow''),
                         (''duration'', JNaN)]]]"
    by (simp only: B(2))
  have n3: "\<not> truthy (arg entryWithDuration ''stop'')" by (simp add: A(11))
  have z3: "(1800 :: int) \<noteq> 0" by simp
  have r3: "\<bar>1771349400000 + 1800 * 1000 :: int\<bar> \<le> 8640000000000000" by simp
  have s3: "(1771349400000 + 1800 * 1000 :: int) = 1771351200000" by simp
  note G3 = T[of upEnv entryWithDuration initialState, THEN conjunct1, rule_format,
      OF conjI[OF A(9) conjI[OF tw conjI[OF A(10) ts]]]]
  from G3[THEN conjunct2, THEN conjunct2, THEN conjunct1, rule_format,
      OF conjI[OF A(12) conjI[OF z3 conjI[OF n3 conjI[OF D(1) r3]]]]]
  have w3: "take 1 (newCalls initialState
                  (snd (handleCallTool upEnv ''toggl_create_entry'' entryWithDuration initialState))) =
       [Call ''createTimeEntry''
          [JNum 1, JObj [(''description'', JStr ''Design''),
                         (''start'', JStr ''2026-02-17T17:30:00.000Z''),
                         (''stop'', JStr ''2026-02-17T18:00:00.000Z''),
                         (''duration'', JNum 1800)]]]"
    by (simp only: s3 D(4) B(3))
  have n4: "\<not> truthy (arg entryWithHugeDuration ''stop'')" by (simp add: A(15))
  have z4: "(8640000000000 :: int) \<noteq> 0" by simp
  have r4: "8640000000000000 < \<bar>1771349400000 + 8640000000000 * 1000 :: int\<bar>" by simp
  have e4: "\<exists>a0. newDate (runtime upEnv) (Some (JStr ''2026-02-17T17:30:00.000Z'')) = Some a0 \<and>
             8640000000000000 < \<bar>a0 + 8640000000000 * 1000\<bar>"
    using D(1) r4 by blast
  note G4 = T[of upEnv entryWithHugeDuration initialState, THEN conjunct1, rule_format,
      OF conjI[OF A(13) conjI[OF tw conjI[OF A(14) ts]]]]
  note w4 = G4[THEN conjunct2, THEN conjunct2, THEN conjunct2, THEN conjunct1, rule_format,
      OF conjI[OF A(16) conjI[OF z4 conjI[OF n4 disjI2[OF e4]]]]]
  note G5 = T[of upEnv entryWithBoth initialState, THEN conjunct1, rule_format,
      OF conjI[OF A(17) conjI[OF tw conjI[OF A(18) ts]]]]
  from G5[THEN conjunct2, THEN conjunct2, THEN conjunct2, THEN conjunct2, THEN conjunct1,
      rule_format, OF conjI[OF A(19) conjI[OF t1 conjI[OF A(20) t3]]]]
  have w5: "take 1 (newCalls initialState
                (snd (handleCallTool upEnv ''toggl_create_entry'' entryWithBoth initialState))) =
       [Call ''createTimeEntry''
          [JNum 1, JObj [(''description'', JStr ''Design''),
                         (''start'', JStr ''2026-02-17T17:30:00.000Z''),
                         (''stop'', JStr ''2026-02-17T18:00:00.500Z''),
                         (''duration'', JNum 60)]]]"
    by (simp only: B(4))
  have n6: "\<not> truthy (arg entryWithNeither ''stop'')" "\<not> truthy (arg entryWithNeither ''duration'')"
    by (simp_all add: A(23,24))
  note G6 = T[of upEnv entryWithNeither initialState, THEN conjunct1, rule_format,
      OF conjI[OF A(21) conjI[OF tw conjI[OF A(22) ts]]]]
  note w6 = G6[THEN conjunct2, THEN conjunct2, THEN conjunct2, THEN conjunct2, THEN conjunct2,
      rule_format, OF conjI[OF n6]]
  have n7: "\<not> truthy (workspaceIdOf (upEnv\<lparr>defaultWorkspaceId := None\<rparr>) entryWithNeither)"
    by (simp add: A(25))
  from T[of "upEnv\<lparr>defaultWorkspaceId := None\<rparr>" entryWithNeither initialState,
      THEN conjunct2, THEN conjunct1, rule_format, OF n7]
  have w7: "handleCallTool (upEnv\<lparr>defaultWorkspaceId := None\<rparr>) ''toggl_create_entry'' entryWithNeither
        initialState =
       (Inr (JsonText (JObj
          [(''error'', JBool True),
           (''message'', JStr ''Workspace ID required (set TOGGL_DEFAULT_WORKSPACE_ID or provide workspace_id)''),
           (''details'', JStr (stackTrace (runtime upEnv) ''Error''
              ''Workspace ID required (set TOGGL_DEFAULT_WORKSPACE_ID or provide workspace_id)''))])),
        initialState)"
    by (simp only: D(5))
  have n8: "truthy (workspaceIdOf upEnv entryWithoutStart)" "\<not> truthy (arg entryWithoutStart ''start'')"
    by (simp_all add: A(26,27))
  note w8 = T[of upEnv entryWithoutStart initialState, THEN conjunct2, THEN conjunct2,
      rule_format, OF conjI[OF n8]]
  from A(1,3,4) w1 A(7) D(3) w2 A(12,11) w3 A(16) w4 A(20) w5 A(23,24) w6 A(25) w7 A(27) w8
  show ?thesis
    by (intro conjI)
qed

text \<open>
  The claim as it stands fails in four ways. With neither a \<^verbatim>\<open>workspace_id\<close> argument
  nor a default workspace the guard of line 721 answers first, with another error. A
  duration of zero, given without a stop, counts as no duration: the answer is
  "Either stop or duration is required" and no stop is derived. A duration that leads
  beyond the last instant a Date can hold gives "Invalid time value". And for a start
  and a stop that are \<open>16000000000000001\<close> milliseconds apart the duration sent is
  \<open>16000000000000\<close>, one less than the ceiling, because the difference is not a double.
\<close>

theorem create_entry_counterexample:
  "truthy (arg entryWithNeither ''start'')
   \<and> arg entryWithNeither ''stop'' = None
   \<and> arg entryWithNeither ''duration'' = None
   \<and> handleCallTool (upEnv\<lparr>defaultWorkspaceId := None\<rparr>) ''toggl_create_entry'' entryWithNeither
        initialState =
       (Inr (JsonText (JObj
          [(''error'', JBool True),
           (''message'', JStr ''Workspace ID required (set TOGGL_DEFAULT_WORKSPACE_ID or provide workspace_id)''),
           (''details'', JStr (''Error: Workspace ID required (set TOGGL_DEFAULT_WORKSPACE_ID or provide workspace_id)''
               @ [CHR 0x0A] @ ''    at file:///app/dist/index.js''))])),
        initialState)
   \<and> arg entryWithZeroDuration ''duration'' = Some (JNum 0)
   \<and> arg entryWithZeroDuration ''stop'' = None
   \<and> handleCallTool upEnv ''toggl_create_entry'' entryWithZeroDuration initialState =
       (Inr (JsonText (JObj
          [(''error'', JBool True),
           (''message'', JStr ''Either stop or duration is required''),
           (''details'', JStr (''Error: Either stop or duration is required''
               @ [CHR 0x0A] @ ''    at file:///app/dist/index.js''))])),
        initialState)
   \<and> arg entryWithHugeDuration ''duration'' = Some (JNum 8640000000000)
   \<and> arg entryWithHugeDuration ''stop'' = None
   \<and> newDate (runtime upEnv) (arg entryWithHugeDuration ''start'') = Some 1771349400000
   \<and> handleCallTool upEnv ''toggl_create_entry'' entryWithHugeDuration initialState =
       (Inr (JsonText (JObj
          [(''error'', JBool True),
           (''message'', JStr ''Invalid time value''),
           (''details'', JStr (''RangeError: Invalid time value''
               @ [CHR 0x0A] @ ''    at file:///app/dist/index.js''))])),
        initialState)
   \<and> newDate (runtime upEnv) (arg entryFarApart ''start'') = Some (- 8000000000000000)
   \<and> newDate (runtime upEnv) (arg entryFarApart ''stop'') = Some 8000000000000001
   \<and> arg entryFarApart ''duration'' = None
   \<and> take 1 (newCalls initialState
                (snd (handleCallTool upEnv ''toggl_create_entry'' entryFarApart initialState))) =
       [Call ''createTimeEntry''
          [JNum 1, JObj [(''description'', JStr ''Design''),
                         (''start'', JNum (- 8000000000000000)),
                         (''stop'', JNum 8000000000000001),
                         (''duration'', JNum 16000000000000)]]]
   \<and> \<lceil>rat_of_int (8000000000000001 - (- 8000000000000000)) / 1000\<rceil> = 16000000000001"
  by code_simp

subsection \<open>\<^verbatim>\<open>ensureCache\<close> and the \<^verbatim>\<open>cacheWarmed\<close> flag\<close>

lemma warmWorkspaces_frame:
  "cacheWarmed (snd (warmWorkspaces ev ws st)) = cacheWarmed st \<and>
   errlog (snd (warmWorkspaces ev ws st)) = errlog st"
proof (induction ws arbitrary: st)
  case Nil
  show ?case by (simp add: succeed_def)
next
  case (Cons w ws)
  show ?case
    by (simp add: andThen_def upstream_def perform_def storeAll_def Cons.IH
          split: sum.splits prod.splits)
qed

lemma warmCache_frame:
  "cacheWarmed (snd (warmCache ev wid st)) = cacheWarmed st \<and>
   errlog (snd (warmCache ev wid st)) = errlog st"
  by (simp add: warmCache_def Let_def andThen_def upstream_def perform_def storeAll_def
        warmWorkspaces_frame split: sum.splits prod.splits)

lemma warmCache_first_call:
  "take 1 (newCalls st (snd (warmCache ev wid st))) = [Call ''getWorkspaces'' []]"
  unfolding warmCache_def Let_def
  by (rule newCalls_first)
     (intro grows_andThen grows_perform grows_warmWorkspaces, simp add: storeAll_calls)

lemma ensureCache_cold:
  "\<not> cacheWarmed st \<Longrightarrow>
     snd (ensureCache ev st) =
       (case fst (warmCache ev (defaultWorkspaceId ev) st) of
          Inr u \<Rightarrow> (snd (warmCache ev (defaultWorkspaceId ev) st))\<lparr>cacheWarmed := True\<rparr>
        | Inl e \<Rightarrow> (snd (warmCache ev (defaultWorkspaceId ev) st))
                     \<lparr>errlog := errlog st @ [e]\<rparr>)"
proof (cases "warmCache ev (defaultWorkspaceId ev) st")
  case (Pair r st')
  assume "\<not> cacheWarmed st"
  moreover from warmCache_frame[of ev "defaultWorkspaceId ev" st] Pair
  have "errlog st' = errlog st" by simp
  ultimately show ?thesis
    using Pair by (cases r) (simp_all add: ensureCache_def)
qed

text \<open>
  The shape of the three cases that write a project or a client: two guards, the
  upstream write, then \<^verbatim>\<open>cache.clearCache(); cacheWarmed = false\<close>.
\<close>

lemma guarded_write:
  assumes "andThen (requireTruthy x e1) (\<lambda>w. andThen (requireTruthy y e2) (\<lambda>n.
             andThen (upstream m (as w n) (r w n)) (\<lambda>v.
             andThen (perform clearAndReset) (\<lambda>_. succeed (R v))))) st = (Inr res, st')"
  shows "cache st' = clearCache (cache st) \<and> \<not> cacheWarmed st' \<and>
         (\<exists>as'. calls st' = calls st @ [Call m as']) \<and> errlog st' = errlog st"
  using assms
  by (auto simp: requireTruthy_def andThen_def throw_def succeed_def upstream_def perform_def
        clearAndReset_def split: option.splits if_splits sum.splits prod.splits)

lemma create_client_success:
  assumes "fst (callTool ev ''toggl_create_client'' a st) = Inr r"
  shows "cache (snd (callTool ev ''toggl_create_client'' a st)) = clearCache (cache st) \<and>
         \<not> cacheWarmed (snd (callTool ev ''toggl_create_client'' a st)) \<and>
         (\<exists>as. calls (snd (callTool ev ''toggl_create_client'' a st)) =
                 calls st @ [Call ''createClient'' as]) \<and>
         errlog (snd (callTool ev ''toggl_create_client'' a st)) = errlog st"
proof -
  from assms
  have "toggl_create_client ev a st = (Inr r, snd (callTool ev ''toggl_create_client'' a st))"
    by (simp add: callTool_def prod_eq_iff)
  then show ?thesis
    unfolding toggl_create_client_def Let_def by (rule guarded_write)
qed

lemma create_project_success:
  assumes "fst (callTool ev ''toggl_create_project'' a st) = Inr r"
  shows "cache (snd (callTool ev ''toggl_create_project'' a st)) = clearCache (cache st) \<and>
         \<not> cacheWarmed (snd (callTool ev ''toggl_create_project'' a st)) \<and>
         (\<exists>as. calls (snd (callTool ev ''toggl_create_project'' a st)) =
                 calls st @ [Call ''createProject'' as]) \<and>
         errlog (snd (callTool ev ''toggl_create_project'' a st)) = errlog st"
proof -
  from assms
  have "toggl_create_project ev a st = (Inr r, snd (callTool ev ''toggl_create_project'' a st))"
    by (simp add: callTool_def prod_eq_iff)
  then show ?thesis
    unfolding toggl_create_project_def Let_def by (rule guarded_write)
qed

lemma update_project_success:
  assumes "fst (callTool ev ''toggl_update_project'' a st) = Inr r"
  shows "cache (snd (callTool ev ''toggl_update_project'' a st)) = clearCache (cache st) \<and>
         \<not> cacheWarmed (snd (callTool ev ''toggl_update_project'' a st)) \<and>
         (\<exists>as. calls (snd (callTool ev ''toggl_update_project'' a st)) =
                 calls st @ [Call ''updateProject'' as]) \<and>
         errlog (snd (callTool ev ''toggl_update_project'' a st)) = errlog st"
proof -
  from assms
  have "toggl_update_project ev a st = (Inr r, snd (callTool ev ''toggl_update_project'' a st))"
    by (simp add: callTool_def prod_eq_iff)
  then show ?thesis
    unfolding toggl_update_project_def Let_def by (rule guarded_write)
qed

lemma clear_cache_state:
  "snd (callTool ev ''toggl_clear_cache'' a st) =
     st\<lparr>cache := clearCache (cache st), cacheWarmed := False\<rparr>"
  by (simp add: callTool_def toggl_clear_cache_def andThen_def perform_def clearAndReset_def
        succeed_def)

lemma warm_cache_tool_success:
  assumes "fst (warmCache ev (workspaceIdOf ev a) st) = Inr u"
  shows "cacheWarmed (snd (callTool ev ''toggl_warm_cache'' a st))"
  using assms
  by (cases "warmCache ev (workspaceIdOf ev a) st")
     (simp add: callTool_def toggl_warm_cache_def andThen_def perform_def setCacheWarmed_def
        readStats_def succeed_def)

lemma delete_time_entry_cache:
  "cache (snd (callTool ev ''toggl_delete_time_entry'' a st)) = cache st \<and>
   cacheWarmed (snd (callTool ev ''toggl_delete_time_entry'' a st)) = cacheWarmed st"
  by (simp add: callTool_def toggl_delete_time_entry_def requireTruthy_def andThen_def
        throw_def succeed_def upstream_def split: option.splits sum.splits)

text \<open>
  C9. When the cache has not been warmed and the warm of \<^verbatim>\<open>ensureCache\<close> fails,
  \<^verbatim>\<open>ensureCache\<close> returns all the same: the thrown value goes to the error log and
  nowhere else, the cache is as the failed warm left it, and \<^verbatim>\<open>cacheWarmed\<close> is still
  false. The step \<^verbatim>\<open>await ensureCache()\<close> of a tool case never throws. Whenever
  \<^verbatim>\<open>cacheWarmed\<close> is false, \<^verbatim>\<open>ensureCache\<close> attempts a warm (its first upstream call is the
  workspace listing), so the call after a failure tries again. After a warm that
  succeeds, through \<^verbatim>\<open>ensureCache\<close> or through the \<^verbatim>\<open>toggl_warm_cache\<close> tool,
  \<^verbatim>\<open>cacheWarmed\<close> is true, and then \<^verbatim>\<open>ensureCache\<close> does nothing at all. A successful
  \<^verbatim>\<open>toggl_create_client\<close>, \<^verbatim>\<open>toggl_create_project\<close> or \<^verbatim>\<open>toggl_update_project\<close>, and
  every \<^verbatim>\<open>toggl_clear_cache\<close>, leaves \<^verbatim>\<open>cacheWarmed\<close> false.
\<close>

theorem ensureCache_warms_until_success:
  "(\<forall>e. \<not> cacheWarmed st \<and> fst (warmCache ev (defaultWorkspaceId ev) st) = Inl e \<longrightarrow>
        ensureCache ev st =
          ((), (snd (warmCache ev (defaultWorkspaceId ev) st))\<lparr>errlog := errlog st @ [e]\<rparr>) \<and>
        \<not> cacheWarmed (snd (ensureCache ev st)))
   \<and> fst (perform (ensureCache ev) st) = Inr ()
   \<and> (\<not> cacheWarmed st \<longrightarrow>
        take 1 (newCalls st (snd (ensureCache ev st))) = [Call ''getWorkspaces'' []])
   \<and> (\<forall>u. \<not> cacheWarmed st \<and> fst (warmCache ev (defaultWorkspaceId ev) st) = Inr u \<longrightarrow>
        cacheWarmed (snd (ensureCache ev st)))
   \<and> (\<forall>u. fst (warmCache ev (workspaceIdOf ev a) st) = Inr u \<longrightarrow>
        cacheWarmed (snd (handleCallTool ev ''toggl_warm_cache'' a st)))
   \<and> (cacheWarmed st \<longrightarrow> ensureCache ev st = ((), st))
   \<and> (\<forall>name r.
        name \<in> {''toggl_create_client'', ''toggl_create_project'', ''toggl_update_project''} \<and>
        fst (callTool ev name a st) = Inr r \<longrightarrow>
        \<not> cacheWarmed (snd (handleCallTool ev name a st)))
   \<and> \<not> cacheWarmed (snd (handleCallTool ev ''toggl_clear_cache'' a st))"
proof (intro conjI allI impI; (elim conjE)?)
  fix e
  assume c: "\<not> cacheWarmed st" and f: "fst (warmCache ev (defaultWorkspaceId ev) st) = Inl e"
  from ensureCache_cold[OF c, of ev] f
  show "ensureCache ev st =
          ((), (snd (warmCache ev (defaultWorkspaceId ev) st))\<lparr>errlog := errlog st @ [e]\<rparr>)"
    by (simp add: prod_eq_iff)
  from ensureCache_cold[OF c, of ev] f c warmCache_frame[of ev "defaultWorkspaceId ev" st]
  show "\<not> cacheWarmed (snd (ensureCache ev st))"
    by simp
next
  show "fst (perform (ensureCache ev) st) = Inr ()"
    by (simp add: perform_def split: prod.splits)
next
  assume c: "\<not> cacheWarmed st"
  have "newCalls st (snd (ensureCache ev st)) =
          newCalls st (snd (warmCache ev (defaultWorkspaceId ev) st))"
    using ensureCache_cold[OF c, of ev]
    by (simp add: newCalls_def split: sum.splits)
  then show "take 1 (newCalls st (snd (ensureCache ev st))) = [Call ''getWorkspaces'' []]"
    by (simp only: warmCache_first_call)
next
  fix u
  assume c: "\<not> cacheWarmed st" and f: "fst (warmCache ev (defaultWorkspaceId ev) st) = Inr u"
  from ensureCache_cold[OF c, of ev] f show "cacheWarmed (snd (ensureCache ev st))"
    by simp
next
  fix u
  assume "fst (warmCache ev (workspaceIdOf ev a) st) = Inr u"
  then show "cacheWarmed (snd (handleCallTool ev ''toggl_warm_cache'' a st))"
    by (simp only: handleCallTool_snd warm_cache_tool_success)
next
  assume "cacheWarmed st"
  then show "ensureCache ev st = ((), st)"
    by (simp add: ensureCache_def)
next
  fix name r
  assume n: "name \<in> {''toggl_create_client'', ''toggl_create_project'', ''toggl_update_project''}"
    and f: "fst (callTool ev name a st) = Inr r"
  from n f show "\<not> cacheWarmed (snd (handleCallTool ev name a st))"
    unfolding handleCallTool_snd
    using create_client_success create_project_success update_project_success
    by blast
next
  show "\<not> cacheWarmed (snd (handleCallTool ev ''toggl_clear_cache'' a st))"
    by (simp add: handleCallTool_snd clear_cache_state)
qed

lemma warmedState_value:
  "warmedState =
     \<lparr>cache =
        \<lparr>entries =
           [((Workspace, 1),
             \<lparr>cached = \<lparr>ent_name = ''Acme'', ent_client_id = None\<rparr>, storedAt = 1771349400000\<rparr>),
            ((Project, 10),
             \<lparr>cached = \<lparr>ent_name = ''Website'', ent_client_id = Some 5\<rparr>, storedAt = 1771349400000\<rparr>),
            ((Client, 5),
             \<lparr>cached = \<lparr>ent_name = ''Globex'', ent_client_id = None\<rparr>, storedAt = 1771349400000\<rparr>)],
         hits = 0, misses = 0, evictions = 0\<rparr>,
      cacheWarmed = True,
      calls = [Call ''getWorkspaces'' [], Call ''getProjects'' [JNum 1], Call ''getClients'' [JNum 1]],
      errlog = []\<rparr>"
  by code_simp

lemma create_project_example:
  "callTool upEnv ''toggl_create_project'' newProject warmedState =
     (Inr (JsonText (JObj
        [(''success'', JBool True),
         (''message'', JStr ''Project \"Website\" created''),
         (''project'', JObj
            [(''id'', JNum 10), (''name'', JStr ''Website''), (''workspace_id'', JNum 1),
             (''client_id'', JNum 5), (''active'', JBool True), (''billable'', JBool False),
             (''color'', JStr ''#06aaf5''), (''is_private'', JBool False)])])),
      \<lparr>cache = \<lparr>entries = [], hits = 0, misses = 0, evictions = 0\<rparr>,
       cacheWarmed = False,
       calls = [Call ''getWorkspaces'' [], Call ''getProjects'' [JNum 1], Call ''getClients'' [JNum 1],
                Call ''createProject'' [JNum 1, JObj [(''name'', JStr ''Website''), (''client_id'', JNum 5)]]],
       errlog = []\<rparr>)"
  by code_simp

theorem ensureCache_warms_until_success_witness:
  "\<not> cacheWarmed initialState
   \<and> fst (warmCache halfEnv (defaultWorkspaceId halfEnv) initialState) = Inl networkError
   \<and> ensureCache halfEnv initialState =
       ((), initialState\<lparr>calls := [Call ''getWorkspaces'' []], errlog := [networkError]\<rparr>)
   \<and> fst (handleCallTool halfEnv ''toggl_get_time_entries'' [] initialState) =
       Inr (JsonText (JObj
         [(''count'', JNum 1),
          (''entries'', JArr
             [JObj [(''id'', JNum 100), (''workspace_id'', JNum 1), (''project_id'', JNum 10),
                    (''description'', JStr ''Design''),
                    (''start'', JStr ''2026-02-17T17:30:00.000Z''),
                    (''stop'', JStr ''2026-02-17T18:00:00.000Z''),
                    (''duration'', JNum 1800), (''tags'', JArr []), (''billable'', JBool False),
                    (''workspace_name'', JStr ''Acme''), (''project_name'', JStr ''Website''),
                    (''client_name'', JStr ''Globex'')]])]))
   \<and> take 1 (newCalls initialState (snd (ensureCache halfEnv initialState))) =
       [Call ''getWorkspaces'' []]
   \<and> fst (warmCache upEnv (defaultWorkspaceId upEnv) initialState) = Inr ()
   \<and> cacheWarmed (snd (ensureCache upEnv initialState))
   \<and> fst (warmCache upEnv (workspaceIdOf upEnv []) initialState) = Inr ()
   \<and> cacheWarmed (snd (handleCallTool upEnv ''toggl_warm_cache'' [] initialState))
   \<and> cacheWarmed warmedState
   \<and> ensureCache upEnv warmedState = ((), warmedState)
   \<and> (\<exists>r. fst (callTool upEnv ''toggl_create_project'' newProject warmedState) = Inr r)
   \<and> \<not> cacheWarmed (snd (handleCallTool upEnv ''toggl_create_project'' newProject warmedState))"
proof -
  have c0: "\<not> cacheWarmed initialState"
    by (simp add: initialState_def)
  have f1: "warmCache halfEnv (defaultWorkspaceId halfEnv) initialState =
              (Inl networkError, initialState\<lparr>calls := [Call ''getWorkspaces'' []]\<rparr>)"
    by code_simp
  have p: "fst (handleCallTool halfEnv ''toggl_get_time_entries'' [] initialState) =
       Inr (JsonText (JObj
         [(''count'', JNum 1),
          (''entries'', JArr
             [JObj [(''id'', JNum 100), (''workspace_id'', JNum 1), (''project_id'', JNum 10),
                    (''description'', JStr ''Design''),
                    (''start'', JStr ''2026-02-17T17:30:00.000Z''),
                    (''stop'', JStr ''2026-02-17T18:00:00.000Z''),
                    (''duration'', JNum 1800), (''tags'', JArr []), (''billable'', JBool False),
                    (''workspace_name'', JStr ''Acme''), (''project_name'', JStr ''Website''),
                    (''client_name'', JStr ''Globex'')]])]))"
    by code_simp
  have f2: "fst (warmCache upEnv (defaultWorkspaceId upEnv) initialState) = Inr ()"
    by code_simp
  have f3: "fst (warmCache upEnv (workspaceIdOf upEnv []) initialState) = Inr ()"
    by code_simp
  have w: "cacheWarmed warmedState"
    by (simp add: warmedState_value)
  have f4: "\<exists>r. fst (callTool upEnv ''toggl_create_project'' newProject warmedState) = Inr r"
    by (simp add: create_project_example)
  note T = ensureCache_warms_until_success
  from T[where st = initialState and ev = halfEnv] c0 f1
  have a1: "ensureCache halfEnv initialState =
       ((), initialState\<lparr>calls := [Call ''getWorkspaces'' []], errlog := [networkError]\<rparr>)"
    by (simp add: initialState_def)
  from T[where st = initialState and ev = halfEnv] c0
  have a2: "take 1 (newCalls initialState (snd (ensureCache halfEnv initialState))) =
       [Call ''getWorkspaces'' []]"
    by blast
  from T[where st = initialState and ev = upEnv] c0 f2
  have a3: "cacheWarmed (snd (ensureCache upEnv initialState))"
    by blast
  from T[where st = initialState and ev = upEnv and a = "[]"] f3
  have a4: "cacheWarmed (snd (handleCallTool upEnv ''toggl_warm_cache'' [] initialState))"
    by blast
  from T[where st = warmedState and ev = upEnv] w
  have a5: "ensureCache upEnv warmedState = ((), warmedState)"
    by blast
  from T[where st = warmedState and ev = upEnv and a = newProject] f4
  have a6: "\<not> cacheWarmed (snd (handleCallTool upEnv ''toggl_create_project'' newProject warmedState))"
    by blast
  from c0 f1 a1 p a2 f2 a3 f3 a4 w a5 f4 a6 show ?thesis
    by simp
qed

subsection \<open>Entity Store: expiry\<close>

lemma map_of_snoc_absent: "map_of xs k = None \<Longrightarrow> map_of (xs @ [(k, e)]) k = Some e"
  by (simp add: map_add_Some_iff)

lemma map_of_evictLRU_absent: "map_of xs k = None \<Longrightarrow> map_of (fst (evictLRU xs)) k = None"
  by (cases xs) (auto simp: evictLRU_def split: if_splits)

lemma map_of_put_same:
  "map_of (fst (put cfg t k v es)) k = Some \<lparr>cached = v, storedAt = t\<rparr>"
proof -
  let ?es1 = "invalidate k es"
  let ?r = "if maxSize cfg < int (length ?es1) + 1 then evictLRU ?es1 else (?es1, None)"
  have "map_of (fst ?r) k = None"
    by (simp add: map_of_evictLRU_absent map_of_invalidate_same)
  from map_of_snoc_absent[OF this] show ?thesis
    by (simp only: put_def Let_def fst_conv)
qed

lemma get_fresh:
  "map_of es k = Some e \<Longrightarrow> n - storedAt e < ttl cfg \<Longrightarrow>
     get cfg n k es = (Some (cached e), invalidate k es @ [(k, e)])"
  by (simp add: get_def)

lemma get_expired:
  "map_of es k = Some e \<Longrightarrow> ttl cfg \<le> n - storedAt e \<Longrightarrow>
     get cfg n k es = (None, invalidate k es)"
  by (simp add: get_def)

lemma get_absent: "map_of es k = None \<Longrightarrow> get cfg n k es = (None, es)"
  by (simp add: get_def)

lemma get_invalidated: "get cfg n k (invalidate k es) = (None, invalidate k es)"
  by (simp add: get_absent map_of_invalidate_same)

lemma lookupEntity_hit:
  "fst (get (cacheConfig ev) (now ev) (kd, i) (entries (cache st))) = Some v \<Longrightarrow>
     lookupEntity ev kd i st =
       (Some v, st\<lparr>cache := (cache st)\<lparr>entries := snd (get (cacheConfig ev) (now ev) (kd, i) (entries (cache st))),
                                      hits := hits (cache st) + 1\<rparr>\<rparr>)"
  by (simp add: lookupEntity_def Let_def)

lemma lookupEntity_miss_calls:
  "fst (get (cacheConfig ev) (now ev) (kd, i) (entries (cache st))) = None \<Longrightarrow>
     calls (snd (lookupEntity ev kd i st)) = calls st @ [Call (fetchName kd) [JNum i]]"
  by (simp add: lookupEntity_def Let_def split: sum.splits option.splits)

lemma newCalls_append: "calls st' = calls st @ cs \<Longrightarrow> newCalls st st' = cs"
  by (simp add: newCalls_def)

text \<open>
  C2. An entity put at time \<open>t\<close> is in the store with that \<open>storedAt\<close>. As long as it is
  there, a get of its key at a time \<open>n\<close> with \<open>n - t < ttl\<close> returns exactly the value
  put; once \<open>ttl \<le> n - t\<close> the get returns nothing and is, result and store, the get of
  a store from which the entry has been removed. The same through the Cache Manager:
  within the ttl a lookup returns the value and makes no upstream call; from the ttl on
  the lookup is the lookup of a state without the entry, and its one upstream call is
  the single-entity fetch.
\<close>

theorem get_after_put:
  "map_of (fst (put cfg t k v es)) k = Some \<lparr>cached = v, storedAt = t\<rparr>
   \<and> (\<forall>es'. map_of es' k = Some \<lparr>cached = v, storedAt = t\<rparr> \<longrightarrow>
        (n - t < ttl cfg \<longrightarrow> fst (get cfg n k es') = Some v) \<and>
        (ttl cfg \<le> n - t \<longrightarrow>
           get cfg n k es' = get cfg n k (invalidate k es') \<and>
           fst (get cfg n k es') = None))
   \<and> (\<forall>st. map_of (entries (cache st)) (kd, i) = Some \<lparr>cached = v, storedAt = t\<rparr> \<longrightarrow>
        (now ev - t < ttl (cacheConfig ev) \<longrightarrow>
           fst (lookupEntity ev kd i st) = Some v \<and>
           newCalls st (snd (lookupEntity ev kd i st)) = []) \<and>
        (ttl (cacheConfig ev) \<le> now ev - t \<longrightarrow>
           lookupEntity ev kd i st =
             lookupEntity ev kd i
               (st\<lparr>cache := (cache st)\<lparr>entries := invalidate (kd, i) (entries (cache st))\<rparr>\<rparr>) \<and>
           newCalls st (snd (lookupEntity ev kd i st)) = [Call (fetchName kd) [JNum i]]))"
proof (intro conjI allI impI)
  show "map_of (fst (put cfg t k v es)) k = Some \<lparr>cached = v, storedAt = t\<rparr>"
    by (rule map_of_put_same)
next
  fix es' :: entity_store
  assume m: "map_of es' k = Some \<lparr>cached = v, storedAt = t\<rparr>"
  {
    assume "n - t < ttl cfg"
    with m show "fst (get cfg n k es') = Some v"
      by (simp add: get_fresh)
  }
  assume "ttl cfg \<le> n - t"
  with m have "get cfg n k es' = (None, invalidate k es')"
    by (simp add: get_expired)
  then show "get cfg n k es' = get cfg n k (invalidate k es')" "fst (get cfg n k es') = None"
    by (simp_all add: get_invalidated)
next
  fix st :: server_state
  assume m: "map_of (entries (cache st)) (kd, i) = Some \<lparr>cached = v, storedAt = t\<rparr>"
  {
    assume "now ev - t < ttl (cacheConfig ev)"
    with m have g: "fst (get (cacheConfig ev) (now ev) (kd, i) (entries (cache st))) = Some v"
      by (simp add: get_fresh)
    from lookupEntity_hit[OF g]
    show "fst (lookupEntity ev kd i st) = Some v" "newCalls st (snd (lookupEntity ev kd i st)) = []"
      by (simp_all add: newCalls_def)
  }
  assume "ttl (cacheConfig ev) \<le> now ev - t"
  with m have g: "get (cacheConfig ev) (now ev) (kd, i) (entries (cache st)) =
                    (None, invalidate (kd, i) (entries (cache st)))"
    by (simp add: get_expired)
  show "lookupEntity ev kd i st =
          lookupEntity ev kd i
            (st\<lparr>cache := (cache st)\<lparr>entries := invalidate (kd, i) (entries (cache st))\<rparr>\<rparr>)"
    by (simp add: lookupEntity_def Let_def g get_invalidated split: sum.splits option.splits)
  from g have "fst (get (cacheConfig ev) (now ev) (kd, i) (entries (cache st))) = None"
    by simp
  from lookupEntity_miss_calls[OF this]
  show "newCalls st (snd (lookupEntity ev kd i st)) = [Call (fetchName kd) [JNum i]]"
    by (rule newCalls_append)
qed


theorem get_after_put_witness:
  "(3599999 :: int) - 0 < ttl defaultConfig
   \<and> fst (get defaultConfig 3599999 (Project, 10)
          (fst (put defaultConfig 0 (Project, 10) (projectEntity website) []))) =
       Some (projectEntity website)
   \<and> ttl defaultConfig \<le> 3600000 - 0
   \<and> fst (get defaultConfig 3600000 (Project, 10)
          (fst (put defaultConfig 0 (Project, 10) (projectEntity website) []))) = None
   \<and> get defaultConfig 3600000 (Project, 10)
        (fst (put defaultConfig 0 (Project, 10) (projectEntity website) [])) =
       get defaultConfig 3600000 (Project, 10)
        (invalidate (Project, 10)
           (fst (put defaultConfig 0 (Project, 10) (projectEntity website) [])))
   \<and> map_of (entries (cache oneProjectCached)) (Project, 10) =
       Some \<lparr>cached = projectEntity website, storedAt = 1771349400000\<rparr>
   \<and> now laterEnv - 1771349400000 < ttl (cacheConfig laterEnv)
   \<and> fst (lookupEntity laterEnv Project 10 oneProjectCached) = Some (projectEntity website)
   \<and> newCalls oneProjectCached (snd (lookupEntity laterEnv Project 10 oneProjectCached)) = []
   \<and> ttl (cacheConfig hourLaterEnv) \<le> now hourLaterEnv - 1771349400000
   \<and> newCalls oneProjectCached (snd (lookupEntity hourLaterEnv Project 10 oneProjectCached)) =
       [Call ''getProject'' [JNum 10]]"
proof -
  let ?es = "fst (put defaultConfig 0 (Project, 10) (projectEntity website) [])"
  have h1: "(3599999 :: int) - 0 < ttl defaultConfig" and h2: "ttl defaultConfig \<le> 3600000 - 0"
    by (simp_all add: defaultConfig_def)
  note T1 = get_after_put[where cfg = defaultConfig and t = 0 and k = "(Project, 10)"
      and v = "projectEntity website" and es = "[]" and n = 3599999]
  note T2 = get_after_put[where cfg = defaultConfig and t = 0 and k = "(Project, 10)"
      and v = "projectEntity website" and es = "[]" and n = 3600000]
  from T1 have m: "map_of ?es (Project, 10) = Some \<lparr>cached = projectEntity website, storedAt = 0\<rparr>"
    by (rule conjunct1)
  from T1 m h1 have a1: "fst (get defaultConfig 3599999 (Project, 10) ?es) = Some (projectEntity website)"
    by blast
  from T2 m h2 have a2: "fst (get defaultConfig 3600000 (Project, 10) ?es) = None"
    and a3: "get defaultConfig 3600000 (Project, 10) ?es =
               get defaultConfig 3600000 (Project, 10) (invalidate (Project, 10) ?es)"
    by blast+
  have m2: "map_of (entries (cache oneProjectCached)) (Project, 10) =
       Some \<lparr>cached = projectEntity website, storedAt = 1771349400000\<rparr>"
    by (simp add: oneProjectCached_def initialState_def)
  have h3: "now laterEnv - 1771349400000 < ttl (cacheConfig laterEnv)"
    and h4: "ttl (cacheConfig hourLaterEnv) \<le> now hourLaterEnv - 1771349400000"
    by (simp_all add: laterEnv_def hourLaterEnv_def upEnv_def defaultConfig_def)
  note T3 = get_after_put[where ev = laterEnv and kd = Project and i = 10
      and v = "projectEntity website" and t = 1771349400000]
  note T4 = get_after_put[where ev = hourLaterEnv and kd = Project and i = 10
      and v = "projectEntity website" and t = 1771349400000]
  from T3 m2 h3 have a4: "fst (lookupEntity laterEnv Project 10 oneProjectCached) = Some (projectEntity website)"
    and a5: "newCalls oneProjectCached (snd (lookupEntity laterEnv Project 10 oneProjectCached)) = []"
    by blast+
  from T4 m2 h4 have a6: "newCalls oneProjectCached (snd (lookupEntity hourLaterEnv Project 10 oneProjectCached)) =
       [Call ''getProject'' [JNum 10]]"
    by (metis fetchName.simps(2))
  from h1 a1 h2 a2 a3 m2 h3 a4 a5 h4 a6 show ?thesis
    by (intro conjI)
qed

subsection \<open>Writes and the cache\<close>

lemma lookupEntity_warm: "cacheWarmed (snd (lookupEntity ev kd i st)) = cacheWarmed st"
  by (simp add: lookupEntity_def Let_def split: option.splits sum.splits)

lemma hydrateEntry_warm: "cacheWarmed (snd (hydrateEntry ev e st)) = cacheWarmed st"
  by (simp add: hydrateEntry_def Let_def getWorkspaceName_def getClientName_def lookupName_def
        lookupEntity_warm split: option.splits)

lemma hydrateTimeEntries_warm: "cacheWarmed (snd (hydrateTimeEntries ev es st)) = cacheWarmed st"
  by (induction es arbitrary: st) (simp_all add: Let_def hydrateEntry_warm)

lemma kw_succeed: "keepsWarm (succeed x)"
  by (simp add: keepsWarm_def succeed_def)

lemma kw_throw: "keepsWarm (throw e)"
  by (simp add: keepsWarm_def throw_def)

lemma kw_attempt: "keepsWarm (attempt r)"
  by (simp add: keepsWarm_def attempt_def)

lemma kw_upstream: "keepsWarm (upstream m as r)"
  by (simp add: keepsWarm_def upstream_def)

lemma kw_perform:
  "(\<And>st. cacheWarmed st \<Longrightarrow> cacheWarmed (snd (f st))) \<Longrightarrow> keepsWarm (perform f)"
  by (simp add: keepsWarm_def perform_def split: prod.splits) (metis snd_conv)

lemma kw_andThen:
  assumes "keepsWarm m" and "\<And>x. keepsWarm (f x)"
  shows "keepsWarm (andThen m f)"
  unfolding keepsWarm_def
proof (intro allI impI)
  fix st :: server_state
  assume w: "cacheWarmed st"
  show "cacheWarmed (snd (andThen m f st))"
  proof (cases "m st")
    case (Pair r st')
    from assms(1) w Pair have w': "cacheWarmed st'"
      by (metis keepsWarm_def snd_conv)
    show ?thesis
    proof (cases r)
      case (Inl e)
      with Pair w' show ?thesis by (simp add: andThen_def)
    next
      case (Inr x)
      from assms(2)[of x] w' have "cacheWarmed (snd (f x st'))" by (simp add: keepsWarm_def)
      with Pair Inr show ?thesis by (simp add: andThen_def)
    qed
  qed
qed

lemma kw_if: "keepsWarm m \<Longrightarrow> keepsWarm n \<Longrightarrow> keepsWarm (if c then m else n)"
  by simp

lemma kw_case_option:
  "keepsWarm m \<Longrightarrow> (\<And>y. keepsWarm (f y)) \<Longrightarrow> keepsWarm (case x of None \<Rightarrow> m | Some y \<Rightarrow> f y)"
  by (cases x) simp_all

lemma kw_requireTruthy: "keepsWarm (requireTruthy x e)"
  by (cases x) (simp_all add: requireTruthy_def kw_throw kw_succeed)

lemma kw_ensureCache: "keepsWarm (perform (ensureCache ev))"
  by (rule kw_perform) (simp add: ensureCache_def)

lemma kw_hydrate: "keepsWarm (perform (hydrateTimeEntries ev es))"
  by (rule kw_perform) (simp add: hydrateTimeEntries_warm)

lemma kw_stopAndDuration: "keepsWarm (stopAndDuration rt start stop duration)"
  unfolding stopAndDuration_def
  by (intro kw_if kw_andThen kw_attempt kw_succeed kw_throw)

lemmas kw_rules =
  kw_andThen kw_succeed kw_throw kw_attempt kw_upstream kw_if kw_case_option kw_requireTruthy
  kw_ensureCache kw_hydrate kw_stopAndDuration

lemma time_entry_tools_keep_warm:
  "keepsWarm (toggl_start_timer ev a)"
  "keepsWarm (toggl_create_entry ev a)"
  "keepsWarm (toggl_stop_timer ev a)"
  "keepsWarm (toggl_update_time_entry ev a)"
  "keepsWarm (toggl_delete_time_entry ev a)"
  unfolding toggl_start_timer_def toggl_create_entry_def toggl_stop_timer_def
    toggl_update_time_entry_def toggl_delete_time_entry_def Let_def
  by (intro kw_rules)+

text \<open>With a warm cache the shared end of the four cases is \<open>respondHydrated\<close>.\<close>

lemma warm_end:
  assumes "cacheWarmed st"
  shows "andThen (perform (ensureCache ev)) (\<lambda>_.
         andThen (perform (hydrateTimeEntries ev [e])) (\<lambda>hydrated.
         succeed (JsonText (obj
           [(''success'', Some (JBool True)),
            (''message'', Some (JStr msg)),
            (''entry'', firstJson hydrated)])))) st =
         respondHydrated ev msg e st"
  using assms
  by (simp add: andThen_def perform_def ensureCache_def succeed_def respondHydrated_def Let_def
        split: prod.splits)

lemma after_upstream:
  "andThen (upstream m as (Inr e)) K st = K e (st\<lparr>calls := calls st @ [Call m as]\<rparr>)"
  by (simp add: andThen_def upstream_def)

lemma start_timer_warm:
  assumes "cacheWarmed st" "workspaceIdOf ev a = Some w" "truthy (Some w)"
    and "startTimer (api ev) w (arg a ''description'') (arg a ''project_id'') (arg a ''task_id'')
           (arg a ''tags'') = Inr e"
  shows "callTool ev ''toggl_start_timer'' a st =
           respondHydrated ev ''Timer started'' e
             (st\<lparr>calls := calls st @
                [Call ''startTimer''
                   [w, optJson (arg a ''description''), optJson (arg a ''project_id''),
                    optJson (arg a ''task_id''), optJson (arg a ''tags'')]]\<rparr>)"
proof -
  have "callTool ev ''toggl_start_timer'' a = toggl_start_timer ev a"
    by (simp add: callTool_def)
  then show ?thesis
    using assms
    by (simp add: toggl_start_timer_def requireTruthy_pass andThen_succeed after_upstream
        warm_end)
qed

lemma create_entry_warm:
  assumes "cacheWarmed st" "workspaceIdOf ev a = Some w" "truthy (Some w)"
    and "arg a ''start'' = Some start" "truthy (Some start)"
    and "stopAndDuration (runtime ev) start (arg a ''stop'') (arg a ''duration'') = succeed sd"
    and "createTimeEntry (api ev) w (entryBody a start (fst sd) (snd sd)) = Inr e"
  shows "callTool ev ''toggl_create_entry'' a st =
           respondHydrated ev ''Time entry created'' e
             (st\<lparr>calls := calls st @
                [Call ''createTimeEntry'' [w, JObj (entryBody a start (fst sd) (snd sd))]]\<rparr>)"
proof -
  have "callTool ev ''toggl_create_entry'' a = toggl_create_entry ev a"
    by (simp add: callTool_def)
  then show ?thesis
    using assms(1,6,7)
    by (simp add: create_entry_after_guards[OF assms(2-5)] andThen_succeed after_upstream
        warm_end)
qed

lemma stop_timer_warm:
  assumes "cacheWarmed st" "getCurrentTimeEntry (api ev) = Inr (Some c)"
    and "stopTimer (api ev) (te_workspace_id c) (te_id c) = Inr e"
  shows "callTool ev ''toggl_stop_timer'' a st =
           respondHydrated ev ''Timer stopped'' e
             (st\<lparr>calls := calls st @
                [Call ''getCurrentTimeEntry'' [],
                 Call ''stopTimer'' [JNum (te_workspace_id c), JNum (te_id c)]]\<rparr>)"
proof -
  have "callTool ev ''toggl_stop_timer'' a = toggl_stop_timer ev a"
    by (simp add: callTool_def)
  then show ?thesis
    using assms
    by (simp add: toggl_stop_timer_def after_upstream warm_end)
qed

lemma update_time_entry_warm:
  assumes "cacheWarmed st" "workspaceIdOf ev a = Some w" "truthy (Some w)"
    and "arg a ''time_entry_id'' = Some i" "truthy (Some i)"
    and "updateTimeEntry (api ev) w i
           (pick a [''description'', ''project_id'', ''task_id'', ''billable'', ''start'', ''stop'',
                    ''duration'', ''tags'']) = Inr e"
  shows "callTool ev ''toggl_update_time_entry'' a st =
           respondHydrated ev ''Time entry updated'' e
             (st\<lparr>calls := calls st @
                [Call ''updateTimeEntry''
                   [w, i, JObj (pick a [''description'', ''project_id'', ''task_id'', ''billable'',
                                        ''start'', ''stop'', ''duration'', ''tags''])]]\<rparr>)"
proof -
  have "callTool ev ''toggl_update_time_entry'' a = toggl_update_time_entry ev a"
    by (simp add: callTool_def)
  then show ?thesis
    using assms
    by (simp add: toggl_update_time_entry_def requireTruthy_pass andThen_succeed Let_def
        after_upstream warm_end)
qed

lemma handle_Inr:
  "callTool ev name a st = (Inr r, st') \<Longrightarrow> handleCallTool ev name a st = (Inr r, st')"
  by (simp add: handleCallTool_def)

text \<open>What the store validly holds is what a hydration serves.\<close>

lemma map_of_get_other:
  "k' \<noteq> k \<Longrightarrow> map_of (snd (get cfg n k es)) k' = map_of es k'"
  by (simp add: get_def map_of_invalidate_other map_add_def split: option.splits)

lemma get_fst_cong:
  "map_of es k = map_of es' k \<Longrightarrow> fst (get cfg n k es) = fst (get cfg n k es')"
  by (simp add: get_def split: option.splits)

lemma cached_names_served:
  assumes w: "fst (get (cacheConfig ev) (now ev) (Workspace, te_workspace_id e)
                 (entries (cache st))) = Some wv"
  shows "workspace_name (fst (hydrateEntry ev e st)) = ent_name wv"
    and "te_project_id e = Some pid \<Longrightarrow>
         fst (get (cacheConfig ev) (now ev) (Project, pid) (entries (cache st))) = Some pv \<Longrightarrow>
         project_name (fst (hydrateEntry ev e st)) = Some (ent_name pv)"
proof -
  note l = lookupEntity_hit[OF w]
  show "workspace_name (fst (hydrateEntry ev e st)) = ent_name wv"
    by (simp add: hydrateEntry_def Let_def getWorkspaceName_def lookupName_def l
        time_entry.defs split: option.splits)
  assume p: "te_project_id e = Some pid"
    and g: "fst (get (cacheConfig ev) (now ev) (Project, pid) (entries (cache st))) = Some pv"
  let ?st1 = "snd (lookupEntity ev Workspace (te_workspace_id e) st)"
  have "entries (cache ?st1) =
          snd (get (cacheConfig ev) (now ev) (Workspace, te_workspace_id e) (entries (cache st)))"
    by (simp add: l)
  then have "map_of (entries (cache ?st1)) (Project, pid) = map_of (entries (cache st)) (Project, pid)"
    by (simp add: map_of_get_other)
  from get_fst_cong[OF this] g
  have "fst (get (cacheConfig ev) (now ev) (Project, pid) (entries (cache ?st1))) = Some pv"
    by simp
  from lookupEntity_hit[OF this]
  show "project_name (fst (hydrateEntry ev e st)) = Some (ent_name pv)"
    by (simp add: hydrateEntry_def Let_def getWorkspaceName_def lookupName_def p
        time_entry.defs split: option.splits)
qed

text \<open>
  C1. A \<^verbatim>\<open>toggl_create_client\<close>, \<^verbatim>\<open>toggl_create_project\<close> or \<^verbatim>\<open>toggl_update_project\<close>
  call that succeeds has made exactly one upstream call, the write, and leaves the whole
  cache empty, its counters at zero and \<^verbatim>\<open>cacheWarmed\<close> false: whatever is read from the
  Entity Store next is absent, so no later read returns a value stored before the
  write.

  The five cases that write a time entry invalidate nothing. None of them resets
  \<^verbatim>\<open>cacheWarmed\<close> once it is true. \<^verbatim>\<open>toggl_delete_time_entry\<close> leaves the cache and the flag
  as they were. With \<^verbatim>\<open>cacheWarmed\<close> true, \<^verbatim>\<open>toggl_start_timer\<close>, \<^verbatim>\<open>toggl_create_entry\<close>,
  \<^verbatim>\<open>toggl_stop_timer\<close> and \<^verbatim>\<open>toggl_update_time_entry\<close>, when the upstream write succeeds,
  do nothing but log the call, hydrate the entry that the upstream returned in the cache
  as it was before the write, and answer with it. And a hydration serves what the store
  validly holds: the workspace name it holds, and with it the project name it holds,
  whatever the upstream holds by now.
\<close>

theorem project_and_client_writes_clear_the_cache:
  "(\<forall>r. fst (callTool ev ''toggl_create_client'' a st) = Inr r \<longrightarrow>
        (\<exists>as. calls (snd (handleCallTool ev ''toggl_create_client'' a st)) =
                calls st @ [Call ''createClient'' as]) \<and>
        cache (snd (handleCallTool ev ''toggl_create_client'' a st)) =
          \<lparr>entries = [], hits = 0, misses = 0, evictions = 0\<rparr> \<and>
        \<not> cacheWarmed (snd (handleCallTool ev ''toggl_create_client'' a st)) \<and>
        (\<forall>cfg t k. fst (get cfg t k
            (entries (cache (snd (handleCallTool ev ''toggl_create_client'' a st))))) = None))
   \<and> (\<forall>r. fst (callTool ev ''toggl_create_project'' a st) = Inr r \<longrightarrow>
        (\<exists>as. calls (snd (handleCallTool ev ''toggl_create_project'' a st)) =
                calls st @ [Call ''createProject'' as]) \<and>
        cache (snd (handleCallTool ev ''toggl_create_project'' a st)) =
          \<lparr>entries = [], hits = 0, misses = 0, evictions = 0\<rparr> \<and>
        \<not> cacheWarmed (snd (handleCallTool ev ''toggl_create_project'' a st)) \<and>
        (\<forall>cfg t k. fst (get cfg t k
            (entries (cache (snd (handleCallTool ev ''toggl_create_project'' a st))))) = None))
   \<and> (\<forall>r. fst (callTool ev ''toggl_update_project'' a st) = Inr r \<longrightarrow>
        (\<exists>as. calls (snd (handleCallTool ev ''toggl_update_project'' a st)) =
                calls st @ [Call ''updateProject'' as]) \<and>
        cache (snd (handleCallTool ev ''toggl_update_project'' a st)) =
          \<lparr>entries = [], hits = 0, misses = 0, evictions = 0\<rparr> \<and>
        \<not> cacheWarmed (snd (handleCallTool ev ''toggl_update_project'' a st)) \<and>
        (\<forall>cfg t k. fst (get cfg t k
            (entries (cache (snd (handleCallTool ev ''toggl_update_project'' a st))))) = None))
   \<and> cache (snd (handleCallTool ev ''toggl_delete_time_entry'' a st)) = cache st
   \<and> cacheWarmed (snd (handleCallTool ev ''toggl_delete_time_entry'' a st)) = cacheWarmed st
   \<and> (cacheWarmed st \<longrightarrow>
        cacheWarmed (snd (handleCallTool ev ''toggl_start_timer'' a st)) \<and>
        cacheWarmed (snd (handleCallTool ev ''toggl_create_entry'' a st)) \<and>
        cacheWarmed (snd (handleCallTool ev ''toggl_stop_timer'' a st)) \<and>
        cacheWarmed (snd (handleCallTool ev ''toggl_update_time_entry'' a st)) \<and>
        cacheWarmed (snd (handleCallTool ev ''toggl_delete_time_entry'' a st)))
   \<and> (\<forall>w e.
        cacheWarmed st \<and> workspaceIdOf ev a = Some w \<and> truthy (Some w) \<and>
        startTimer (api ev) w (arg a ''description'') (arg a ''project_id'') (arg a ''task_id'')
          (arg a ''tags'') = Inr e \<longrightarrow>
        handleCallTool ev ''toggl_start_timer'' a st =
          respondHydrated ev ''Timer started'' e
            (st\<lparr>calls := calls st @
               [Call ''startTimer''
                  [w, optJson (arg a ''description''), optJson (arg a ''project_id''),
                   optJson (arg a ''task_id''), optJson (arg a ''tags'')]]\<rparr>))
   \<and> (\<forall>w start sd e.
        cacheWarmed st \<and> workspaceIdOf ev a = Some w \<and> truthy (Some w) \<and>
        arg a ''start'' = Some start \<and> truthy (Some start) \<and>
        stopAndDuration (runtime ev) start (arg a ''stop'') (arg a ''duration'') = succeed sd \<and>
        createTimeEntry (api ev) w (entryBody a start (fst sd) (snd sd)) = Inr e \<longrightarrow>
        handleCallTool ev ''toggl_create_entry'' a st =
          respondHydrated ev ''Time entry created'' e
            (st\<lparr>calls := calls st @
               [Call ''createTimeEntry'' [w, JObj (entryBody a start (fst sd) (snd sd))]]\<rparr>))
   \<and> (\<forall>c e.
        cacheWarmed st \<and> getCurrentTimeEntry (api ev) = Inr (Some c) \<and>
        stopTimer (api ev) (te_workspace_id c) (te_id c) = Inr e \<longrightarrow>
        handleCallTool ev ''toggl_stop_timer'' a st =
          respondHydrated ev ''Timer stopped'' e
            (st\<lparr>calls := calls st @
               [Call ''getCurrentTimeEntry'' [],
                Call ''stopTimer'' [JNum (te_workspace_id c), JNum (te_id c)]]\<rparr>))
   \<and> (\<forall>w i e.
        cacheWarmed st \<and> workspaceIdOf ev a = Some w \<and> truthy (Some w) \<and>
        arg a ''time_entry_id'' = Some i \<and> truthy (Some i) \<and>
        updateTimeEntry (api ev) w i
          (pick a [''description'', ''project_id'', ''task_id'', ''billable'', ''start'', ''stop'',
                   ''duration'', ''tags'']) = Inr e \<longrightarrow>
        handleCallTool ev ''toggl_update_time_entry'' a st =
          respondHydrated ev ''Time entry updated'' e
            (st\<lparr>calls := calls st @
               [Call ''updateTimeEntry''
                  [w, i, JObj (pick a [''description'', ''project_id'', ''task_id'', ''billable'',
                                       ''start'', ''stop'', ''duration'', ''tags''])]]\<rparr>))
   \<and> respondHydrated ev msg e0 s =
       (Inr (JsonText (JObj
          [(''success'', JBool True), (''message'', JStr msg),
           (''entry'', hydratedJson (fst (hydrateEntry ev e0 s)))])),
        snd (hydrateEntry ev e0 s))
   \<and> (\<forall>wv.
        fst (get (cacheConfig ev) (now ev) (Workspace, te_workspace_id e0) (entries (cache s))) =
          Some wv \<longrightarrow>
        workspace_name (fst (hydrateEntry ev e0 s)) = ent_name wv \<and>
        (\<forall>pid pv.
           te_project_id e0 = Some pid \<and>
           fst (get (cacheConfig ev) (now ev) (Project, pid) (entries (cache s))) = Some pv \<longrightarrow>
           project_name (fst (hydrateEntry ev e0 s)) = Some (ent_name pv)))"
proof (intro conjI allI impI; (elim conjE)?)
  fix r
  assume "fst (callTool ev ''toggl_create_client'' a st) = Inr r"
  from create_client_success[OF this]
  have c: "cache (snd (handleCallTool ev ''toggl_create_client'' a st)) =
          \<lparr>entries = [], hits = 0, misses = 0, evictions = 0\<rparr>"
    and "\<exists>as. calls (snd (handleCallTool ev ''toggl_create_client'' a st)) =
                calls st @ [Call ''createClient'' as]"
    and "\<not> cacheWarmed (snd (handleCallTool ev ''toggl_create_client'' a st))"
    by (simp_all add: handleCallTool_snd clearCache_def invalidateAll_def)
  then show "\<exists>as. calls (snd (handleCallTool ev ''toggl_create_client'' a st)) =
                calls st @ [Call ''createClient'' as]"
    and "cache (snd (handleCallTool ev ''toggl_create_client'' a st)) =
          \<lparr>entries = [], hits = 0, misses = 0, evictions = 0\<rparr>"
    and "\<not> cacheWarmed (snd (handleCallTool ev ''toggl_create_client'' a st))"
    by simp_all
  fix cfg t k
  show "fst (get cfg t k
          (entries (cache (snd (handleCallTool ev ''toggl_create_client'' a st))))) = None"
    by (simp add: c get_def)
next
  fix r
  assume "fst (callTool ev ''toggl_create_project'' a st) = Inr r"
  from create_project_success[OF this]
  have c: "cache (snd (handleCallTool ev ''toggl_create_project'' a st)) =
          \<lparr>entries = [], hits = 0, misses = 0, evictions = 0\<rparr>"
    and "\<exists>as. calls (snd (handleCallTool ev ''toggl_create_project'' a st)) =
                calls st @ [Call ''createProject'' as]"
    and "\<not> cacheWarmed (snd (handleCallTool ev ''toggl_create_project'' a st))"
    by (simp_all add: handleCallTool_snd clearCache_def invalidateAll_def)
  then show "\<exists>as. calls (snd (handleCallTool ev ''toggl_create_project'' a st)) =
                calls st @ [Call ''createProject'' as]"
    and "cache (snd (handleCallTool ev ''toggl_create_project'' a st)) =
          \<lparr>entries = [], hits = 0, misses = 0, evictions = 0\<rparr>"
    and "\<not> cacheWarmed (snd (handleCallTool ev ''toggl_create_project'' a st))"
    by simp_all
  fix cfg t k
  show "fst (get cfg t k
          (entries (cache (snd (handleCallTool ev ''toggl_create_project'' a st))))) = None"
    by (simp add: c get_def)
next
  fix r
  assume "fst (callTool ev ''toggl_update_project'' a st) = Inr r"
  from update_project_success[OF this]
  have c: "cache (snd (handleCallTool ev ''toggl_update_project'' a st)) =
          \<lparr>entries = [], hits = 0, misses = 0, evictions = 0\<rparr>"
    and "\<exists>as. calls (snd (handleCallTool ev ''toggl_update_project'' a st)) =
                calls st @ [Call ''updateProject'' as]"
    and "\<not> cacheWarmed (snd (handleCallTool ev ''toggl_update_project'' a st))"
    by (simp_all add: handleCallTool_snd clearCache_def invalidateAll_def)
  then show "\<exists>as. calls (snd (handleCallTool ev ''toggl_update_project'' a st)) =
                calls st @ [Call ''updateProject'' as]"
    and "cache (snd (handleCallTool ev ''toggl_update_project'' a st)) =
          \<lparr>entries = [], hits = 0, misses = 0, evictions = 0\<rparr>"
    and "\<not> cacheWarmed (snd (handleCallTool ev ''toggl_update_project'' a st))"
    by simp_all
  fix cfg t k
  show "fst (get cfg t k
          (entries (cache (snd (handleCallTool ev ''toggl_update_project'' a st))))) = None"
    by (simp add: c get_def)
next
  show "cache (snd (handleCallTool ev ''toggl_delete_time_entry'' a st)) = cache st"
    by (simp add: handleCallTool_snd delete_time_entry_cache)
  show "cacheWarmed (snd (handleCallTool ev ''toggl_delete_time_entry'' a st)) = cacheWarmed st"
    by (simp add: handleCallTool_snd delete_time_entry_cache)
next
  assume w: "cacheWarmed st"
  note k = time_entry_tools_keep_warm[of ev a, unfolded keepsWarm_def, rule_format, OF w]
  show "cacheWarmed (snd (handleCallTool ev ''toggl_start_timer'' a st))"
    using k(1) by (simp add: handleCallTool_snd callTool_def)
  show "cacheWarmed (snd (handleCallTool ev ''toggl_create_entry'' a st))"
    using k(2) by (simp add: handleCallTool_snd callTool_def)
  show "cacheWarmed (snd (handleCallTool ev ''toggl_stop_timer'' a st))"
    using k(3) by (simp add: handleCallTool_snd callTool_def)
  show "cacheWarmed (snd (handleCallTool ev ''toggl_update_time_entry'' a st))"
    using k(4) by (simp add: handleCallTool_snd callTool_def)
  show "cacheWarmed (snd (handleCallTool ev ''toggl_delete_time_entry'' a st))"
    using k(5) by (simp add: handleCallTool_snd callTool_def)
next
  fix w e
  assume "cacheWarmed st" "workspaceIdOf ev a = Some w" "truthy (Some w)"
    "startTimer (api ev) w (arg a ''description'') (arg a ''project_id'') (arg a ''task_id'')
       (arg a ''tags'') = Inr e"
  from start_timer_warm[OF this]
  show "handleCallTool ev ''toggl_start_timer'' a st =
          respondHydrated ev ''Timer started'' e
            (st\<lparr>calls := calls st @
               [Call ''startTimer''
                  [w, optJson (arg a ''description''), optJson (arg a ''project_id''),
                   optJson (arg a ''task_id''), optJson (arg a ''tags'')]]\<rparr>)"
    by (simp add: handleCallTool_def respondHydrated_def Let_def)
next
  fix w start sd e
  assume "cacheWarmed st" "workspaceIdOf ev a = Some w" "truthy (Some w)"
    "arg a ''start'' = Some start" "truthy (Some start)"
    "stopAndDuration (runtime ev) start (arg a ''stop'') (arg a ''duration'') = succeed sd"
    "createTimeEntry (api ev) w (entryBody a start (fst sd) (snd sd)) = Inr e"
  from create_entry_warm[OF this]
  show "handleCallTool ev ''toggl_create_entry'' a st =
          respondHydrated ev ''Time entry created'' e
            (st\<lparr>calls := calls st @
               [Call ''createTimeEntry'' [w, JObj (entryBody a start (fst sd) (snd sd))]]\<rparr>)"
    by (simp add: handleCallTool_def respondHydrated_def Let_def)
next
  fix c e
  assume "cacheWarmed st" "getCurrentTimeEntry (api ev) = Inr (Some c)"
    "stopTimer (api ev) (te_workspace_id c) (te_id c) = Inr e"
  from stop_timer_warm[OF this]
  show "handleCallTool ev ''toggl_stop_timer'' a st =
          respondHydrated ev ''Timer stopped'' e
            (st\<lparr>calls := calls st @
               [Call ''getCurrentTimeEntry'' [],
                Call ''stopTimer'' [JNum (te_workspace_id c), JNum (te_id c)]]\<rparr>)"
    by (simp add: handleCallTool_def respondHydrated_def Let_def)
next
  fix w i e
  assume "cacheWarmed st" "workspaceIdOf ev a = Some w" "truthy (Some w)"
    "arg a ''time_entry_id'' = Some i" "truthy (Some i)"
    "updateTimeEntry (api ev) w i
       (pick a [''description'', ''project_id'', ''task_id'', ''billable'', ''start'', ''stop'',
                ''duration'', ''tags'']) = Inr e"
  from update_time_entry_warm[OF this]
  show "handleCallTool ev ''toggl_update_time_entry'' a st =
          respondHydrated ev ''Time entry updated'' e
            (st\<lparr>calls := calls st @
               [Call ''updateTimeEntry''
                  [w, i, JObj (pick a [''description'', ''project_id'', ''task_id'', ''billable'',
                                       ''start'', ''stop'', ''duration'', ''tags''])]]\<rparr>)"
    by (simp add: handleCallTool_def respondHydrated_def Let_def)
next
  show "respondHydrated ev msg e0 s =
       (Inr (JsonText (JObj
          [(''success'', JBool True), (''message'', JStr msg),
           (''entry'', hydratedJson (fst (hydrateEntry ev e0 s)))])),
        snd (hydrateEntry ev e0 s))"
    by (simp add: respondHydrated_def Let_def firstJson_def obj_def List.map_filter_simps)
next
  fix wv
  assume w: "fst (get (cacheConfig ev) (now ev) (Workspace, te_workspace_id e0)
                (entries (cache s))) = Some wv"
  from cached_names_served(1)[OF w]
  show "workspace_name (fst (hydrateEntry ev e0 s)) = ent_name wv" .
  fix pid pv
  assume "te_project_id e0 = Some pid"
    "fst (get (cacheConfig ev) (now ev) (Project, pid) (entries (cache s))) = Some pv"
  from cached_names_served(2)[OF w this]
  show "project_name (fst (hydrateEntry ev e0 s)) = Some (ent_name pv)" .
qed

lemma time_entry_write_examples:
  "cacheWarmed warmedState"
  "workspaceIdOf laterEnv [] = Some (JNum 1)"
  "startTimer (api laterEnv) (JNum 1) (arg [] ''description'') (arg [] ''project_id'')
     (arg [] ''task_id'') (arg [] ''tags'') = Inr entry100"
  "workspaceIdOf laterEnv entryWithDuration = Some (JNum 1)"
  "arg entryWithDuration ''start'' = Some (JStr ''2026-02-17T17:30:00.000Z'')"
  "createTimeEntry (api laterEnv) (JNum 1)
     (entryBody entryWithDuration (JStr ''2026-02-17T17:30:00.000Z'')
        (fst (Some (JStr ''2026-02-17T18:00:00.000Z''), Some (JNum 1800)))
        (snd (Some (JStr ''2026-02-17T18:00:00.000Z''), Some (JNum 1800)))) = Inr entry100"
  "getCurrentTimeEntry (api runningEnv) = Inr (Some entry100)"
  "stopTimer (api runningEnv) (te_workspace_id entry100) (te_id entry100) = Inr entry100"
  "workspaceIdOf laterEnv entryUpdate = Some (JNum 1)"
  "arg entryUpdate ''time_entry_id'' = Some (JNum 100)"
  "updateTimeEntry (api laterEnv) (JNum 1) (JNum 100)
     (pick entryUpdate [''description'', ''project_id'', ''task_id'', ''billable'', ''start'',
                        ''stop'', ''duration'', ''tags'']) = Inr entry100"
  "te_project_id entry100 = Some 10"
  by (simp_all add: warmedState_value laterEnv_def runningEnv_def upEnv_def upApi_def
        workspaceIdOf_def orElse_def arg_def entryWithDuration_def entryUpdate_def entry100_def)

lemma duration_example:
  "stopAndDuration (runtime laterEnv) (JStr ''2026-02-17T17:30:00.000Z'')
     (arg entryWithDuration ''stop'') (arg entryWithDuration ''duration'') =
     succeed (Some (JStr ''2026-02-17T18:00:00.000Z''), Some (JNum 1800))"
proof -
  have r: "runtime laterEnv = runtime upEnv"
    by (simp add: laterEnv_def)
  have "\<bar>1771349400000 :: int\<bar> \<le> 8640000000000000"
    "\<bar>1771349400000 + 1800 * 1000 :: int\<bar> \<le> 8640000000000000"
    by simp_all
  from plus_seconds_exact[OF this]
  have "plusSeconds (Some 1771349400000) (Some 1800) = Some 1771351200000"
    by (simp add: plusSeconds_def dateOfNumber_def toInteger_def del: of_int_add of_int_mult)
  then show ?thesis
    using create_entry_dates(1,4) create_entry_arguments(11,12)
    by (simp add: r stopAndDuration_def toISOString_def attempt_Inr andThen_succeed
        del: newDate.simps)
qed

lemma renamed_examples:
  "fst (get (cacheConfig renamedEnv) (now renamedEnv) (Workspace, te_workspace_id entry100)
         (entries (cache warmedState))) = Some \<lparr>ent_name = ''Acme'', ent_client_id = None\<rparr>"
  "fst (get (cacheConfig renamedEnv) (now renamedEnv) (Project, 10)
         (entries (cache warmedState))) = Some \<lparr>ent_name = ''Website'', ent_client_id = Some 5\<rparr>"
  "getProject (api renamedEnv) 10 = Inr (Some (website\<lparr>pr_name := ''Website 2''\<rparr>))"
  by (simp_all add: warmedState_value renamedEnv_def upEnv_def get_def defaultConfig_def
        entry100_def invalidate_def)

theorem project_and_client_writes_clear_the_cache_witness:
  "entries (cache warmedState) \<noteq> []
   \<and> (\<exists>r. fst (callTool laterEnv ''toggl_create_client'' newClient warmedState) = Inr r)
   \<and> cache (snd (handleCallTool laterEnv ''toggl_create_client'' newClient warmedState)) =
       \<lparr>entries = [], hits = 0, misses = 0, evictions = 0\<rparr>
   \<and> (\<exists>r. fst (callTool laterEnv ''toggl_create_project'' newProject warmedState) = Inr r)
   \<and> cache (snd (handleCallTool laterEnv ''toggl_create_project'' newProject warmedState)) =
       \<lparr>entries = [], hits = 0, misses = 0, evictions = 0\<rparr>
   \<and> \<not> cacheWarmed (snd (handleCallTool laterEnv ''toggl_create_project'' newProject warmedState))
   \<and> fst (get defaultConfig (now laterEnv) (Project, 10)
        (entries (cache (snd (handleCallTool laterEnv ''toggl_create_project'' newProject
                                warmedState))))) = None
   \<and> (\<exists>r. fst (callTool laterEnv ''toggl_update_project'' projectRename warmedState) = Inr r)
   \<and> cache (snd (handleCallTool laterEnv ''toggl_update_project'' projectRename warmedState)) =
       \<lparr>entries = [], hits = 0, misses = 0, evictions = 0\<rparr>
   \<and> cacheWarmed warmedState
   \<and> cacheWarmed (snd (handleCallTool laterEnv ''toggl_start_timer'' [] warmedState))
   \<and> cacheWarmed (snd (handleCallTool laterEnv ''toggl_delete_time_entry'' entryUpdate warmedState))
   \<and> handleCallTool laterEnv ''toggl_start_timer'' [] warmedState =
       respondHydrated laterEnv ''Timer started'' entry100
         (warmedState\<lparr>calls := calls warmedState @
            [Call ''startTimer'' [JNum 1, JNull, JNull, JNull, JNull]]\<rparr>)
   \<and> handleCallTool laterEnv ''toggl_create_entry'' entryWithDuration warmedState =
       respondHydrated laterEnv ''Time entry created'' entry100
         (warmedState\<lparr>calls := calls warmedState @
            [Call ''createTimeEntry''
               [JNum 1, JObj [(''description'', JStr ''Design''),
                              (''start'', JStr ''2026-02-17T17:30:00.000Z''),
                              (''stop'', JStr ''2026-02-17T18:00:00.000Z''),
                              (''duration'', JNum 1800)]]]\<rparr>)
   \<and> handleCallTool runningEnv ''toggl_stop_timer'' [] warmedState =
       respondHydrated runningEnv ''Timer stopped'' entry100
         (warmedState\<lparr>calls := calls warmedState @
            [Call ''getCurrentTimeEntry'' [], Call ''stopTimer'' [JNum 1, JNum 100]]\<rparr>)
   \<and> handleCallTool laterEnv ''toggl_update_time_entry'' entryUpdate warmedState =
       respondHydrated laterEnv ''Time entry updated'' entry100
         (warmedState\<lparr>calls := calls warmedState @
            [Call ''updateTimeEntry''
               [JNum 1, JNum 100, JObj [(''description'', JStr ''Design'')]]]\<rparr>)
   \<and> getProject (api renamedEnv) 10 = Inr (Some (website\<lparr>pr_name := ''Website 2''\<rparr>))
   \<and> workspace_name (fst (hydrateEntry renamedEnv entry100 warmedState)) = ''Acme''
   \<and> project_name (fst (hydrateEntry renamedEnv entry100 warmedState)) = Some ''Website''"
proof -
  note E = time_entry_write_examples
  note R = renamed_examples
  have w: "entries (cache warmedState) \<noteq> []"
    by (simp add: warmedState_value)
  have "case fst (callTool laterEnv ''toggl_create_client'' newClient warmedState) of
          Inr r \<Rightarrow> True | Inl e \<Rightarrow> False"
    by code_simp
  then have f1: "\<exists>r. fst (callTool laterEnv ''toggl_create_client'' newClient warmedState) = Inr r"
    by (simp split: sum.splits)
  have "case fst (callTool laterEnv ''toggl_create_project'' newProject warmedState) of
          Inr r \<Rightarrow> True | Inl e \<Rightarrow> False"
    by code_simp
  then have f2: "\<exists>r. fst (callTool laterEnv ''toggl_create_project'' newProject warmedState) = Inr r"
    by (simp split: sum.splits)
  have "case fst (callTool laterEnv ''toggl_update_project'' projectRename warmedState) of
          Inr r \<Rightarrow> True | Inl e \<Rightarrow> False"
    by code_simp
  then have f3: "\<exists>r. fst (callTool laterEnv ''toggl_update_project'' projectRename warmedState) = Inr r"
    by (simp split: sum.splits)
  note T = project_and_client_writes_clear_the_cache
  from T[where ev = laterEnv and a = newClient and st = warmedState, THEN conjunct1] f1
  have a1: "cache (snd (handleCallTool laterEnv ''toggl_create_client'' newClient warmedState)) =
       \<lparr>entries = [], hits = 0, misses = 0, evictions = 0\<rparr>"
    by blast
  from T[where ev = laterEnv and a = newProject and st = warmedState, THEN conjunct2,
      THEN conjunct1] f2
  have a2: "cache (snd (handleCallTool laterEnv ''toggl_create_project'' newProject warmedState)) =
       \<lparr>entries = [], hits = 0, misses = 0, evictions = 0\<rparr>"
    and a3: "\<not> cacheWarmed (snd (handleCallTool laterEnv ''toggl_create_project'' newProject warmedState))"
    and a4: "fst (get defaultConfig (now laterEnv) (Project, 10)
        (entries (cache (snd (handleCallTool laterEnv ''toggl_create_project'' newProject
                                warmedState))))) = None"
    by blast+
  from T[where ev = laterEnv and a = projectRename and st = warmedState, THEN conjunct2,
      THEN conjunct2, THEN conjunct1] f3
  have a5: "cache (snd (handleCallTool laterEnv ''toggl_update_project'' projectRename warmedState)) =
       \<lparr>entries = [], hits = 0, misses = 0, evictions = 0\<rparr>"
    by blast
  have tw: "truthy (Some (JNum 1))" and ts: "truthy (Some (JStr ''2026-02-17T17:30:00.000Z''))"
    and ti: "truthy (Some (JNum 100))"
    by simp_all
  note b1 = T[where ev = laterEnv and a = "[]" and st = warmedState, THEN conjunct2,
      THEN conjunct2, THEN conjunct2, THEN conjunct2, THEN conjunct2, THEN conjunct1,
      THEN mp, OF E(1), THEN conjunct1]
  note b2 = T[where ev = laterEnv and a = entryUpdate and st = warmedState, THEN conjunct2,
      THEN conjunct2, THEN conjunct2, THEN conjunct2, THEN conjunct2, THEN conjunct1,
      THEN mp, OF E(1), THEN conjunct2, THEN conjunct2, THEN conjunct2, THEN conjunct2]
  from T[where ev = laterEnv and a = "[]" and st = warmedState, THEN conjunct2,
      THEN conjunct2, THEN conjunct2, THEN conjunct2, THEN conjunct2, THEN conjunct2,
      THEN conjunct1, rule_format, OF conjI[OF E(1) conjI[OF E(2) conjI[OF tw E(3)]]]]
  have c1: "handleCallTool laterEnv ''toggl_start_timer'' [] warmedState =
       respondHydrated laterEnv ''Timer started'' entry100
         (warmedState\<lparr>calls := calls warmedState @
            [Call ''startTimer'' [JNum 1, JNull, JNull, JNull, JNull]]\<rparr>)"
    by (simp add: arg_def optJson_def)
  from T[where ev = laterEnv and a = entryWithDuration and st = warmedState, THEN conjunct2,
      THEN conjunct2, THEN conjunct2, THEN conjunct2, THEN conjunct2, THEN conjunct2,
      THEN conjunct2, THEN conjunct1, rule_format,
      OF conjI[OF E(1) conjI[OF E(4) conjI[OF tw conjI[OF E(5) conjI[OF ts
         conjI[OF duration_example E(6)]]]]]]]
  have c2: "handleCallTool laterEnv ''toggl_create_entry'' entryWithDuration warmedState =
       respondHydrated laterEnv ''Time entry created'' entry100
         (warmedState\<lparr>calls := calls warmedState @
            [Call ''createTimeEntry''
               [JNum 1, JObj [(''description'', JStr ''Design''),
                              (''start'', JStr ''2026-02-17T17:30:00.000Z''),
                              (''stop'', JStr ''2026-02-17T18:00:00.000Z''),
                              (''duration'', JNum 1800)]]]\<rparr>)"
    by (simp add: create_entry_bodies(3))
  from T[where ev = runningEnv and a = "[]" and st = warmedState, THEN conjunct2,
      THEN conjunct2, THEN conjunct2, THEN conjunct2, THEN conjunct2, THEN conjunct2,
      THEN conjunct2, THEN conjunct2, THEN conjunct1, rule_format,
      OF conjI[OF E(1) conjI[OF E(7) E(8)]]]
  have c3: "handleCallTool runningEnv ''toggl_stop_timer'' [] warmedState =
       respondHydrated runningEnv ''Timer stopped'' entry100
         (warmedState\<lparr>calls := calls warmedState @
            [Call ''getCurrentTimeEntry'' [], Call ''stopTimer'' [JNum 1, JNum 100]]\<rparr>)"
    by (simp add: entry100_def)
  from T[where ev = laterEnv and a = entryUpdate and st = warmedState, THEN conjunct2,
      THEN conjunct2, THEN conjunct2, THEN conjunct2, THEN conjunct2, THEN conjunct2,
      THEN conjunct2, THEN conjunct2, THEN conjunct2, THEN conjunct1, rule_format,
      OF conjI[OF E(1) conjI[OF E(9) conjI[OF tw conjI[OF E(10) conjI[OF ti E(11)]]]]]]
  have c4: "handleCallTool laterEnv ''toggl_update_time_entry'' entryUpdate warmedState =
       respondHydrated laterEnv ''Time entry updated'' entry100
         (warmedState\<lparr>calls := calls warmedState @
            [Call ''updateTimeEntry''
               [JNum 1, JNum 100, JObj [(''description'', JStr ''Design'')]]]\<rparr>)"
    by (simp add: pick_def arg_def entryUpdate_def List.map_filter_simps)
  note N = T[where ev = renamedEnv and ?e0.0 = entry100 and s = warmedState, THEN conjunct2,
      THEN conjunct2, THEN conjunct2, THEN conjunct2, THEN conjunct2, THEN conjunct2,
      THEN conjunct2, THEN conjunct2, THEN conjunct2, THEN conjunct2, THEN conjunct2,
      rule_format, OF R(1)]
  from N[THEN conjunct1]
  have d1: "workspace_name (fst (hydrateEntry renamedEnv entry100 warmedState)) = ''Acme''"
    by simp
  from N[THEN conjunct2, rule_format, OF conjI[OF E(12) R(2)]]
  have d2: "project_name (fst (hydrateEntry renamedEnv entry100 warmedState)) = Some ''Website''"
    by simp
  from w f1 a1 f2 a2 a3 a4 f3 a5 E(1) b1 b2 c1 c2 c3 c4 R(3) d1 d2 show ?thesis
    by (intro conjI)
qed

text \<open>
  The claim as it stands covers time entries too. An update of a time entry through
  \<^verbatim>\<open>toggl_update_time_entry\<close>, a minute after the cache was warmed and after the project
  was renamed upstream, is followed by no invalidation: the three names of the returned
  entry are read from the cache (three hits, no upstream fetch), each stored before the
  write, the project under its old name, and the entries are still there afterwards.
\<close>

theorem time_entry_write_counterexample:
  "map (\<lambda>p. storedAt (snd p)) (entries (cache warmedState)) =
     [1771349400000, 1771349400000, 1771349400000]
   \<and> now renamedEnv = 1771349460000
   \<and> getProject (api renamedEnv) 10 = Inr (Some (website\<lparr>pr_name := ''Website 2''\<rparr>))
   \<and> handleCallTool renamedEnv ''toggl_update_time_entry'' entryUpdate warmedState =
       (Inr (JsonText (JObj
          [(''success'', JBool True), (''message'', JStr ''Time entry updated''),
           (''entry'', JObj
              [(''id'', JNum 100), (''workspace_id'', JNum 1), (''project_id'', JNum 10),
               (''description'', JStr ''Design''),
               (''start'', JStr ''2026-02-17T17:30:00.000Z''),
               (''stop'', JStr ''2026-02-17T18:00:00.000Z''),
               (''duration'', JNum 1800), (''tags'', JArr []), (''billable'', JBool False),
               (''workspace_name'', JStr ''Acme''), (''project_name'', JStr ''Website''),
               (''client_name'', JStr ''Globex'')])])),
        \<lparr>cache =
           \<lparr>entries =
              [((Workspace, 1),
                \<lparr>cached = \<lparr>ent_name = ''Acme'', ent_client_id = None\<rparr>, storedAt = 1771349400000\<rparr>),
               ((Project, 10),
                \<lparr>cached = \<lparr>ent_name = ''Website'', ent_client_id = Some 5\<rparr>, storedAt = 1771349400000\<rparr>),
               ((Client, 5),
                \<lparr>cached = \<lparr>ent_name = ''Globex'', ent_client_id = None\<rparr>, storedAt = 1771349400000\<rparr>)],
            hits = 3, misses = 0, evictions = 0\<rparr>,
         cacheWarmed = True,
         calls = [Call ''getWorkspaces'' [], Call ''getProjects'' [JNum 1], Call ''getClients'' [JNum 1],
                  Call ''updateTimeEntry'' [JNum 1, JNum 100, JObj [(''description'', JStr ''Design'')]]],
         errlog = []\<rparr>)"
  by code_simp

subsection \<open>Cache statistics\<close>

lemma cache_stats_response:
  "handleCallTool ev ''toggl_cache_stats'' a st =
     (Inr (JsonText (JObj
        [(''hits'', JNum (int (hits (cache st)))),
         (''misses'', JNum (int (misses (cache st)))),
         (''evictions'', JNum (int (evictions (cache st)))),
         (''size'', JNum (int (length (entries (cache st))))),
         (''hit_rate'', JStr (showInt (hitRate (getStats (cache st))) @ ''%'')),
         (''cache_warmed'', JBool (cacheWarmed st))])),
      st)"
  by (simp add: handleCallTool_def callTool_def toggl_cache_stats_def andThen_def perform_def
        readStats_def readCacheWarmed_def succeed_def statsFields_def obj_def getStats_def
        store_size_def)

lemma hitRate_zero: "stat_hits s + stat_misses s = 0 \<Longrightarrow> hitRate s = 0"
  by (simp add: hitRate_def fadd_def toDouble_def)

lemma hitRate_positive:
  assumes "0 < stat_hits s + stat_misses s"
  shows "hitRate s =
           mathRound (fmul (fdiv (of_nat (stat_hits s))
                              (toDouble (of_nat (stat_hits s) + of_nat (stat_misses s)))) 100)"
proof -
  from assms have "0 < (of_nat (stat_hits s) + of_nat (stat_misses s) :: rat)"
    by (metis of_nat_0_less_iff of_nat_add)
  then have "0 < fadd (of_nat (stat_hits s)) (of_nat (stat_misses s))"
    unfolding fadd_def by (rule toDouble_pos)
  then show ?thesis
    by (simp add: hitRate_def Let_def fadd_def)
qed

lemma hitRate_range:
  assumes "0 < stat_hits s + stat_misses s"
  shows "0 \<le> hitRate s" and "hitRate s \<le> 100"
proof -
  let ?h = "of_nat (stat_hits s) :: rat" and ?n = "of_nat (stat_hits s) + of_nat (stat_misses s) :: rat"
  have h: "0 \<le> ?h" "?h \<le> ?n" by simp_all
  from assms have n: "0 < ?n" by (metis of_nat_0_less_iff of_nat_add)
  from percent_range[OF h n] show "0 \<le> hitRate s" and "hitRate s \<le> 100"
    by (simp_all add: hitRate_positive[OF assms])
qed

lemma hitRate_near:
  assumes "0 < stat_hits s + stat_misses s" "stat_hits s + stat_misses s \<le> 2 ^ 44"
  shows "\<bar>rat_of_int (hitRate s) -
           100 * (rat_of_nat (stat_hits s) / rat_of_nat (stat_hits s + stat_misses s))\<bar> \<le> 1 / 2"
proof -
  let ?h = "int (stat_hits s)" and ?n = "int (stat_hits s + stat_misses s)"
  have a: "0 \<le> ?h" "?h \<le> ?n" by simp_all
  from assms(1) have b: "0 < ?n" by (simp only: of_nat_0_less_iff)
  from assms(2) have "?n \<le> int (2 ^ 44)" by (simp only: of_nat_le_iff)
  then have c: "?n \<le> 2 ^ 44" by simp
  from percent_near[OF a b c] show ?thesis
    by (simp add: hitRate_positive[OF assms(1)])
qed

text \<open>
  C7. \<^verbatim>\<open>getStats\<close> returns the counters hits, misses, evictions and the number of
  entries held. \<^verbatim>\<open>toggl_cache_stats\<close> reports them, unchanged, with \<^verbatim>\<open>cache_warmed\<close> and
  a \<^verbatim>\<open>hit_rate\<close> that is a whole percentage followed by "%": 0 when hits and misses
  are both zero, and otherwise \<^verbatim>\<open>Math.round((hits / (hits + misses)) * 100)\<close> computed on
  doubles, which is an integer between 0 and 100 and, as long as hits + misses is at
  most \<open>2\<^sup>4\<^sup>4\<close>, within half a point of 100 * hits / (hits + misses).
\<close>

theorem reported_hit_rate:
  "handleCallTool ev ''toggl_cache_stats'' a st =
     (Inr (JsonText (JObj
        [(''hits'', JNum (int (hits (cache st)))),
         (''misses'', JNum (int (misses (cache st)))),
         (''evictions'', JNum (int (evictions (cache st)))),
         (''size'', JNum (int (length (entries (cache st))))),
         (''hit_rate'', JStr (showInt (hitRate (getStats (cache st))) @ ''%'')),
         (''cache_warmed'', JBool (cacheWarmed st))])),
      st)
   \<and> getStats (cache st) =
       \<lparr>stat_hits = hits (cache st), stat_misses = misses (cache st),
        stat_evictions = evictions (cache st), stat_size = length (entries (cache st))\<rparr>
   \<and> (hits (cache st) + misses (cache st) = 0 \<longrightarrow> hitRate (getStats (cache st)) = 0)
   \<and> (0 < hits (cache st) + misses (cache st) \<longrightarrow>
        hitRate (getStats (cache st)) =
          mathRound (fmul (fdiv (of_nat (hits (cache st)))
                             (fadd (of_nat (hits (cache st))) (of_nat (misses (cache st))))) 100) \<and>
        0 \<le> hitRate (getStats (cache st)) \<and> hitRate (getStats (cache st)) \<le> 100)
   \<and> (0 < hits (cache st) + misses (cache st) \<and> hits (cache st) + misses (cache st) \<le> 2 ^ 44 \<longrightarrow>
        \<bar>rat_of_int (hitRate (getStats (cache st))) -
          100 * (rat_of_nat (hits (cache st)) / rat_of_nat (hits (cache st) + misses (cache st)))\<bar>
          \<le> 1 / 2)"
proof (intro conjI impI; (elim conjE)?)
  show "handleCallTool ev ''toggl_cache_stats'' a st =
     (Inr (JsonText (JObj
        [(''hits'', JNum (int (hits (cache st)))),
         (''misses'', JNum (int (misses (cache st)))),
         (''evictions'', JNum (int (evictions (cache st)))),
         (''size'', JNum (int (length (entries (cache st))))),
         (''hit_rate'', JStr (showInt (hitRate (getStats (cache st))) @ ''%'')),
         (''cache_warmed'', JBool (cacheWarmed st))])),
      st)"
    by (rule cache_stats_response)
  show "getStats (cache st) =
       \<lparr>stat_hits = hits (cache st), stat_misses = misses (cache st),
        stat_evictions = evictions (cache st), stat_size = length (entries (cache st))\<rparr>"
    by (simp add: getStats_def store_size_def)
next
  assume "hits (cache st) + misses (cache st) = 0"
  then show "hitRate (getStats (cache st)) = 0"
    by (intro hitRate_zero) (simp add: getStats_def)
next
  assume "0 < hits (cache st) + misses (cache st)"
  then have p: "0 < stat_hits (getStats (cache st)) + stat_misses (getStats (cache st))"
    by (simp add: getStats_def)
  from hitRate_positive[OF p]
  show "hitRate (getStats (cache st)) =
          mathRound (fmul (fdiv (of_nat (hits (cache st)))
                             (fadd (of_nat (hits (cache st))) (of_nat (misses (cache st))))) 100)"
    by (simp add: getStats_def fadd_def)
  from hitRate_range[OF p]
  show "0 \<le> hitRate (getStats (cache st))" "hitRate (getStats (cache st)) \<le> 100"
    by simp_all
next
  assume "0 < hits (cache st) + misses (cache st)" "hits (cache st) + misses (cache st) \<le> 2 ^ 44"
  then have p: "0 < stat_hits (getStats (cache st)) + stat_misses (getStats (cache st))"
      "stat_hits (getStats (cache st)) + stat_misses (getStats (cache st)) \<le> 2 ^ 44"
    by (simp_all add: getStats_def)
  from hitRate_near[OF p]
  show "\<bar>rat_of_int (hitRate (getStats (cache st))) -
          100 * (rat_of_nat (hits (cache st)) / rat_of_nat (hits (cache st) + misses (cache st)))\<bar>
          \<le> 1 / 2"
    by (simp add: getStats_def)
qed

lemma hit_rate_examples:
  "hitRate (getStats (cache oneHitTwoMisses)) = 33"
  "hitRate (getStats (cache manyLookups)) = 57"
  "showInt 33 = ''33''" "showInt 57 = ''57''" "showInt 0 = ''0''"
  by code_simp+

theorem reported_hit_rate_witness:
  "hits (cache initialState) + misses (cache initialState) = 0
   \<and> hitRate (getStats (cache initialState)) = 0
   \<and> handleCallTool upEnv ''toggl_cache_stats'' [] initialState =
       (Inr (JsonText (JObj
          [(''hits'', JNum 0), (''misses'', JNum 0), (''evictions'', JNum 0), (''size'', JNum 0),
           (''hit_rate'', JStr ''0%''), (''cache_warmed'', JBool False)])),
        initialState)
   \<and> 0 < hits (cache oneHitTwoMisses) + misses (cache oneHitTwoMisses)
   \<and> hits (cache oneHitTwoMisses) + misses (cache oneHitTwoMisses) \<le> 2 ^ 44
   \<and> \<bar>rat_of_int (hitRate (getStats (cache oneHitTwoMisses))) - 100 * (1 / 3)\<bar> \<le> 1 / 2
   \<and> handleCallTool upEnv ''toggl_cache_stats'' [] oneHitTwoMisses =
       (Inr (JsonText (JObj
          [(''hits'', JNum 1), (''misses'', JNum 2), (''evictions'', JNum 0), (''size'', JNum 0),
           (''hit_rate'', JStr ''33%''), (''cache_warmed'', JBool False)])),
        oneHitTwoMisses)
   \<and> 0 < hits (cache manyLookups) + misses (cache manyLookups)
   \<and> hits (cache manyLookups) + misses (cache manyLookups) \<le> 2 ^ 44
   \<and> 0 \<le> hitRate (getStats (cache manyLookups)) \<and> hitRate (getStats (cache manyLookups)) \<le> 100
   \<and> \<bar>rat_of_int (hitRate (getStats (cache manyLookups))) - 100 * (23 / 40)\<bar> \<le> 1 / 2
   \<and> handleCallTool upEnv ''toggl_cache_stats'' [] manyLookups =
       (Inr (JsonText (JObj
          [(''hits'', JNum 23), (''misses'', JNum 17), (''evictions'', JNum 0), (''size'', JNum 0),
           (''hit_rate'', JStr ''57%''), (''cache_warmed'', JBool False)])),
        manyLookups)"
proof -
  note E = hit_rate_examples
  note T = reported_hit_rate
  have z: "hits (cache initialState) + misses (cache initialState) = 0"
    by (simp add: initialState_def)
  have i: "hits (cache initialState) = 0" "misses (cache initialState) = 0"
      "evictions (cache initialState) = 0" "entries (cache initialState) = []"
      "cacheWarmed initialState = False"
    by (simp_all add: initialState_def)
  have c: "hits (cache oneHitTwoMisses) = 1" "misses (cache oneHitTwoMisses) = 2"
      "evictions (cache oneHitTwoMisses) = 0" "entries (cache oneHitTwoMisses) = []"
      "cacheWarmed oneHitTwoMisses = False"
    by (simp_all add: oneHitTwoMisses_def initialState_def)
  have d: "hits (cache manyLookups) = 23" "misses (cache manyLookups) = 17"
      "evictions (cache manyLookups) = 0" "entries (cache manyLookups) = []"
      "cacheWarmed manyLookups = False"
    by (simp_all add: manyLookups_def initialState_def)
  note T0 = T[where st = initialState and ev = upEnv and a = "[]"]
  note T1 = T[where st = oneHitTwoMisses and ev = upEnv and a = "[]"]
  note T2 = T[where st = manyLookups and ev = upEnv and a = "[]"]
  have a1: "hitRate (getStats (cache initialState)) = 0"
    by (rule T0[THEN conjunct2, THEN conjunct2, THEN conjunct1, THEN mp, OF z])
  from T0[THEN conjunct1]
  have a2: "handleCallTool upEnv ''toggl_cache_stats'' [] initialState =
       (Inr (JsonText (JObj
          [(''hits'', JNum 0), (''misses'', JNum 0), (''evictions'', JNum 0), (''size'', JNum 0),
           (''hit_rate'', JStr ''0%''), (''cache_warmed'', JBool False)])),
        initialState)"
    by (simp add: i a1 E(5))
  have p1: "0 < hits (cache oneHitTwoMisses) + misses (cache oneHitTwoMisses)"
    and q1: "hits (cache oneHitTwoMisses) + misses (cache oneHitTwoMisses) \<le> 2 ^ 44"
    by (simp_all add: c)
  from T1[THEN conjunct2, THEN conjunct2, THEN conjunct2, THEN conjunct2, THEN mp,
      OF conjI[OF p1 q1]]
  have b1: "\<bar>rat_of_int (hitRate (getStats (cache oneHitTwoMisses))) - 100 * (1 / 3)\<bar> \<le> 1 / 2"
    by (simp add: c)
  from T1[THEN conjunct1]
  have b2: "handleCallTool upEnv ''toggl_cache_stats'' [] oneHitTwoMisses =
       (Inr (JsonText (JObj
          [(''hits'', JNum 1), (''misses'', JNum 2), (''evictions'', JNum 0), (''size'', JNum 0),
           (''hit_rate'', JStr ''33%''), (''cache_warmed'', JBool False)])),
        oneHitTwoMisses)"
    by (simp add: c E(1) E(3))
  have p2: "0 < hits (cache manyLookups) + misses (cache manyLookups)"
    and q2: "hits (cache manyLookups) + misses (cache manyLookups) \<le> 2 ^ 44"
    by (simp_all add: d)
  note r2 = T2[THEN conjunct2, THEN conjunct2, THEN conjunct2, THEN conjunct1, THEN mp, OF p2,
      THEN conjunct2]
  from T2[THEN conjunct2, THEN conjunct2, THEN conjunct2, THEN conjunct2, THEN mp,
      OF conjI[OF p2 q2]]
  have d1: "\<bar>rat_of_int (hitRate (getStats (cache manyLookups))) - 100 * (23 / 40)\<bar> \<le> 1 / 2"
    by (simp add: d)
  from T2[THEN conjunct1]
  have d2: "handleCallTool upEnv ''toggl_cache_stats'' [] manyLookups =
       (Inr (JsonText (JObj
          [(''hits'', JNum 23), (''misses'', JNum 17), (''evictions'', JNum 0), (''size'', JNum 0),
           (''hit_rate'', JStr ''57%''), (''cache_warmed'', JBool False)])),
        manyLookups)"
    by (simp add: d E(2) E(4))
  from z a1 a2 p1 q1 b1 b2 p2 q2 r2 d1 d2 show ?thesis
    by (intro conjI) simp_all
qed

text \<open>
  The claim as it stands has the reported hit rate equal hits / (hits + misses). With
  one hit and two misses the tool reports "33%", and neither 33 nor 33 / 100 is 1 / 3.
\<close>

theorem reported_hit_rate_counterexample:
  "handleCallTool upEnv ''toggl_cache_stats'' [] oneHitTwoMisses =
     (Inr (JsonText (JObj
        [(''hits'', JNum 1), (''misses'', JNum 2), (''evictions'', JNum 0), (''size'', JNum 0),
         (''hit_rate'', JStr ''33%''), (''cache_warmed'', JBool False)])),
      oneHitTwoMisses)
   \<and> hitRate (getStats (cache oneHitTwoMisses)) = 33
   \<and> (33 :: rat) \<noteq> 1 / (1 + 2)
   \<and> (33 :: rat) / 100 \<noteq> 1 / (1 + 2)"
  by code_simp

subsection \<open>Entity Store: capacity and eviction\<close>




















subsection \<open>Hydration keeps the entries\<close>

lemma truncate_extend: "time_entry.truncate (time_entry.extend e m) = e"
  by (cases e) (simp add: time_entry.defs)

lemma hydrateEntry_entry: "time_entry.truncate (fst (hydrateEntry ev e st)) = e"
  by (simp add: hydrateEntry_def Let_def truncate_extend)

lemma hydrateTimeEntries_entries:
  "map time_entry.truncate (fst (hydrateTimeEntries ev es st)) = es"
  by (induction es arbitrary: st) (simp_all add: Let_def hydrateEntry_entry)

lemma hydrateTimeEntries_nth:
  "i < length es \<Longrightarrow> \<exists>st'. fst (hydrateTimeEntries ev es st) ! i = fst (hydrateEntry ev (es ! i) st')"
proof (induction es arbitrary: st i)
  case Nil
  then show ?case by simp
next
  case (Cons e es)
  show ?case
  proof (cases i)
    case 0
    then show ?thesis by (auto simp: Let_def)
  next
    case (Suc j)
    with Cons.prems have "j < length es" by simp
    from Cons.IH[OF this, of "snd (hydrateEntry ev e st)"] Suc show ?thesis
      by (simp add: Let_def)
  qed
qed

text \<open>
  C4. For every list of time entries, the empty list included, \<^verbatim>\<open>hydrateTimeEntries\<close>
  returns a list of the same length in the same order: forgetting the three name fields
  of the output gives back the input, so that the i-th output is the i-th input entry
  with name fields added (it is the hydration of that entry), and no entry is dropped
  or added.
\<close>

theorem hydrate_preserves_entries:
  "hydrateTimeEntries ev [] st = ([], st)
   \<and> length (fst (hydrateTimeEntries ev es st)) = length es
   \<and> map time_entry.truncate (fst (hydrateTimeEntries ev es st)) = es
   \<and> (\<forall>i < length es.
        time_entry.truncate (fst (hydrateTimeEntries ev es st) ! i) = es ! i \<and>
        (\<exists>st'. fst (hydrateTimeEntries ev es st) ! i = fst (hydrateEntry ev (es ! i) st')))"
proof (intro conjI allI impI)
  show "hydrateTimeEntries ev [] st = ([], st)" by simp
  have m: "map time_entry.truncate (fst (hydrateTimeEntries ev es st)) = es"
    by (rule hydrateTimeEntries_entries)
  then show "map time_entry.truncate (fst (hydrateTimeEntries ev es st)) = es" .
  from m have "length (map time_entry.truncate (fst (hydrateTimeEntries ev es st))) = length es"
    by simp
  then show l: "length (fst (hydrateTimeEntries ev es st)) = length es"
    by simp
  fix i
  assume i: "i < length es"
  from m have "map time_entry.truncate (fst (hydrateTimeEntries ev es st)) ! i = es ! i"
    by simp
  with i l show "time_entry.truncate (fst (hydrateTimeEntries ev es st) ! i) = es ! i"
    by simp
  from i show "\<exists>st'. fst (hydrateTimeEntries ev es st) ! i = fst (hydrateEntry ev (es ! i) st')"
    by (rule hydrateTimeEntries_nth)
qed

lemma hydrate_two_entries:
  "map (\<lambda>h. (te_id h, workspace_name h, project_name h, client_name h))
     (fst (hydrateTimeEntries upEnv [entry100, entry101] initialState)) =
     [(100, ''Acme'', Some ''Website'', Some ''Globex''), (101, ''Acme'', None, None)]"
  by code_simp

theorem hydrate_preserves_entries_witness:
  "(1::nat) < length [entry100, entry101]
   \<and> time_entry.truncate (fst (hydrateTimeEntries upEnv [entry100, entry101] initialState) ! 1) =
       entry101
   \<and> map (\<lambda>h. (te_id h, workspace_name h, project_name h, client_name h))
       (fst (hydrateTimeEntries upEnv [entry100, entry101] initialState)) =
       [(100, ''Acme'', Some ''Website'', Some ''Globex''), (101, ''Acme'', None, None)]"
proof -
  have i: "(1::nat) < length [entry100, entry101]"
    by simp
  note T = hydrate_preserves_entries[where ev = upEnv and es = "[entry100, entry101]"
      and st = initialState]
  from T i
  have "time_entry.truncate (fst (hydrateTimeEntries upEnv [entry100, entry101] initialState) ! 1) =
          [entry100, entry101] ! 1"
    by blast
  then have "time_entry.truncate (fst (hydrateTimeEntries upEnv [entry100, entry101] initialState) ! 1) =
          entry101"
    by simp
  with i hydrate_two_entries show ?thesis
    by (intro conjI)
qed

subsection \<open>A failed lookup gives the placeholder\<close>

lemma lookupEntity_None_iff:
  "fst (lookupEntity ev kd i st) = None \<longleftrightarrow>
     fst (get (cacheConfig ev) (now ev) (kd, i) (entries (cache st))) = None \<and>
     (\<forall>v. fetchEntity (api ev) kd i \<noteq> Inr (Some v))"
  by (auto simp: lookupEntity_def Let_def split: option.splits sum.splits)

lemma lookupEntity_unresolved:
  assumes "fst (get (cacheConfig ev) (now ev) (kd, i) (entries (cache st))) = None"
    and "\<forall>v. fetchEntity (api ev) kd i \<noteq> Inr (Some v)"
  shows "lookupEntity ev kd i st =
           (None, st\<lparr>cache := (cache st)\<lparr>entries := snd (get (cacheConfig ev) (now ev) (kd, i) (entries (cache st))),
                                          misses := misses (cache st) + 1\<rparr>,
                      calls := calls st @ [Call (fetchName kd) [JNum i]]\<rparr>)"
  using assms by (auto simp: lookupEntity_def Let_def split: option.splits sum.splits)

lemma lookupEntity_fetched:
  assumes "fst (get (cacheConfig ev) (now ev) (kd, i) (entries (cache st))) = None"
    and "fetchEntity (api ev) kd i = Inr (Some v)"
  shows "lookupEntity ev kd i st =
           (Some v,
            st\<lparr>cache := cachePut (cacheConfig ev) (now ev) (kd, i) v
                          ((cache st)\<lparr>entries := snd (get (cacheConfig ev) (now ev) (kd, i) (entries (cache st))),
                                      misses := misses (cache st) + 1\<rparr>),
               calls := calls st @ [Call (fetchName kd) [JNum i]]\<rparr>)"
  using assms by (simp add: lookupEntity_def Let_def)

lemma fetchEntity_delivered:
  "delivered a kd i = None \<longleftrightarrow> (\<forall>v. fetchEntity a kd i \<noteq> Inr (Some v))"
  "fetchEntity a kd i = Inr (Some v) \<Longrightarrow> delivered a kd i = Some (ent_name v)"
  "delivered a kd i = Some n \<Longrightarrow> \<exists>v. fetchEntity a kd i = Inr (Some v) \<and> ent_name v = n"
  by (cases kd; cases "getWorkspace a i"; cases "getProject a i"; cases "getClient a i";
      auto simp: workspaceEntity_def projectEntity_def clientEntity_def split: option.splits)+

lemma fetchEntity_client:
  "fetchEntity a Project i = Inr (Some v) \<Longrightarrow> deliveredClientId a i = ent_client_id v"
  "(\<forall>v. fetchEntity a Project i \<noteq> Inr (Some v)) \<Longrightarrow> deliveredClientId a i = None"
  by (cases "getProject a i"; auto simp: deliveredClientId_def projectEntity_def split: option.splits)+

lemma get_subset: "set (snd (get cfg n k es)) \<subseteq> set es"
proof (cases "map_of es k")
  case None
  then show ?thesis by (simp add: get_def)
next
  case (Some e)
  then have "(k, e) \<in> set es" by (rule map_of_SomeD)
  then show ?thesis
    by (auto simp: get_def Some invalidate_def)
qed

lemma get_Some_member:
  assumes "fst (get cfg n k es) = Some v"
  shows "\<exists>e. (k, e) \<in> set es \<and> cached e = v"
proof (cases "map_of es k")
  case None
  with assms show ?thesis by (simp add: get_def)
next
  case (Some e)
  then have "(k, e) \<in> set es" by (rule map_of_SomeD)
  with assms Some show ?thesis
    by (auto simp: get_def split: if_splits)
qed

lemma put_subset: "set (fst (put cfg t k v es)) \<subseteq> insert (k, \<lparr>cached = v, storedAt = t\<rparr>) (set es)"
  by (cases "invalidate k es") (auto simp: put_def Let_def evictLRU_def invalidate_def
      dest!: arg_cong[where f = set])

lemma agrees_subset: "agrees a es \<Longrightarrow> set es' \<subseteq> set es \<Longrightarrow> agrees a es'"
  by (auto simp: agrees_def list_all_iff)

lemma agrees_get: "agrees a es \<Longrightarrow> agrees a (snd (get cfg n k es))"
  by (rule agrees_subset[OF _ get_subset])

lemma agrees_put:
  assumes "agrees a es" "fetchEntity a (fst k) (snd k) = Inr (Some v)"
  shows "agrees a (fst (put cfg t k v es))"
proof -
  from assms have "agrees a ((k, \<lparr>cached = v, storedAt = t\<rparr>) # es)"
    by (simp add: agrees_def)
  then show ?thesis
    by (rule agrees_subset) (use put_subset[of cfg t k v es] in auto)
qed

lemma lookupEntity_agrees:
  assumes a: "agrees (api ev) (entries (cache st))"
  shows "agrees (api ev) (entries (cache (snd (lookupEntity ev kd i st))))"
    and "map_option ent_name (fst (lookupEntity ev kd i st)) = delivered (api ev) kd i"
    and "case_option None ent_client_id (fst (lookupEntity ev Project i st)) =
           deliveredClientId (api ev) i"
proof -
  let ?g = "get (cacheConfig ev) (now ev) (kd, i) (entries (cache st))"
  have hit: "fetchEntity (api ev) k j = Inr (Some v)"
    if "fst (get (cacheConfig ev) (now ev) (k, j) (entries (cache st))) = Some v" for k j v
  proof -
    from get_Some_member[OF that] obtain e where "((k, j), e) \<in> set (entries (cache st))"
      "cached e = v" by blast
    with a show ?thesis
      by (auto simp: agrees_def list_all_iff)
  qed
  have res: "fst (lookupEntity ev k j st) =
      (case fetchEntity (api ev) k j of Inr (Some v) \<Rightarrow> Some v | _ \<Rightarrow> None)" for k j
  proof (cases "fst (get (cacheConfig ev) (now ev) (k, j) (entries (cache st)))")
    case None
    then show ?thesis
      by (simp add: lookupEntity_def Let_def split: sum.splits option.splits)
  next
    case (Some v)
    from hit[OF Some] Some show ?thesis
      by (simp add: lookupEntity_def Let_def)
  qed
  from agrees_get[OF a] have g: "agrees (api ev) (snd ?g)" .
  show "agrees (api ev) (entries (cache (snd (lookupEntity ev kd i st))))"
  proof (cases "fst ?g")
    case (Some v)
    with g show ?thesis by (simp add: lookupEntity_def Let_def)
  next
    case None
    show ?thesis
    proof (cases "\<exists>v. fetchEntity (api ev) kd i = Inr (Some v)")
      case True
      then obtain v where v: "fetchEntity (api ev) kd i = Inr (Some v)" by blast
      from agrees_put[OF g, of "(kd, i)" v] v
      show ?thesis
        by (simp add: lookupEntity_fetched[OF None v] cachePut_def Let_def)
    next
      case False
      then have "\<forall>v. fetchEntity (api ev) kd i \<noteq> Inr (Some v)" by simp
      from lookupEntity_unresolved[OF None this] g show ?thesis by simp
    qed
  qed
  show "map_option ent_name (fst (lookupEntity ev kd i st)) = delivered (api ev) kd i"
  proof (cases "delivered (api ev) kd i")
    case None
    with fetchEntity_delivered(1)[of "api ev" kd i]
    have "\<forall>v. fetchEntity (api ev) kd i \<noteq> Inr (Some v)" by blast
    then show ?thesis
      by (auto simp: res None split: sum.splits option.splits)
  next
    case (Some n)
    from fetchEntity_delivered(3)[OF Some] Some show ?thesis
      by (auto simp: res)
  qed
  show "case_option None ent_client_id (fst (lookupEntity ev Project i st)) =
           deliveredClientId (api ev) i"
  proof (cases "\<exists>v. fetchEntity (api ev) Project i = Inr (Some v)")
    case True
    then obtain v where v: "fetchEntity (api ev) Project i = Inr (Some v)" by blast
    from fetchEntity_client(1)[OF v] show ?thesis
      by (simp add: res v del: fetchEntity.simps)
  next
    case False
    then have n: "\<forall>v. fetchEntity (api ev) Project i \<noteq> Inr (Some v)" by simp
    from fetchEntity_client(2)[OF n] n show ?thesis
      by (auto simp: res simp del: fetchEntity.simps split: sum.splits option.splits)
  qed
qed

lemma lookupName_agrees:
  assumes "agrees (api ev) (entries (cache st))"
  shows "agrees (api ev) (entries (cache (snd (lookupName ev kd i st))))"
    and "fst (lookupName ev kd i st) = nameOr (delivered (api ev) kd i)"
proof -
  from lookupEntity_agrees(1)[OF assms]
  show "agrees (api ev) (entries (cache (snd (lookupName ev kd i st))))"
    by (simp add: lookupName_def Let_def)
  from lookupEntity_agrees(2)[OF assms, of kd i, symmetric]
  show "fst (lookupName ev kd i st) = nameOr (delivered (api ev) kd i)"
    by (cases "fst (lookupEntity ev kd i st)") (simp_all add: lookupName_def Let_def nameOr_def)
qed

lemma hydrateEntry_agrees:
  assumes a: "agrees (api ev) (entries (cache st))"
  shows "agrees (api ev) (entries (cache (snd (hydrateEntry ev e st))))"
    and "workspace_name (fst (hydrateEntry ev e st)) =
           nameOr (delivered (api ev) Workspace (te_workspace_id e))"
    and "project_name (fst (hydrateEntry ev e st)) =
           map_option (\<lambda>pid. nameOr (delivered (api ev) Project pid)) (te_project_id e)"
    and "client_name (fst (hydrateEntry ev e st)) =
           (case te_project_id e of
              None \<Rightarrow> None
            | Some pid \<Rightarrow> map_option (\<lambda>cid. nameOr (delivered (api ev) Client cid))
                           (deliveredClientId (api ev) pid))"
proof -
  let ?w = "lookupName ev Workspace (te_workspace_id e) st"
  note w = lookupName_agrees[OF a, of Workspace "te_workspace_id e"]
  have "agrees (api ev) (entries (cache (snd (hydrateEntry ev e st)))) \<and>
        workspace_name (fst (hydrateEntry ev e st)) =
           nameOr (delivered (api ev) Workspace (te_workspace_id e)) \<and>
        project_name (fst (hydrateEntry ev e st)) =
           map_option (\<lambda>pid. nameOr (delivered (api ev) Project pid)) (te_project_id e) \<and>
        client_name (fst (hydrateEntry ev e st)) =
           (case te_project_id e of
              None \<Rightarrow> None
            | Some pid \<Rightarrow> map_option (\<lambda>cid. nameOr (delivered (api ev) Client cid))
                           (deliveredClientId (api ev) pid))"
  proof (cases "te_project_id e")
    case None
    with w show ?thesis
      by (simp add: hydrateEntry_def Let_def getWorkspaceName_def time_entry.defs
          del: delivered.simps)
  next
    case (Some pid)
    let ?p = "lookupEntity ev Project pid (snd ?w)"
    note p = lookupEntity_agrees(1)[OF w(1), of Project pid]
      lookupEntity_agrees(2)[OF w(1), of Project pid, symmetric]
      lookupEntity_agrees(3)[OF w(1), of pid, symmetric]
    show ?thesis
    proof (cases "fst ?p")
      case None
      with p(2,3) have d: "delivered (api ev) Project pid = None"
        "deliveredClientId (api ev) pid = None"
        by simp_all
      from w p(1) None show ?thesis
        by (simp add: hydrateEntry_def Let_def getWorkspaceName_def time_entry.defs Some d
            nameOr_def del: delivered.simps)
    next
      case pv: (Some pv)
      with p(2,3) have d: "delivered (api ev) Project pid = Some (ent_name pv)"
        "deliveredClientId (api ev) pid = ent_client_id pv"
        by simp_all
      show ?thesis
      proof (cases "ent_client_id pv")
        case None
        with w p(1) pv show ?thesis
          by (simp add: hydrateEntry_def Let_def getWorkspaceName_def time_entry.defs Some d
              nameOr_def del: delivered.simps)
      next
        case cid: (Some cid)
        note c = lookupName_agrees[OF p(1), of Client cid]
        from w pv cid c show ?thesis
          by (simp add: hydrateEntry_def Let_def getWorkspaceName_def getClientName_def
              time_entry.defs Some d nameOr_def del: delivered.simps)
      qed
    qed
  qed
  then show "agrees (api ev) (entries (cache (snd (hydrateEntry ev e st))))"
    and "workspace_name (fst (hydrateEntry ev e st)) =
           nameOr (delivered (api ev) Workspace (te_workspace_id e))"
    and "project_name (fst (hydrateEntry ev e st)) =
           map_option (\<lambda>pid. nameOr (delivered (api ev) Project pid)) (te_project_id e)"
    and "client_name (fst (hydrateEntry ev e st)) =
           (case te_project_id e of
              None \<Rightarrow> None
            | Some pid \<Rightarrow> map_option (\<lambda>cid. nameOr (delivered (api ev) Client cid))
                           (deliveredClientId (api ev) pid))"
    by simp_all
qed

lemma hydrateTimeEntries_agrees:
  "agrees (api ev) (entries (cache st)) \<Longrightarrow> i < length es \<Longrightarrow>
     workspace_name (fst (hydrateTimeEntries ev es st) ! i) =
       nameOr (delivered (api ev) Workspace (te_workspace_id (es ! i))) \<and>
     project_name (fst (hydrateTimeEntries ev es st) ! i) =
       map_option (\<lambda>pid. nameOr (delivered (api ev) Project pid)) (te_project_id (es ! i)) \<and>
     client_name (fst (hydrateTimeEntries ev es st) ! i) =
       (case te_project_id (es ! i) of
          None \<Rightarrow> None
        | Some pid \<Rightarrow> map_option (\<lambda>cid. nameOr (delivered (api ev) Client cid))
                       (deliveredClientId (api ev) pid))"
proof (induction es arbitrary: st i)
  case Nil
  then show ?case by simp
next
  case (Cons e es)
  note h = hydrateEntry_agrees[OF Cons.prems(1), of e]
  show ?case
  proof (cases i)
    case 0
    with h(2,3,4) show ?thesis
      by (simp add: Let_def)
  next
    case (Suc j)
    with Cons.prems have "j < length es" by simp
    from Cons.IH[OF h(1) this] Suc show ?thesis
      by (simp add: Let_def)
  qed
qed

text \<open>
  C5. The three name lookups are \<^verbatim>\<open>lookupName\<close> at their kind. When the store has no
  valid entry for the entity and the upstream delivers no name for it (the single-entity
  fetch fails, or gives the not-found signal), the lookup returns the placeholder
  \<^verbatim>\<open>Unknown\<close>, increments \<^verbatim>\<open>misses\<close> by one, leaves \<^verbatim>\<open>hits\<close> alone, has made exactly the
  one upstream call and has stored nothing. When the store has no valid entry and the
  upstream delivers the entity, the lookup returns the name delivered, with the same
  count and call. When the store has a valid entry, the lookup returns its name,
  increments \<^verbatim>\<open>hits\<close> by one and calls nothing. A batch hydration returns one hydrated
  entry per input whatever the lookups do. From a store that agrees with the upstream,
  the names of the i-th entry returned are those the upstream delivers for the
  workspace, the project and the client of the i-th input, each replaced by the
  placeholder exactly when the upstream delivers none: the project name is there only
  when the entry has a project, the client name only when the upstream delivers the
  project and the project has a client.
\<close>

theorem lookup_failure_gives_placeholder:
  "(\<forall>kd i.
      fst (get (cacheConfig ev) (now ev) (kd, i) (entries (cache st))) = None \<and>
      delivered (api ev) kd i = None \<longrightarrow>
        fst (lookupName ev kd i st) = placeholder \<and>
        misses (cache (snd (lookupName ev kd i st))) = misses (cache st) + 1 \<and>
        hits (cache (snd (lookupName ev kd i st))) = hits (cache st) \<and>
        newCalls st (snd (lookupName ev kd i st)) = [Call (fetchName kd) [JNum i]] \<and>
        entries (cache (snd (lookupName ev kd i st))) =
          snd (get (cacheConfig ev) (now ev) (kd, i) (entries (cache st))))
   \<and> (\<forall>kd i n.
        fst (get (cacheConfig ev) (now ev) (kd, i) (entries (cache st))) = None \<and>
        delivered (api ev) kd i = Some n \<longrightarrow>
          fst (lookupName ev kd i st) = n \<and>
          misses (cache (snd (lookupName ev kd i st))) = misses (cache st) + 1 \<and>
          hits (cache (snd (lookupName ev kd i st))) = hits (cache st) \<and>
          newCalls st (snd (lookupName ev kd i st)) = [Call (fetchName kd) [JNum i]])
   \<and> (\<forall>kd i v.
        fst (get (cacheConfig ev) (now ev) (kd, i) (entries (cache st))) = Some v \<longrightarrow>
          fst (lookupName ev kd i st) = ent_name v \<and>
          hits (cache (snd (lookupName ev kd i st))) = hits (cache st) + 1 \<and>
          misses (cache (snd (lookupName ev kd i st))) = misses (cache st) \<and>
          newCalls st (snd (lookupName ev kd i st)) = [])
   \<and> placeholder = ''Unknown''
   \<and> getWorkspaceName ev = lookupName ev Workspace
   \<and> getProjectName ev = lookupName ev Project
   \<and> getClientName ev = lookupName ev Client
   \<and> length (fst (hydrateTimeEntries ev es st)) = length es
   \<and> (agrees (api ev) (entries (cache st)) \<longrightarrow>
        (\<forall>i < length es.
           workspace_name (fst (hydrateTimeEntries ev es st) ! i) =
             nameOr (delivered (api ev) Workspace (te_workspace_id (es ! i))) \<and>
           project_name (fst (hydrateTimeEntries ev es st) ! i) =
             map_option (\<lambda>pid. nameOr (delivered (api ev) Project pid)) (te_project_id (es ! i)) \<and>
           client_name (fst (hydrateTimeEntries ev es st) ! i) =
             (case te_project_id (es ! i) of
                None \<Rightarrow> None
              | Some pid \<Rightarrow> map_option (\<lambda>cid. nameOr (delivered (api ev) Client cid))
                             (deliveredClientId (api ev) pid))))
   \<and> nameOr None = placeholder
   \<and> (\<forall>n. nameOr (Some n) = n)"
proof (intro conjI allI impI; (elim conjE)?)
  fix kd i
  assume a: "fst (get (cacheConfig ev) (now ev) (kd, i) (entries (cache st))) = None"
    and d: "delivered (api ev) kd i = None"
  from d fetchEntity_delivered(1)[of "api ev" kd i]
  have "\<forall>v. fetchEntity (api ev) kd i \<noteq> Inr (Some v)"
    by blast
  note l = lookupEntity_unresolved[OF a this]
  show "fst (lookupName ev kd i st) = placeholder"
    by (simp add: lookupName_def Let_def l)
  show "misses (cache (snd (lookupName ev kd i st))) = misses (cache st) + 1"
    by (simp add: lookupName_def Let_def l)
  show "hits (cache (snd (lookupName ev kd i st))) = hits (cache st)"
    by (simp add: lookupName_def Let_def l)
  show "newCalls st (snd (lookupName ev kd i st)) = [Call (fetchName kd) [JNum i]]"
    by (simp add: lookupName_def Let_def l newCalls_def)
  show "entries (cache (snd (lookupName ev kd i st))) =
          snd (get (cacheConfig ev) (now ev) (kd, i) (entries (cache st)))"
    by (simp add: lookupName_def Let_def l)
next
  fix kd i n
  assume a: "fst (get (cacheConfig ev) (now ev) (kd, i) (entries (cache st))) = None"
    and d: "delivered (api ev) kd i = Some n"
  from fetchEntity_delivered(3)[OF d] obtain v where
    v: "fetchEntity (api ev) kd i = Inr (Some v)" "ent_name v = n"
    by blast
  note l = lookupEntity_fetched[OF a v(1)]
  show "fst (lookupName ev kd i st) = n"
    by (simp add: lookupName_def Let_def l v(2))
  show "misses (cache (snd (lookupName ev kd i st))) = misses (cache st) + 1"
    by (simp add: lookupName_def Let_def l cachePut_def)
  show "hits (cache (snd (lookupName ev kd i st))) = hits (cache st)"
    by (simp add: lookupName_def Let_def l cachePut_def)
  show "newCalls st (snd (lookupName ev kd i st)) = [Call (fetchName kd) [JNum i]]"
    by (simp add: lookupName_def Let_def l newCalls_def)
next
  fix kd i v
  assume a: "fst (get (cacheConfig ev) (now ev) (kd, i) (entries (cache st))) = Some v"
  then have l: "lookupEntity ev kd i st =
      (Some v, st\<lparr>cache := (cache st)\<lparr>entries := snd (get (cacheConfig ev) (now ev) (kd, i)
                                                    (entries (cache st))),
                                       hits := hits (cache st) + 1\<rparr>\<rparr>)"
    by (simp add: lookupEntity_def Let_def)
  show "fst (lookupName ev kd i st) = ent_name v"
    by (simp add: lookupName_def Let_def l)
  show "hits (cache (snd (lookupName ev kd i st))) = hits (cache st) + 1"
    by (simp add: lookupName_def Let_def l)
  show "misses (cache (snd (lookupName ev kd i st))) = misses (cache st)"
    by (simp add: lookupName_def Let_def l)
  show "newCalls st (snd (lookupName ev kd i st)) = []"
    by (simp add: lookupName_def Let_def l newCalls_def)
next
  show "placeholder = ''Unknown''"
    by (simp add: placeholder_def)
next
  show "getWorkspaceName ev = lookupName ev Workspace" "getProjectName ev = lookupName ev Project"
    "getClientName ev = lookupName ev Client"
    by (simp_all add: fun_eq_iff getWorkspaceName_def getProjectName_def getClientName_def)
next
  have "length (map time_entry.truncate (fst (hydrateTimeEntries ev es st))) = length es"
    by (simp only: hydrateTimeEntries_entries)
  then show "length (fst (hydrateTimeEntries ev es st)) = length es"
    by simp
next
  fix i
  assume a: "agrees (api ev) (entries (cache st))" and i: "i < length es"
  note h = hydrateTimeEntries_agrees[OF a i]
  from h show "workspace_name (fst (hydrateTimeEntries ev es st) ! i) =
             nameOr (delivered (api ev) Workspace (te_workspace_id (es ! i)))"
    by (rule conjunct1)
  from h show "project_name (fst (hydrateTimeEntries ev es st) ! i) =
             map_option (\<lambda>pid. nameOr (delivered (api ev) Project pid)) (te_project_id (es ! i))"
    by (rule conjunct2[THEN conjunct1])
  from h show "client_name (fst (hydrateTimeEntries ev es st) ! i) =
             (case te_project_id (es ! i) of
                None \<Rightarrow> None
              | Some pid \<Rightarrow> map_option (\<lambda>cid. nameOr (delivered (api ev) Client cid))
                             (deliveredClientId (api ev) pid))"
    by (rule conjunct2[THEN conjunct2])
next
  show "nameOr None = placeholder"
    by (simp add: nameOr_def)
next
  fix n
  show "nameOr (Some n) = n"
    by (simp add: nameOr_def)
qed

lemma patchy_examples:
  "fst (get (cacheConfig patchyEnv) (now patchyEnv) (Project, 11)
         (entries (cache oneWorkspaceCached))) = None"
  "delivered (api patchyEnv) Project 11 = None"
  "getProject (api patchyEnv) 11 = Inl networkError"
  "fst (get (cacheConfig patchyEnv) (now patchyEnv) (Project, 10)
         (entries (cache oneWorkspaceCached))) = None"
  "delivered (api patchyEnv) Project 10 = Some ''Website''"
  "fst (get (cacheConfig patchyEnv) (now patchyEnv) (Workspace, 1)
         (entries (cache oneWorkspaceCached))) = Some (workspaceEntity acme)"
  "agrees (api patchyEnv) (entries (cache oneWorkspaceCached))"
  "misses (cache oneWorkspaceCached) = 0"
  "hits (cache oneWorkspaceCached) = 0"
  "nameOr (delivered (api patchyEnv) Workspace (te_workspace_id ([entry100, entry101, entry102] ! 0))) =
     ''Acme''"
  "map_option (\<lambda>pid. nameOr (delivered (api patchyEnv) Project pid))
     (te_project_id ([entry100, entry101, entry102] ! 0)) = Some ''Website''"
  "(case te_project_id ([entry100, entry101, entry102] ! 0) of
      None \<Rightarrow> None
    | Some pid \<Rightarrow> map_option (\<lambda>cid. nameOr (delivered (api patchyEnv) Client cid))
                   (deliveredClientId (api patchyEnv) pid)) = Some ''Unknown''"
  "map_option (\<lambda>pid. nameOr (delivered (api patchyEnv) Project pid))
     (te_project_id ([entry100, entry101, entry102] ! 1)) = None"
  "map_option (\<lambda>pid. nameOr (delivered (api patchyEnv) Project pid))
     (te_project_id ([entry100, entry101, entry102] ! 2)) = Some ''Unknown''"
  "(case te_project_id ([entry100, entry101, entry102] ! 2) of
      None \<Rightarrow> None
    | Some pid \<Rightarrow> map_option (\<lambda>cid. nameOr (delivered (api patchyEnv) Client cid))
                   (deliveredClientId (api patchyEnv) pid)) = None"
  "ent_name (workspaceEntity acme) = ''Acme''"
  "map (\<lambda>h. (te_id h, workspace_name h, project_name h, client_name h))
     (fst (hydrateTimeEntries patchyEnv [entry100, entry101, entry102] oneWorkspaceCached)) =
     [(100, ''Acme'', Some ''Website'', Some ''Unknown''), (101, ''Acme'', None, None),
      (102, ''Acme'', Some ''Unknown'', None)]"
  "misses (cache (snd (hydrateTimeEntries patchyEnv [entry100, entry101, entry102]
                         oneWorkspaceCached))) = 3"
  "hits (cache (snd (hydrateTimeEntries patchyEnv [entry100, entry101, entry102]
                         oneWorkspaceCached))) = 3"
  by code_simp+

theorem lookup_failure_gives_placeholder_witness:
  "fst (get (cacheConfig patchyEnv) (now patchyEnv) (Project, 11)
         (entries (cache oneWorkspaceCached))) = None
   \<and> getProject (api patchyEnv) 11 = Inl networkError
   \<and> delivered (api patchyEnv) Project 11 = None
   \<and> fst (lookupName patchyEnv Project 11 oneWorkspaceCached) = ''Unknown''
   \<and> misses (cache (snd (lookupName patchyEnv Project 11 oneWorkspaceCached))) = 1
   \<and> hits (cache (snd (lookupName patchyEnv Project 11 oneWorkspaceCached))) = 0
   \<and> newCalls oneWorkspaceCached (snd (lookupName patchyEnv Project 11 oneWorkspaceCached)) =
       [Call ''getProject'' [JNum 11]]
   \<and> fst (get (cacheConfig patchyEnv) (now patchyEnv) (Project, 10)
         (entries (cache oneWorkspaceCached))) = None
   \<and> delivered (api patchyEnv) Project 10 = Some ''Website''
   \<and> fst (lookupName patchyEnv Project 10 oneWorkspaceCached) = ''Website''
   \<and> misses (cache (snd (lookupName patchyEnv Project 10 oneWorkspaceCached))) = 1
   \<and> fst (get (cacheConfig patchyEnv) (now patchyEnv) (Workspace, 1)
         (entries (cache oneWorkspaceCached))) = Some (workspaceEntity acme)
   \<and> fst (lookupName patchyEnv Workspace 1 oneWorkspaceCached) = ''Acme''
   \<and> hits (cache (snd (lookupName patchyEnv Workspace 1 oneWorkspaceCached))) = 1
   \<and> misses (cache (snd (lookupName patchyEnv Workspace 1 oneWorkspaceCached))) = 0
   \<and> newCalls oneWorkspaceCached (snd (lookupName patchyEnv Workspace 1 oneWorkspaceCached)) = []
   \<and> length (fst (hydrateTimeEntries patchyEnv [entry100, entry101, entry102] oneWorkspaceCached)) = 3
   \<and> agrees (api patchyEnv) (entries (cache oneWorkspaceCached))
   \<and> workspace_name
       (fst (hydrateTimeEntries patchyEnv [entry100, entry101, entry102] oneWorkspaceCached) ! 0) =
       ''Acme''
   \<and> project_name
       (fst (hydrateTimeEntries patchyEnv [entry100, entry101, entry102] oneWorkspaceCached) ! 0) =
       Some ''Website''
   \<and> client_name
       (fst (hydrateTimeEntries patchyEnv [entry100, entry101, entry102] oneWorkspaceCached) ! 0) =
       Some ''Unknown''
   \<and> project_name
       (fst (hydrateTimeEntries patchyEnv [entry100, entry101, entry102] oneWorkspaceCached) ! 1) =
       None
   \<and> project_name
       (fst (hydrateTimeEntries patchyEnv [entry100, entry101, entry102] oneWorkspaceCached) ! 2) =
       Some ''Unknown''
   \<and> client_name
       (fst (hydrateTimeEntries patchyEnv [entry100, entry101, entry102] oneWorkspaceCached) ! 2) =
       None
   \<and> map (\<lambda>h. (te_id h, workspace_name h, project_name h, client_name h))
       (fst (hydrateTimeEntries patchyEnv [entry100, entry101, entry102] oneWorkspaceCached)) =
       [(100, ''Acme'', Some ''Website'', Some ''Unknown''), (101, ''Acme'', None, None),
        (102, ''Acme'', Some ''Unknown'', None)]
   \<and> misses (cache (snd (hydrateTimeEntries patchyEnv [entry100, entry101, entry102]
                           oneWorkspaceCached))) = 3"
proof -
  note E = patchy_examples
  note T = lookup_failure_gives_placeholder[where ev = patchyEnv and st = oneWorkspaceCached
      and es = "[entry100, entry101, entry102]"]
  note A = T[THEN conjunct1, rule_format, OF conjI[OF E(1) E(2)]]
  from A[THEN conjunct1]
  have a1: "fst (lookupName patchyEnv Project 11 oneWorkspaceCached) = ''Unknown''"
    by (simp add: placeholder_def)
  from A[THEN conjunct2, THEN conjunct1]
  have a2: "misses (cache (snd (lookupName patchyEnv Project 11 oneWorkspaceCached))) = 1"
    by (simp add: E(8))
  from A[THEN conjunct2, THEN conjunct2, THEN conjunct1]
  have a3: "hits (cache (snd (lookupName patchyEnv Project 11 oneWorkspaceCached))) = 0"
    by (simp add: E(9))
  from A[THEN conjunct2, THEN conjunct2, THEN conjunct2, THEN conjunct1]
  have a4: "newCalls oneWorkspaceCached (snd (lookupName patchyEnv Project 11 oneWorkspaceCached)) =
       [Call ''getProject'' [JNum 11]]"
    by simp
  note B = T[THEN conjunct2, THEN conjunct1, rule_format, OF conjI[OF E(4) E(5)]]
  note b1 = B[THEN conjunct1]
  from B[THEN conjunct2, THEN conjunct1]
  have b2: "misses (cache (snd (lookupName patchyEnv Project 10 oneWorkspaceCached))) = 1"
    by (simp add: E(8))
  note C = T[THEN conjunct2, THEN conjunct2, THEN conjunct1, rule_format, OF E(6)]
  from C[THEN conjunct1]
  have c1: "fst (lookupName patchyEnv Workspace 1 oneWorkspaceCached) = ''Acme''"
    by (simp only: E(16))
  from C[THEN conjunct2, THEN conjunct1]
  have c2: "hits (cache (snd (lookupName patchyEnv Workspace 1 oneWorkspaceCached))) = 1"
    by (simp add: E(9))
  from C[THEN conjunct2, THEN conjunct2, THEN conjunct1]
  have c3: "misses (cache (snd (lookupName patchyEnv Workspace 1 oneWorkspaceCached))) = 0"
    by (simp add: E(8))
  note c4 = C[THEN conjunct2, THEN conjunct2, THEN conjunct2]
  from T[THEN conjunct2, THEN conjunct2, THEN conjunct2, THEN conjunct2, THEN conjunct2,
      THEN conjunct2, THEN conjunct2, THEN conjunct1]
  have l: "length (fst (hydrateTimeEntries patchyEnv [entry100, entry101, entry102]
                          oneWorkspaceCached)) = 3"
    by simp
  note H = T[THEN conjunct2, THEN conjunct2, THEN conjunct2, THEN conjunct2, THEN conjunct2,
      THEN conjunct2, THEN conjunct2, THEN conjunct2, THEN conjunct1, rule_format, OF E(7)]
  have i: "(0::nat) < length [entry100, entry101, entry102]"
    "(1::nat) < length [entry100, entry101, entry102]"
    "(2::nat) < length [entry100, entry101, entry102]"
    by simp_all
  note h0 = H[OF i(1)] and h1 = H[OF i(2)] and h2 = H[OF i(3)]
  note d1 = h0[THEN conjunct1, unfolded E(10)]
  note d2 = h0[THEN conjunct2, THEN conjunct1, unfolded E(11)]
  note d3 = h0[THEN conjunct2, THEN conjunct2, unfolded E(12)]
  note d4 = h1[THEN conjunct2, THEN conjunct1, unfolded E(13)]
  note d5 = h2[THEN conjunct2, THEN conjunct1, unfolded E(14)]
  note d6 = h2[THEN conjunct2, THEN conjunct2, unfolded E(15)]
  from E(1) E(3) E(2) a1 a2 a3 a4 E(4) E(5) b1 b2 E(6) c1 c2 c3 c4 l E(7) d1 d2 d3 d4 d5 d6
    E(17) E(18)
  show ?thesis
    by (intro conjI)
qed
subsection \<open>The order of resolution\<close>

text \<open>
  C6. For one entry, the workspace name is always that of the workspace lookup. Without
  a \<^verbatim>\<open>project_id\<close> there is no project name and no client name, and nothing is looked
  up after the workspace. With a \<^verbatim>\<open>project_id\<close> the project is looked up in the state
  the workspace lookup left, and the project name is that of \<^verbatim>\<open>getProjectName\<close>
  there; an unresolved project, and a resolved project that carries no \<^verbatim>\<open>client_id\<close>,
  give no client name and no further lookup (the result is an ordinary hydrated entry);
  a resolved project that carries a \<^verbatim>\<open>client_id\<close> gives the client name of
  \<^verbatim>\<open>getClientName\<close> in the state the project lookup left. So the lookups run in
  the order workspace, project, client.
\<close>

theorem hydration_resolution_order:
  "(let w = getWorkspaceName ev (te_workspace_id e) st;
        h = hydrateEntry ev e st
    in workspace_name (fst h) = fst w
       \<and> (te_project_id e = None \<longrightarrow>
            project_name (fst h) = None \<and> client_name (fst h) = None \<and> snd h = snd w)
       \<and> (\<forall>pid. te_project_id e = Some pid \<longrightarrow>
            (let p = lookupEntity ev Project pid (snd w)
             in project_name (fst h) = Some (fst (getProjectName ev pid (snd w)))
                \<and> (fst p = None \<longrightarrow>
                     project_name (fst h) = Some placeholder \<and> client_name (fst h) = None \<and>
                     snd h = snd p)
                \<and> (\<forall>pv. fst p = Some pv \<and> ent_client_id pv = None \<longrightarrow>
                     project_name (fst h) = Some (ent_name pv) \<and> client_name (fst h) = None \<and>
                     snd h = snd p)
                \<and> (\<forall>pv cid. fst p = Some pv \<and> ent_client_id pv = Some cid \<longrightarrow>
                     project_name (fst h) = Some (ent_name pv) \<and>
                     client_name (fst h) = Some (fst (getClientName ev cid (snd p))) \<and>
                     snd h = snd (getClientName ev cid (snd p))))))"
  by (auto simp: hydrateEntry_def Let_def time_entry.defs getProjectName_def lookupName_def
      split: option.splits)

lemma resolution_examples:
  "te_project_id entry100 = Some 10"
  "fst (lookupEntity upEnv Project 10
         (snd (getWorkspaceName upEnv (te_workspace_id entry100) initialState))) =
     Some \<lparr>ent_name = ''Website'', ent_client_id = Some 5\<rparr>"
  "newCalls initialState (snd (hydrateEntry upEnv entry100 initialState)) =
     [Call ''getWorkspace'' [JNum 1], Call ''getProject'' [JNum 10], Call ''getClient'' [JNum 5]]"
  "fst (getClientName upEnv 5
         (snd (lookupEntity upEnv Project 10
                (snd (getWorkspaceName upEnv (te_workspace_id entry100) initialState))))) = ''Globex''"
  "te_project_id entry101 = None"
  "newCalls initialState (snd (getWorkspaceName upEnv (te_workspace_id entry101) initialState)) =
     [Call ''getWorkspace'' [JNum 1]]"
  "te_project_id entry102 = Some 11"
  "fst (lookupEntity inhouseEnv Project 11
         (snd (getWorkspaceName inhouseEnv (te_workspace_id entry102) initialState))) =
     Some \<lparr>ent_name = ''Internal'', ent_client_id = None\<rparr>"
  "newCalls initialState
     (snd (lookupEntity inhouseEnv Project 11
            (snd (getWorkspaceName inhouseEnv (te_workspace_id entry102) initialState)))) =
     [Call ''getWorkspace'' [JNum 1], Call ''getProject'' [JNum 11]]"
  "fst (lookupEntity noProjectEnv Project 10
         (snd (getWorkspaceName noProjectEnv (te_workspace_id entry100) oneWorkspaceCached))) = None"
  by code_simp+

theorem hydration_resolution_order_witness:
  "te_project_id entry100 = Some 10
   \<and> fst (lookupEntity upEnv Project 10
           (snd (getWorkspaceName upEnv (te_workspace_id entry100) initialState))) =
       Some \<lparr>ent_name = ''Website'', ent_client_id = Some 5\<rparr>
   \<and> project_name (fst (hydrateEntry upEnv entry100 initialState)) = Some ''Website''
   \<and> client_name (fst (hydrateEntry upEnv entry100 initialState)) = Some ''Globex''
   \<and> newCalls initialState (snd (hydrateEntry upEnv entry100 initialState)) =
       [Call ''getWorkspace'' [JNum 1], Call ''getProject'' [JNum 10], Call ''getClient'' [JNum 5]]
   \<and> te_project_id entry101 = None
   \<and> project_name (fst (hydrateEntry upEnv entry101 initialState)) = None
   \<and> client_name (fst (hydrateEntry upEnv entry101 initialState)) = None
   \<and> newCalls initialState (snd (hydrateEntry upEnv entry101 initialState)) =
       [Call ''getWorkspace'' [JNum 1]]
   \<and> te_project_id entry102 = Some 11
   \<and> fst (lookupEntity inhouseEnv Project 11
           (snd (getWorkspaceName inhouseEnv (te_workspace_id entry102) initialState))) =
       Some \<lparr>ent_name = ''Internal'', ent_client_id = None\<rparr>
   \<and> project_name (fst (hydrateEntry inhouseEnv entry102 initialState)) = Some ''Internal''
   \<and> client_name (fst (hydrateEntry inhouseEnv entry102 initialState)) = None
   \<and> newCalls initialState (snd (hydrateEntry inhouseEnv entry102 initialState)) =
       [Call ''getWorkspace'' [JNum 1], Call ''getProject'' [JNum 11]]
   \<and> fst (lookupEntity noProjectEnv Project 10
           (snd (getWorkspaceName noProjectEnv (te_workspace_id entry100) oneWorkspaceCached))) = None
   \<and> project_name (fst (hydrateEntry noProjectEnv entry100 oneWorkspaceCached)) = Some ''Unknown''
   \<and> client_name (fst (hydrateEntry noProjectEnv entry100 oneWorkspaceCached)) = None"
proof -
  note E = resolution_examples
  note T = hydration_resolution_order[unfolded Let_def]
  note T100 = T[where ev = upEnv and e = entry100 and st = initialState,
      THEN conjunct2, THEN conjunct2, rule_format, OF E(1)]
  have k100: "ent_client_id \<lparr>ent_name = ''Website'', ent_client_id = Some 5\<rparr> = Some 5"
    by simp
  note C100 = T100[THEN conjunct2, THEN conjunct2, THEN conjunct2, rule_format,
      OF conjI[OF E(2) k100]]
  from C100 have a: "project_name (fst (hydrateEntry upEnv entry100 initialState)) = Some ''Website''"
    "client_name (fst (hydrateEntry upEnv entry100 initialState)) = Some ''Globex''"
    by (simp_all add: E(4))
  note T101 = T[where ev = upEnv and e = entry101 and st = initialState,
      THEN conjunct2, THEN conjunct1, rule_format, OF E(5)]
  from T101 have b: "project_name (fst (hydrateEntry upEnv entry101 initialState)) = None"
    "client_name (fst (hydrateEntry upEnv entry101 initialState)) = None"
    "newCalls initialState (snd (hydrateEntry upEnv entry101 initialState)) =
       [Call ''getWorkspace'' [JNum 1]]"
    by (simp_all add: E(6))
  note T102 = T[where ev = inhouseEnv and e = entry102 and st = initialState,
      THEN conjunct2, THEN conjunct2, rule_format, OF E(7)]
  have k102: "ent_client_id \<lparr>ent_name = ''Internal'', ent_client_id = None\<rparr> = None"
    by simp
  note C102 = T102[THEN conjunct2, THEN conjunct2, THEN conjunct1, rule_format,
      OF conjI[OF E(8) k102]]
  from C102 have c: "project_name (fst (hydrateEntry inhouseEnv entry102 initialState)) = Some ''Internal''"
    "client_name (fst (hydrateEntry inhouseEnv entry102 initialState)) = None"
    "newCalls initialState (snd (hydrateEntry inhouseEnv entry102 initialState)) =
       [Call ''getWorkspace'' [JNum 1], Call ''getProject'' [JNum 11]]"
    by (simp_all add: E(9))
  note U = T[where ev = noProjectEnv and e = entry100 and st = oneWorkspaceCached,
      THEN conjunct2, THEN conjunct2, rule_format, OF E(1)]
  note V = U[THEN conjunct2, THEN conjunct1, rule_format, OF E(10)]
  from V have d: "project_name (fst (hydrateEntry noProjectEnv entry100 oneWorkspaceCached)) = Some ''Unknown''"
    "client_name (fst (hydrateEntry noProjectEnv entry100 oneWorkspaceCached)) = None"
    by (simp_all add: placeholder_def)
  from E(1) E(2) a E(3) E(5) b E(7) E(8) c E(10) d show ?thesis
    by (intro conjI)
qed

end
